theory Spec2Isabelle
  imports Complex_Main "HOL-Library.Sublist"
begin

section \<open>PrintPilot PDF API: the request handlers as state-passing programs\<close>

text \<open>
  The repository holds three copies of one Express server: \<^verbatim>\<open>src/server.js\<close>,
  \<^verbatim>\<open>src/railway-api/server.js\<close> and \<^verbatim>\<open>src/unnamed/part_000\<close>. Each handler is
  embedded as a program over an explicit state: the file system the handler and the
  external tools share, and the trace of what the handler did (commands run, files
  written, console lines).

  What is outside the repository is a parameter (\<open>env\<close>): the external binaries run by
  \<^verbatim>\<open>execSync\<close> (an arbitrary function from the command line and the file system to
  an outcome and a new file system), JavaScript's \<^verbatim>\<open>parseFloat\<close> and number-to-string
  conversion (both are floating-point routines), and the job id drawn by \<^verbatim>\<open>uuidv4\<close>.
  The theorems hold for every such environment.

  The \<^verbatim>\<open>fs\<close> calls of the server itself are modelled as Node documents them on the
  file system the tools have left: \<^verbatim>\<open>writeFileSync\<close> and \<^verbatim>\<open>copyFileSync\<close> throw when the
  directory of the file is gone or a directory is in the place of the file,
  \<^verbatim>\<open>readFileSync\<close> and \<^verbatim>\<open>copyFileSync\<close> when the file to read is missing. Two
  idealisations remain. There are no permission or disk-full errors, so that \<^verbatim>\<open>mkdirSync\<close>
  and \<^verbatim>\<open>rmSync\<close> succeed. And the job id is fresh: when a handler starts, nothing exists
  at the path of its job directory, so that \<^verbatim>\<open>mkdirSync\<close> makes a new, empty directory.
\<close>

subsection \<open>JavaScript values\<close>

type_synonym bytes = "char list"
type_synonym path = string

text \<open>
  A JavaScript number: every finite double is a rational. \<open>+0\<close> and \<open>-0\<close> are one value
  here; the code cannot tell them apart (both are falsy and both print as \<^verbatim>\<open>0\<close>).
\<close>

datatype jsnum = NaN | PInf | NInf | Num rat

fun truthy :: "jsnum \<Rightarrow> bool" where
  "truthy NaN = False"
| "truthy (Num q) = (q \<noteq> 0)"
| "truthy PInf = True"
| "truthy NInf = True"

text \<open>\<^verbatim>\<open>a || b\<close> on numbers, and on a form field that is a string or \<^verbatim>\<open>undefined\<close>.\<close>

definition js_or :: "jsnum \<Rightarrow> jsnum \<Rightarrow> jsnum" where
  "js_or a b = (if truthy a then a else b)"

definition js_or_str :: "string option \<Rightarrow> string \<Rightarrow> string" where
  "js_or_str v d = (case v of None \<Rightarrow> d | Some s \<Rightarrow> if s = [] then d else s)"

text \<open>\<^verbatim>\<open>Math.round\<close> rounds half up; unary minus.\<close>

fun Math_round :: "jsnum \<Rightarrow> jsnum" where
  "Math_round (Num q) = Num (of_int \<lfloor>q + 1 / 2\<rfloor>)"
| "Math_round n = n"

fun neg :: "jsnum \<Rightarrow> jsnum" where
  "neg (Num q) = Num (- q)"
| "neg PInf = NInf"
| "neg NInf = PInf"
| "neg NaN = NaN"

subsection \<open>Requests, responses, the file system and the environment\<close>

text \<open>A file object of multer's memory storage: the two fields the handlers read.\<close>

record upload =
  buffer :: bytes
  mimetype :: string

text \<open>
  \<^verbatim>\<open>req.files?.template?.[0]\<close> and \<^verbatim>\<open>req.files?.artwork?.[0]\<close> (\<open>None\<close> is
  \<^verbatim>\<open>undefined\<close>), and \<^verbatim>\<open>req.body\<close>, the text fields of the form.
\<close>

record request =
  files_template :: "upload option"
  files_artwork :: "upload option"
  body :: "string \<Rightarrow> string option"

text \<open>
  A response is a JSON object sent with a status, or the PDF sent by \<^verbatim>\<open>res.send\<close> with
  \<^verbatim>\<open>Content-Type: application/pdf\<close> and the file name of its \<^verbatim>\<open>Content-Disposition\<close>.
\<close>

datatype response =
    Json nat "(string \<times> string) list"
  | Pdf string bytes

record world =
  dirs :: "path set"
  files :: "path \<Rightarrow> bytes option"

text \<open>The result of one external command: its standard output, or the message of the error
  \<^verbatim>\<open>execSync\<close> throws (non-zero exit, missing binary, missing working directory,
  timeout).\<close>

datatype outcome = Ok string | Failed string

record env =
  parseFloat :: "string option \<Rightarrow> jsnum"
  toString :: "jsnum \<Rightarrow> string"
  tool :: "string \<Rightarrow> world \<Rightarrow> outcome \<times> world"
  uuidv4 :: string

text \<open>
  What a handler did, in order. \<open>Exec l c ok\<close>: the \<^verbatim>\<open>execSync\<close> call at line \<open>l\<close> of
  the handler's source file ran the command line \<open>c\<close>, and \<open>ok\<close> tells whether it returned.
  \<open>Write p b ok\<close> is a \<^verbatim>\<open>writeFileSync\<close> of \<open>b\<close> to \<open>p\<close> and whether it returned, \<open>Read p b\<close>
  a \<^verbatim>\<open>readFileSync\<close> of \<open>p\<close> that returned \<open>b\<close>, \<open>Copy src dst ok\<close> a \<^verbatim>\<open>copyFileSync\<close> and
  whether it returned, \<open>Log\<close> a line of \<^verbatim>\<open>console.log\<close>, \<^verbatim>\<open>console.error\<close> or
  \<^verbatim>\<open>console.warn\<close>.
\<close>

datatype event =
    Exec nat string bool
  | Write path bytes bool
  | Read path bytes
  | Copy path path bool
  | Log string

record state =
  fs :: world
  trace :: "event list"

subsection \<open>Programs that may throw\<close>

text \<open>\<open>Inl msg\<close> is a thrown \<^verbatim>\<open>Error\<close> whose \<^verbatim>\<open>message\<close> is \<open>msg\<close>.\<close>

type_synonym 'a prog = "state \<Rightarrow> (string + 'a) \<times> state"

definition ret :: "'a \<Rightarrow> 'a prog" where
  "ret v s = (Inr v, s)"

definition throw :: "string \<Rightarrow> 'a prog" where
  "throw msg s = (Inl msg, s)"

definition bind :: "'a prog \<Rightarrow> ('a \<Rightarrow> 'b prog) \<Rightarrow> 'b prog" where
  "bind m k s = (case m s of (Inl e, s') \<Rightarrow> (Inl e, s') | (Inr v, s') \<Rightarrow> k v s')"

definition try_catch :: "'a prog \<Rightarrow> (string \<Rightarrow> 'a prog) \<Rightarrow> 'a prog" where
  "try_catch m h s = (case m s of (Inl e, s') \<Rightarrow> h e s' | (Inr v, s') \<Rightarrow> (Inr v, s'))"

text \<open>A sequence of statements, then the rest of the body.\<close>

fun block :: "unit prog list \<Rightarrow> 'a prog \<Rightarrow> 'a prog" where
  "block [] k = k"
| "block (m # ms) k = bind m (\<lambda>_. block ms k)"

definition skip :: "unit prog" where
  "skip = ret ()"

definition emit :: "event \<Rightarrow> unit prog" where
  "emit e s = (Inr (), s\<lparr>trace := trace s @ [e]\<rparr>)"

definition console_log :: "string \<Rightarrow> unit prog" where
  "console_log line = emit (Log line)"

subsection \<open>The calls into Node and into the external tools\<close>

definition execSync :: "env \<Rightarrow> nat \<Rightarrow> string \<Rightarrow> string prog" where
  "execSync e l cmd s =
     (case tool e cmd (fs s) of
        (Ok stdout, w) \<Rightarrow> (Inr stdout, \<lparr>fs = w, trace = trace s @ [Exec l cmd True]\<rparr>)
      | (Failed msg, w) \<Rightarrow> (Inl msg, \<lparr>fs = w, trace = trace s @ [Exec l cmd False]\<rparr>))"

text \<open>An \<^verbatim>\<open>execSync\<close> whose output is not used.\<close>

definition exec :: "env \<Rightarrow> nat \<Rightarrow> string \<Rightarrow> unit prog" where
  "exec e l cmd = bind (execSync e l cmd) (\<lambda>_. ret ())"

text \<open>\<^verbatim>\<open>path.join\<close> of a directory and a name that need no normalising.\<close>

definition path_join :: "path \<Rightarrow> string \<Rightarrow> path" where
  "path_join d n = d @ ''/'' @ n"

definition TEMP_DIR :: path where
  "TEMP_DIR = ''/tmp/pdf-processing''"

text \<open>\<^verbatim>\<open>path.dirname\<close> of such a path: what precedes its last slash.\<close>

definition dirname :: "path \<Rightarrow> path" where
  "dirname p = rev (drop 1 (dropWhile (\<lambda>c. c \<noteq> CHR ''/'') (rev p)))"

text \<open>A path is under a directory when it is the directory or a path through it.\<close>

definition under :: "path \<Rightarrow> path \<Rightarrow> bool" where
  "under d p = (p = d \<or> prefix (d @ ''/'') p)"

text \<open>\<^verbatim>\<open>rmSync(d, {recursive: true, force: true})\<close>: the directory and all that is under it
  are gone.\<close>

definition rmSync :: "path \<Rightarrow> world \<Rightarrow> world" where
  "rmSync d w =
     \<lparr>dirs = {p \<in> dirs w. \<not> under d p},
      files = (\<lambda>p. if under d p then None else files w p)\<rparr>"

text \<open>
  \<^verbatim>\<open>mkdirSync(jobDir, {recursive: true})\<close> on the path of a fresh job id: nothing is at
  the path, the call makes the directory, and the directory is empty. A world that holds
  something at or under the path is not a file system a handler meets; \<open>new_dir\<close> gives it
  the new, empty directory all the same.
\<close>

definition new_dir :: "path \<Rightarrow> world \<Rightarrow> world" where
  "new_dir d w = (rmSync d w)\<lparr>dirs := insert d (dirs (rmSync d w))\<rparr>"

definition mkdirSync :: "path \<Rightarrow> unit prog" where
  "mkdirSync d s = (Inr (), s\<lparr>fs := new_dir d (fs s)\<rparr>)"

text \<open>
  The error with which opening \<open>p\<close> for writing fails, if it fails: \<open>p\<close> is a directory
  (\<^verbatim>\<open>EISDIR\<close>), or the directory of \<open>p\<close> is a file (\<^verbatim>\<open>ENOTDIR\<close>) or is missing
  (\<^verbatim>\<open>ENOENT\<close>). A tool may have left the job directory in any of these states.
\<close>

definition write_error :: "world \<Rightarrow> path \<Rightarrow> string option" where
  "write_error w p =
     (if p \<in> dirs w then Some ''EISDIR: illegal operation on a directory''
      else if dirname p \<in> dirs w then None
      else if files w (dirname p) \<noteq> None then Some ''ENOTDIR: not a directory''
      else Some ''ENOENT: no such file or directory'')"

definition quoted :: "string \<Rightarrow> string" where
  "quoted p = [CHR 0x27] @ p @ [CHR 0x27]"

definition writeFileSync :: "path \<Rightarrow> bytes \<Rightarrow> unit prog" where
  "writeFileSync p b s =
     (case write_error (fs s) p of
        None \<Rightarrow>
          (Inr (), \<lparr>fs = (fs s)\<lparr>files := (files (fs s))(p \<mapsto> b)\<rparr>,
                    trace = trace s @ [Write p b True]\<rparr>)
      | Some err \<Rightarrow>
          (Inl (err @ '', open '' @ quoted p), s\<lparr>trace := trace s @ [Write p b False]\<rparr>))"

definition exists_in :: "world \<Rightarrow> path \<Rightarrow> bool" where
  "exists_in w p = (p \<in> dirs w \<or> files w p \<noteq> None)"

definition existsSync :: "path \<Rightarrow> bool prog" where
  "existsSync p s = (Inr (exists_in (fs s) p), s)"

definition readFileSync :: "path \<Rightarrow> bytes prog" where
  "readFileSync p s =
     (case files (fs s) p of
        Some b \<Rightarrow> (Inr b, s\<lparr>trace := trace s @ [Read p b]\<rparr>)
      | None \<Rightarrow>
          if p \<in> dirs (fs s) then (Inl ''EISDIR: illegal operation on a directory, read'', s)
          else (Inl (''ENOENT: no such file or directory, open '' @ quoted p), s))"

text \<open>\<^verbatim>\<open>copyFileSync\<close> reads the source and opens the destination for writing; either can
  fail.\<close>

definition copyFileSync :: "path \<Rightarrow> path \<Rightarrow> unit prog" where
  "copyFileSync src dst s =
     (case files (fs s) src of
        Some b \<Rightarrow>
          (case write_error (fs s) dst of
             None \<Rightarrow>
               (Inr (), \<lparr>fs = (fs s)\<lparr>files := (files (fs s))(dst \<mapsto> b)\<rparr>,
                         trace = trace s @ [Copy src dst True]\<rparr>)
           | Some err \<Rightarrow>
               (Inl (err @ '', copyfile '' @ quoted src @ '' -> '' @ quoted dst),
                s\<lparr>trace := trace s @ [Copy src dst False]\<rparr>))
      | None \<Rightarrow>
          (Inl ((if src \<in> dirs (fs s) then ''EISDIR: illegal operation on a directory''
                 else ''ENOENT: no such file or directory'')
                @ '', copyfile '' @ quoted src @ '' -> '' @ quoted dst),
           s\<lparr>trace := trace s @ [Copy src dst False]\<rparr>))"

subsection \<open>The helpers at the end of each file\<close>

text \<open>
  \<^verbatim>\<open>getExtension\<close> (server.js 435-445, the same text in the other two files). The lookup
  is on the object's own keys: multer's \<^verbatim>\<open>mimetype\<close> has the form type/subtype, and no
  inherited property name contains a slash.
\<close>

definition getExtension :: "string \<Rightarrow> string" where
  "getExtension m =
     (case map_of
        [(''image/png'', ''.png''),
         (''image/jpeg'', ''.jpg''),
         (''image/jpg'', ''.jpg''),
         (''image/gif'', ''.gif''),
         (''image/webp'', ''.webp''),
         (''application/pdf'', ''.pdf'')] m of
        Some e \<Rightarrow> e
      | None \<Rightarrow> ''.bin'')"

text \<open>
  \<^verbatim>\<open>cleanupJob\<close> (server.js 448-456, the same text in the other two files):
  \<^verbatim>\<open>rmSync(jobDir, {recursive: true, force: true})\<close> when the directory exists.
\<close>

definition cleanupJob :: "path \<Rightarrow> unit prog" where
  "cleanupJob jobDir s =
     (if exists_in (fs s) jobDir then (Inr (), s\<lparr>fs := rmSync jobDir (fs s)\<rparr>) else (Inr (), s))"

subsection \<open>The routes without uploads\<close>

text \<open>\<^verbatim>\<open>String.prototype.trim\<close> on the ASCII white space.\<close>

definition is_space :: "char \<Rightarrow> bool" where
  "is_space c = (c \<in> set [CHR '' '', CHR 0x09, CHR 0x0A, CHR 0x0B, CHR 0x0C, CHR 0x0D])"

definition trim :: "string \<Rightarrow> string" where
  "trim s = rev (dropWhile is_space (rev (dropWhile is_space s)))"

text \<open>\<^verbatim>\<open>GET /gs-version\<close> (lines 36-43 of each of the three files).\<close>

definition gs_version :: "env \<Rightarrow> response prog" where
  "gs_version e =
     try_catch
       (bind (execSync e 38 ''gs --version'') (\<lambda>out.
          ret (Json 200 [(''ghostscript'', trim out)])))
       (\<lambda>error.
          ret (Json 500 [(''error'', ''Ghostscript not installed''), (''details'', error)]))"

text \<open>
  The callback of \<^verbatim>\<open>app.listen\<close> (server.js 459-477; the same text at 481-499 of
  railway-api/server.js and 521-539 of part_000). \<open>port\<close> is the printed \<^verbatim>\<open>PORT\<close>.
\<close>

definition listen_callback :: "env \<Rightarrow> string \<Rightarrow> unit prog" where
  "listen_callback e port =
     block
       [console_log (''PrintPilot PDF API running on port '' @ port),
        try_catch
          (bind (execSync e 464 ''gs --version'') (\<lambda>out.
             console_log (''Ghostscript version: '' @ trim out)))
          (\<lambda>err. console_log ''WARNING: Ghostscript not found! PDF processing will fail.''),
        try_catch
          (bind (execSync e 472 ''convert --version'') (\<lambda>out.
             console_log (''ImageMagick: '' @ takeWhile (\<lambda>c. c \<noteq> CHR 0x0A) out)))
          (\<lambda>err. console_log ''WARNING: ImageMagick not found. Some features may not work.'')]
       skip"

subsection \<open>src/server.js: POST /api/merge-pdf-layers (lines 56-205)\<close>

text \<open>The command of line 107.\<close>

definition server_convertCmd :: "env \<Rightarrow> path \<Rightarrow> jsnum \<Rightarrow> jsnum \<Rightarrow> path \<Rightarrow> string" where
  \<open>server_convertCmd e artworkPath width height artworkPdfPath =
     ''convert "'' @ artworkPath @ ''" -resize '' @ toString e width @ ''x'' @ toString e height
       @ ''! "'' @ artworkPdfPath @ ''"''\<close>

text \<open>\<^verbatim>\<open>psLayerScript\<close> (lines 137-148): built from \<^verbatim>\<open>layerName\<close>.\<close>

definition server_psLayerScript :: "string \<Rightarrow> string" where
  \<open>server_psLayerScript layerName =
     ''\<newline>''
     @ ''%!PS-Adobe-3.0\<newline>''
     @ ''% PDF with Layers (OCG) - PrintPilot Generator\<newline>''
     @ ''\<newline>''
     @ ''/pdfmark where {pop} {userdict /pdfmark /cleartomark load put} ifelse\<newline>''
     @ ''\<newline>''
     @ ''% Define the layer (OCG)\<newline>''
     @ ''[/OC << /Name ('' @ layerName @ '') /Intent /View /Usage << /CreatorInfo << /Creator (PrintPilot) /Subtype /Artwork >> >> >> /OC pdfmark\<newline>''
     @ ''\<newline>''
     @ ''% Start layer content\<newline>''
     @ ''[{ThisPage} << /Contents [{stream}] >> /PUT pdfmark\<newline>''\<close>

text \<open>\<^verbatim>\<open>mergeCmd\<close> (lines 152-158) and \<^verbatim>\<open>simpleMergeCmd\<close> (lines 169-171). A backslash
  at the end of a line of a template literal joins the lines; the indentation stays.\<close>

definition server_mergeCmd :: "path \<Rightarrow> path \<Rightarrow> path \<Rightarrow> string" where
  \<open>server_mergeCmd outputPath templatePath artworkPdfPath =
     ''gs -dNOPAUSE -dBATCH -sDEVICE=pdfwrite ''
     @ ''      -dPDFSETTINGS=/prepress ''
     @ ''      -dCompatibilityLevel=1.7 ''
     @ ''      -dPreserveOPIComments=true ''
     @ ''      -dPreserveOverprintSettings=true ''
     @ ''      -sOutputFile="'' @ outputPath @ ''" ''
     @ ''      "'' @ templatePath @ ''" "'' @ artworkPdfPath @ ''" 2>&1''\<close>

definition server_simpleMergeCmd :: "path \<Rightarrow> path \<Rightarrow> string" where
  \<open>server_simpleMergeCmd outputPath templatePath =
     ''gs -dNOPAUSE -dBATCH -sDEVICE=pdfwrite ''
     @ ''        -sOutputFile="'' @ outputPath @ ''" ''
     @ ''        "'' @ templatePath @ ''" 2>&1''\<close>

text \<open>The value of the \<^verbatim>\<open>Content-Disposition\<close> header.\<close>

definition attachment :: "string \<Rightarrow> string" where
  \<open>attachment name = ''attachment; filename="'' @ name @ ''"''\<close>

text \<open>
  The handler. \<^verbatim>\<open>convertCmd\<close> (lines 100-103) and the \<^verbatim>\<open>psContent\<close> of the first
  catch block (lines 111-129) are constants the code never reads; they are left out.
  \<^verbatim>\<open>console.error(text, error)\<close> is recorded as the text followed by the error's
  message.
\<close>

definition merge_pdf_layers_server :: "env \<Rightarrow> request \<Rightarrow> response prog" where
  "merge_pdf_layers_server e req =
    (let jobId = uuidv4 e;
         jobDir = path_join TEMP_DIR jobId
     in
     try_catch
      (block [mkdirSync jobDir]
        (case files_template req of
           None \<Rightarrow> ret (Json 400 [(''error'', ''Template PDF is required'')])
         | Some templateFile \<Rightarrow>
        (case files_artwork req of
           None \<Rightarrow> ret (Json 400 [(''error'', ''Artwork image is required'')])
         | Some artworkFile \<Rightarrow>
        (let layerName = js_or_str (body req ''layerName'') ''ARTWORK HERE'';
             x = js_or (parseFloat e (body req ''x'')) (Num 0);
             y = js_or (parseFloat e (body req ''y'')) (Num 0);
             width = js_or (parseFloat e (body req ''width'')) (Num 612);
             height = js_or (parseFloat e (body req ''height'')) (Num 792);
             templatePath = path_join jobDir ''template.pdf'';
             artworkPath = path_join jobDir (''artwork'' @ getExtension (mimetype artworkFile));
             artworkPdfPath = path_join jobDir ''artwork.pdf'';
             outputPath = path_join jobDir ''output.pdf'';
             psLayerScript = server_psLayerScript layerName;
             mergeCmd = server_mergeCmd outputPath templatePath artworkPdfPath
         in
         block
           [console_log (''Job '' @ jobId @ '': Processing with layer '' @ [CHR 0x22] @ layerName
              @ [CHR 0x22] @ '', position ('' @ toString e x @ '', '' @ toString e y @ ''), size ''
              @ toString e width @ ''x'' @ toString e height),
            writeFileSync templatePath (buffer templateFile),
            writeFileSync artworkPath (buffer artworkFile),
            console_log (''Job '' @ jobId @ '': Files saved''),
            try_catch
              (block
                 [exec e 107 (server_convertCmd e artworkPath width height artworkPdfPath),
                  console_log (''Job '' @ jobId @ '': Converted artwork to PDF using ImageMagick'')]
                 skip)
              (\<lambda>err. console_log
                 (''Job '' @ jobId @ '': ImageMagick not available, using alternative method'')),
            console_log (''Job '' @ jobId @ '': Merging PDFs...''),
            try_catch
              (bind (execSync e 163 mergeCmd) (\<lambda>mergeOutput.
                 console_log (''Job '' @ jobId @ '': Merge output: '' @ mergeOutput)))
              (\<lambda>gsError.
                 block
                   [console_log (''Job '' @ jobId @ '': Ghostscript merge error: '' @ gsError),
                    exec e 172 (server_simpleMergeCmd outputPath templatePath)]
                   skip)]
           (bind (existsSync outputPath) (\<lambda>created.
              if created then
                block [console_log (''Job '' @ jobId @ '': PDF created successfully'')]
                  (bind (readFileSync outputPath) (\<lambda>outputBuffer.
                     block [cleanupJob jobDir]
                       (ret (Pdf (attachment (''printpilot-'' @ jobId @ ''.pdf'')) outputBuffer))))
              else throw ''Output PDF was not created''))))))
      (\<lambda>error.
         block
           [console_log (''Job '' @ jobId @ '': Error: '' @ error),
            cleanupJob jobDir]
           (ret (Json 500 [(''error'', ''PDF processing failed''),
                           (''message'', error),
                           (''jobId'', jobId)]))))"

subsection \<open>POST /api/overlay-artwork\<close>

text \<open>
  The text of this handler is the same in the three files: server.js 213-298,
  railway-api/server.js 235-320, part_000 275-360. \<^verbatim>\<open>psContent\<close> and \<^verbatim>\<open>gsCmd\<close>
  are written once; the handler is embedded once per file, each with the line of its own
  \<^verbatim>\<open>execSync\<close> call.
\<close>

definition overlay_psContent ::
  "env \<Rightarrow> path \<Rightarrow> jsnum \<Rightarrow> jsnum \<Rightarrow> jsnum \<Rightarrow> jsnum \<Rightarrow> jsnum \<Rightarrow> jsnum \<Rightarrow> string" where
  \<open>overlay_psContent e artworkPath x y width height pageWidth pageHeight =
     ''\<newline>''
     @ ''%!PS-Adobe-3.0\<newline>''
     @ ''%%BoundingBox: 0 0 '' @ toString e pageWidth @ '' '' @ toString e pageHeight @ ''\<newline>''
     @ ''%%Pages: 1\<newline>''
     @ ''%%EndComments\<newline>''
     @ ''\<newline>''
     @ ''%%Page: 1 1\<newline>''
     @ ''\<newline>''
     @ ''% Draw the artwork image\<newline>''
     @ toString e x @ '' '' @ toString e y @ '' translate\<newline>''
     @ toString e width @ '' '' @ toString e height @ '' scale\<newline>''
     @ ''\<newline>''
     @ ''('' @ artworkPath @ '') (r) file /DCTDecode filter\<newline>''
     @ ''<< /ImageType 1\<newline>''
     @ ''   /Width '' @ toString e width @ ''\<newline>''
     @ ''   /Height '' @ toString e height @ ''\<newline>''
     @ ''   /BitsPerComponent 8\<newline>''
     @ ''   /Decode [0 1 0 1 0 1]\<newline>''
     @ ''   /ImageMatrix [1 0 0 -1 0 1]\<newline>''
     @ ''   /DataSource currentfile\<newline>''
     @ ''>> image\<newline>''
     @ ''\<newline>''
     @ ''showpage\<newline>''
     @ ''%%EOF\<newline>''\<close>

definition overlay_gsCmd :: "path \<Rightarrow> path \<Rightarrow> string" where
  \<open>overlay_gsCmd outputPath templatePath =
     ''gs -dNOPAUSE -dBATCH -sDEVICE=pdfwrite ''
     @ ''      -dCompatibilityLevel=1.7 ''
     @ ''      -dPDFSETTINGS=/prepress ''
     @ ''      -sOutputFile="'' @ outputPath @ ''" ''
     @ ''      "'' @ templatePath @ ''"''\<close>

text \<open>src/server.js, lines 213-298.\<close>

definition overlay_artwork_server :: "env \<Rightarrow> request \<Rightarrow> response prog" where
  "overlay_artwork_server e req =
    (let jobId = uuidv4 e;
         jobDir = path_join TEMP_DIR jobId
     in
     try_catch
      (block [mkdirSync jobDir]
        (case files_template req of
           None \<Rightarrow> ret (Json 400 [(''error'', ''Both template and artwork files are required'')])
         | Some templateFile \<Rightarrow>
        (case files_artwork req of
           None \<Rightarrow> ret (Json 400 [(''error'', ''Both template and artwork files are required'')])
         | Some artworkFile \<Rightarrow>
        (let x = js_or (parseFloat e (body req ''x'')) (Num 0);
             y = js_or (parseFloat e (body req ''y'')) (Num 0);
             width = js_or (parseFloat e (body req ''width'')) (Num 0);
             height = js_or (parseFloat e (body req ''height'')) (Num 0);
             pageWidth = js_or (parseFloat e (body req ''pageWidth'')) (Num 612);
             pageHeight = js_or (parseFloat e (body req ''pageHeight'')) (Num 792);
             templatePath = path_join jobDir ''template.pdf'';
             artworkPath = path_join jobDir ''artwork.png'';
             outputPath = path_join jobDir ''output.pdf'';
             psContent = overlay_psContent e artworkPath x y width height pageWidth pageHeight;
             psPath = path_join jobDir ''overlay.ps'';
             gsCmd = overlay_gsCmd outputPath templatePath
         in
         block
           [writeFileSync templatePath (buffer templateFile),
            writeFileSync artworkPath (buffer artworkFile),
            writeFileSync psPath psContent,
            exec e 284 gsCmd]
           (bind (readFileSync outputPath) (\<lambda>outputBuffer.
              block [cleanupJob jobDir]
                (ret (Pdf (attachment (''printpilot-'' @ jobId @ ''.pdf'')) outputBuffer))))))))
      (\<lambda>error.
         block
           [console_log (''Job '' @ jobId @ '': Error: '' @ error),
            cleanupJob jobDir]
           (ret (Json 500 [(''error'', ''PDF processing failed''), (''message'', error)]))))"

text \<open>src/railway-api/server.js, lines 235-320.\<close>

definition overlay_artwork_railway :: "env \<Rightarrow> request \<Rightarrow> response prog" where
  "overlay_artwork_railway e req =
    (let jobId = uuidv4 e;
         jobDir = path_join TEMP_DIR jobId
     in
     try_catch
      (block [mkdirSync jobDir]
        (case files_template req of
           None \<Rightarrow> ret (Json 400 [(''error'', ''Both template and artwork files are required'')])
         | Some templateFile \<Rightarrow>
        (case files_artwork req of
           None \<Rightarrow> ret (Json 400 [(''error'', ''Both template and artwork files are required'')])
         | Some artworkFile \<Rightarrow>
        (let x = js_or (parseFloat e (body req ''x'')) (Num 0);
             y = js_or (parseFloat e (body req ''y'')) (Num 0);
             width = js_or (parseFloat e (body req ''width'')) (Num 0);
             height = js_or (parseFloat e (body req ''height'')) (Num 0);
             pageWidth = js_or (parseFloat e (body req ''pageWidth'')) (Num 612);
             pageHeight = js_or (parseFloat e (body req ''pageHeight'')) (Num 792);
             templatePath = path_join jobDir ''template.pdf'';
             artworkPath = path_join jobDir ''artwork.png'';
             outputPath = path_join jobDir ''output.pdf'';
             psContent = overlay_psContent e artworkPath x y width height pageWidth pageHeight;
             psPath = path_join jobDir ''overlay.ps'';
             gsCmd = overlay_gsCmd outputPath templatePath
         in
         block
           [writeFileSync templatePath (buffer templateFile),
            writeFileSync artworkPath (buffer artworkFile),
            writeFileSync psPath psContent,
            exec e 306 gsCmd]
           (bind (readFileSync outputPath) (\<lambda>outputBuffer.
              block [cleanupJob jobDir]
                (ret (Pdf (attachment (''printpilot-'' @ jobId @ ''.pdf'')) outputBuffer))))))))
      (\<lambda>error.
         block
           [console_log (''Job '' @ jobId @ '': Error: '' @ error),
            cleanupJob jobDir]
           (ret (Json 500 [(''error'', ''PDF processing failed''), (''message'', error)]))))"

text \<open>src/unnamed/part_000, lines 275-360.\<close>

definition overlay_artwork_part000 :: "env \<Rightarrow> request \<Rightarrow> response prog" where
  "overlay_artwork_part000 e req =
    (let jobId = uuidv4 e;
         jobDir = path_join TEMP_DIR jobId
     in
     try_catch
      (block [mkdirSync jobDir]
        (case files_template req of
           None \<Rightarrow> ret (Json 400 [(''error'', ''Both template and artwork files are required'')])
         | Some templateFile \<Rightarrow>
        (case files_artwork req of
           None \<Rightarrow> ret (Json 400 [(''error'', ''Both template and artwork files are required'')])
         | Some artworkFile \<Rightarrow>
        (let x = js_or (parseFloat e (body req ''x'')) (Num 0);
             y = js_or (parseFloat e (body req ''y'')) (Num 0);
             width = js_or (parseFloat e (body req ''width'')) (Num 0);
             height = js_or (parseFloat e (body req ''height'')) (Num 0);
             pageWidth = js_or (parseFloat e (body req ''pageWidth'')) (Num 612);
             pageHeight = js_or (parseFloat e (body req ''pageHeight'')) (Num 792);
             templatePath = path_join jobDir ''template.pdf'';
             artworkPath = path_join jobDir ''artwork.png'';
             outputPath = path_join jobDir ''output.pdf'';
             psContent = overlay_psContent e artworkPath x y width height pageWidth pageHeight;
             psPath = path_join jobDir ''overlay.ps'';
             gsCmd = overlay_gsCmd outputPath templatePath
         in
         block
           [writeFileSync templatePath (buffer templateFile),
            writeFileSync artworkPath (buffer artworkFile),
            writeFileSync psPath psContent,
            exec e 346 gsCmd]
           (bind (readFileSync outputPath) (\<lambda>outputBuffer.
              block [cleanupJob jobDir]
                (ret (Pdf (attachment (''printpilot-'' @ jobId @ ''.pdf'')) outputBuffer))))))))
      (\<lambda>error.
         block
           [console_log (''Job '' @ jobId @ '': Error: '' @ error),
            cleanupJob jobDir]
           (ret (Json 500 [(''error'', ''PDF processing failed''), (''message'', error)]))))"

subsection \<open>POST /api/create-layered-pdf\<close>

text \<open>
  Again one text in three files: server.js 308-432, railway-api/server.js 330-454,
  part_000 370-494.
\<close>

definition layered_psContent :: "env \<Rightarrow> string \<Rightarrow> jsnum \<Rightarrow> jsnum \<Rightarrow> string" where
  \<open>layered_psContent e artworkLayerName pageWidth pageHeight =
     ''%!PS-Adobe-3.0\<newline>''
     @ ''%%BoundingBox: 0 0 '' @ toString e (Math_round pageWidth) @ '' '' @ toString e (Math_round pageHeight) @ ''\<newline>''
     @ ''%%Pages: 1\<newline>''
     @ ''%%EndComments\<newline>''
     @ ''\<newline>''
     @ ''% PDF Layer definitions using pdfmark\<newline>''
     @ ''/pdfmark where {pop} {userdict /pdfmark /cleartomark load put} ifelse\<newline>''
     @ ''\<newline>''
     @ ''% Create OCG (Optional Content Group) for artwork layer\<newline>''
     @ ''[/_objdef {artwork_ocg} /type /ocg /OC <<\<newline>''
     @ ''  /Name ('' @ artworkLayerName @ '')\<newline>''
     @ ''  /Intent /Design\<newline>''
     @ ''  /Usage << /CreatorInfo << /Creator (PrintPilot) /Subtype /Artwork >> >>\<newline>''
     @ ''>> /OC pdfmark\<newline>''
     @ ''\<newline>''
     @ ''% Create OCG for template/instructions layer\<newline>''
     @ ''[/_objdef {template_ocg} /type /ocg /OC <<\<newline>''
     @ ''  /Name (Template)\<newline>''
     @ ''  /Intent /View\<newline>''
     @ ''>> /OC pdfmark\<newline>''
     @ ''\<newline>''
     @ ''% Create OCProperties to register layers\<newline>''
     @ ''[{Catalog} <<\<newline>''
     @ ''  /OCProperties <<\<newline>''
     @ ''    /OCGs [{artwork_ocg} {template_ocg}]\<newline>''
     @ ''    /D << /Order [{artwork_ocg} {template_ocg}] /ON [{artwork_ocg} {template_ocg}] >>\<newline>''
     @ ''  >>\<newline>''
     @ ''>> /PUT pdfmark\<newline>''
     @ ''\<newline>''
     @ ''%%Page: 1 1\<newline>''
     @ ''<< /PageSize ['' @ toString e pageWidth @ '' '' @ toString e pageHeight @ ''] >> setpagedevice\<newline>''
     @ ''\<newline>''
     @ ''% Begin artwork layer content\<newline>''
     @ ''[/OC {artwork_ocg} /BDC pdfmark\<newline>''
     @ ''\<newline>''
     @ ''% Draw artwork (placeholder - actual image embedding would go here)\<newline>''
     @ ''0.9 0.9 0.9 setrgbcolor\<newline>''
     @ ''0 0 '' @ toString e pageWidth @ '' '' @ toString e pageHeight @ '' rectfill\<newline>''
     @ ''\<newline>''
     @ ''% End artwork layer\<newline>''
     @ ''[/\<newline>''
     @ ''EMC pdfmark\<newline>''
     @ ''\<newline>''
     @ ''% Begin template layer\<newline>''
     @ ''[/OC {template_ocg} /BDC pdfmark\<newline>''
     @ ''\<newline>''
     @ ''% Template content would go here\<newline>''
     @ ''0 setgray\<newline>''
     @ ''0.5 setlinewidth\<newline>''
     @ ''0 0 '' @ toString e pageWidth @ '' '' @ toString e pageHeight @ '' rectstroke\<newline>''
     @ ''\<newline>''
     @ ''[/EMC pdfmark\<newline>''
     @ ''\<newline>''
     @ ''showpage\<newline>''
     @ ''%%EOF\<newline>''\<close>

definition layered_gsCmd :: "path \<Rightarrow> path \<Rightarrow> string" where
  \<open>layered_gsCmd outputPath psPath =
     ''gs -dNOPAUSE -dBATCH -sDEVICE=pdfwrite ''
     @ ''      -dCompatibilityLevel=1.7 ''
     @ ''      -dPDFSETTINGS=/prepress ''
     @ ''      -sOutputFile="'' @ outputPath @ ''" ''
     @ ''      "'' @ psPath @ ''" 2>&1''\<close>

text \<open>src/server.js, lines 308-432.\<close>

definition create_layered_pdf_server :: "env \<Rightarrow> request \<Rightarrow> response prog" where
  "create_layered_pdf_server e req =
    (let jobId = uuidv4 e;
         jobDir = path_join TEMP_DIR jobId
     in
     try_catch
      (block [mkdirSync jobDir]
        (case files_artwork req of
           None \<Rightarrow> ret (Json 400 [(''error'', ''Artwork image is required'')])
         | Some artworkFile \<Rightarrow>
        (let templateFile = files_template req;
             pageWidth = js_or (parseFloat e (body req ''pageWidth'')) (Num 612);
             pageHeight = js_or (parseFloat e (body req ''pageHeight'')) (Num 792);
             artworkLayerName = js_or_str (body req ''artworkLayerName'') ''ARTWORK HERE'';
             artworkPath = path_join jobDir ''artwork.png'';
             outputPath = path_join jobDir ''output.pdf'';
             psContent = layered_psContent e artworkLayerName pageWidth pageHeight;
             psPath = path_join jobDir ''layered.ps'';
             gsCmd = layered_gsCmd outputPath psPath
         in
         block
           [writeFileSync artworkPath (buffer artworkFile),
            (case templateFile of
               Some tf \<Rightarrow> writeFileSync (path_join jobDir ''template.pdf'') (buffer tf)
             | None \<Rightarrow> skip),
            writeFileSync psPath psContent,
            console_log (''Job '' @ jobId @ '': Creating layered PDF...'')]
           (bind (execSync e 413 gsCmd) (\<lambda>output.
              block [console_log (''Job '' @ jobId @ '': Ghostscript output: '' @ output)]
                (bind (existsSync outputPath) (\<lambda>created.
                   if created then
                     bind (readFileSync outputPath) (\<lambda>outputBuffer.
                       block [cleanupJob jobDir]
                         (ret (Pdf (attachment (''printpilot-layered-'' @ jobId @ ''.pdf''))
                                   outputBuffer)))
                   else throw ''Failed to create output PDF'')))))))
      (\<lambda>error.
         block
           [console_log (''Job '' @ jobId @ '': Error: '' @ error),
            cleanupJob jobDir]
           (ret (Json 500 [(''error'', ''PDF processing failed''), (''message'', error)]))))"

text \<open>src/railway-api/server.js, lines 330-454.\<close>

definition create_layered_pdf_railway :: "env \<Rightarrow> request \<Rightarrow> response prog" where
  "create_layered_pdf_railway e req =
    (let jobId = uuidv4 e;
         jobDir = path_join TEMP_DIR jobId
     in
     try_catch
      (block [mkdirSync jobDir]
        (case files_artwork req of
           None \<Rightarrow> ret (Json 400 [(''error'', ''Artwork image is required'')])
         | Some artworkFile \<Rightarrow>
        (let templateFile = files_template req;
             pageWidth = js_or (parseFloat e (body req ''pageWidth'')) (Num 612);
             pageHeight = js_or (parseFloat e (body req ''pageHeight'')) (Num 792);
             artworkLayerName = js_or_str (body req ''artworkLayerName'') ''ARTWORK HERE'';
             artworkPath = path_join jobDir ''artwork.png'';
             outputPath = path_join jobDir ''output.pdf'';
             psContent = layered_psContent e artworkLayerName pageWidth pageHeight;
             psPath = path_join jobDir ''layered.ps'';
             gsCmd = layered_gsCmd outputPath psPath
         in
         block
           [writeFileSync artworkPath (buffer artworkFile),
            (case templateFile of
               Some tf \<Rightarrow> writeFileSync (path_join jobDir ''template.pdf'') (buffer tf)
             | None \<Rightarrow> skip),
            writeFileSync psPath psContent,
            console_log (''Job '' @ jobId @ '': Creating layered PDF...'')]
           (bind (execSync e 435 gsCmd) (\<lambda>output.
              block [console_log (''Job '' @ jobId @ '': Ghostscript output: '' @ output)]
                (bind (existsSync outputPath) (\<lambda>created.
                   if created then
                     bind (readFileSync outputPath) (\<lambda>outputBuffer.
                       block [cleanupJob jobDir]
                         (ret (Pdf (attachment (''printpilot-layered-'' @ jobId @ ''.pdf''))
                                   outputBuffer)))
                   else throw ''Failed to create output PDF'')))))))
      (\<lambda>error.
         block
           [console_log (''Job '' @ jobId @ '': Error: '' @ error),
            cleanupJob jobDir]
           (ret (Json 500 [(''error'', ''PDF processing failed''), (''message'', error)]))))"

text \<open>src/unnamed/part_000, lines 370-494.\<close>

definition create_layered_pdf_part000 :: "env \<Rightarrow> request \<Rightarrow> response prog" where
  "create_layered_pdf_part000 e req =
    (let jobId = uuidv4 e;
         jobDir = path_join TEMP_DIR jobId
     in
     try_catch
      (block [mkdirSync jobDir]
        (case files_artwork req of
           None \<Rightarrow> ret (Json 400 [(''error'', ''Artwork image is required'')])
         | Some artworkFile \<Rightarrow>
        (let templateFile = files_template req;
             pageWidth = js_or (parseFloat e (body req ''pageWidth'')) (Num 612);
             pageHeight = js_or (parseFloat e (body req ''pageHeight'')) (Num 792);
             artworkLayerName = js_or_str (body req ''artworkLayerName'') ''ARTWORK HERE'';
             artworkPath = path_join jobDir ''artwork.png'';
             outputPath = path_join jobDir ''output.pdf'';
             psContent = layered_psContent e artworkLayerName pageWidth pageHeight;
             psPath = path_join jobDir ''layered.ps'';
             gsCmd = layered_gsCmd outputPath psPath
         in
         block
           [writeFileSync artworkPath (buffer artworkFile),
            (case templateFile of
               Some tf \<Rightarrow> writeFileSync (path_join jobDir ''template.pdf'') (buffer tf)
             | None \<Rightarrow> skip),
            writeFileSync psPath psContent,
            console_log (''Job '' @ jobId @ '': Creating layered PDF...'')]
           (bind (execSync e 475 gsCmd) (\<lambda>output.
              block [console_log (''Job '' @ jobId @ '': Ghostscript output: '' @ output)]
                (bind (existsSync outputPath) (\<lambda>created.
                   if created then
                     bind (readFileSync outputPath) (\<lambda>outputBuffer.
                       block [cleanupJob jobDir]
                         (ret (Pdf (attachment (''printpilot-layered-'' @ jobId @ ''.pdf''))
                                   outputBuffer)))
                   else throw ''Failed to create output PDF'')))))))
      (\<lambda>error.
         block
           [console_log (''Job '' @ jobId @ '': Error: '' @ error),
            cleanupJob jobDir]
           (ret (Json 500 [(''error'', ''PDF processing failed''), (''message'', error)]))))"

subsection \<open>src/railway-api/server.js: POST /api/merge-pdf-layers (lines 56-227)\<close>

text \<open>The commands of lines 129, 133-140 and 146-149 (artwork to PDF).\<close>

definition railway_rawCmd :: "path \<Rightarrow> path \<Rightarrow> string" where
  \<open>railway_rawCmd artworkPngPath jobDir =
     ''convert "'' @ artworkPngPath @ ''" "'' @ jobDir @ ''/artwork_raw.pdf"''\<close>

definition railway_resizeCmd :: "env \<Rightarrow> jsnum \<Rightarrow> jsnum \<Rightarrow> path \<Rightarrow> path \<Rightarrow> string" where
  \<open>railway_resizeCmd e pageWidth pageHeight artworkPdfPath jobDir =
     ''gs -dNOPAUSE -dBATCH -sDEVICE=pdfwrite ''
     @ ''        -dFIXEDMEDIA ''
     @ ''        -dDEVICEWIDTHPOINTS='' @ toString e pageWidth @ '' ''
     @ ''        -dDEVICEHEIGHTPOINTS='' @ toString e pageHeight @ '' ''
     @ ''        -dPDFFitPage ''
     @ ''        -dCompatibilityLevel=1.7 ''
     @ ''        -sOutputFile="'' @ artworkPdfPath @ ''" ''
     @ ''        "'' @ jobDir @ ''/artwork_raw.pdf"''\<close>

definition railway_fallbackCmd :: "env \<Rightarrow> path \<Rightarrow> jsnum \<Rightarrow> jsnum \<Rightarrow> path \<Rightarrow> string" where
  \<open>railway_fallbackCmd e artworkPngPath pageWidth pageHeight artworkPdfPath =
     ''convert "'' @ artworkPngPath @ ''" -resize '' @ toString e (Math_round pageWidth) @ ''x'' @ toString e (Math_round pageHeight) @ ''! ''
     @ ''        -density 72 -units PixelsPerInch ''
     @ ''        -page '' @ toString e (Math_round pageWidth) @ ''x'' @ toString e (Math_round pageHeight) @ ''+0+0 ''
     @ ''        "'' @ artworkPdfPath @ ''"''\<close>

text \<open>The commands of the merge strategies: lines 157, 165, 176, 177, 180 and 183-186.\<close>

definition railway_qpdfCmd :: "path \<Rightarrow> path \<Rightarrow> path \<Rightarrow> string" where
  \<open>railway_qpdfCmd templatePath artworkPdfPath outputPath =
     ''qpdf "'' @ templatePath @ ''" --underlay "'' @ artworkPdfPath @ ''" -- "'' @ outputPath @ ''"''\<close>

definition railway_pdftkCmd :: "path \<Rightarrow> path \<Rightarrow> path \<Rightarrow> string" where
  \<open>railway_pdftkCmd templatePath artworkPdfPath outputPath =
     ''pdftk "'' @ templatePath @ ''" background "'' @ artworkPdfPath @ ''" output "'' @ outputPath @ ''"''\<close>

definition railway_flatTemplateCmd :: "env \<Rightarrow> jsnum \<Rightarrow> path \<Rightarrow> path \<Rightarrow> string" where
  \<open>railway_flatTemplateCmd e density templatePath jobDir =
     ''convert -density '' @ toString e density @ '' "'' @ templatePath @ ''[0]" "'' @ jobDir @ ''/template_flat.png"''\<close>

definition railway_flatArtworkCmd :: "env \<Rightarrow> jsnum \<Rightarrow> path \<Rightarrow> path \<Rightarrow> string" where
  \<open>railway_flatArtworkCmd e density artworkPdfPath jobDir =
     ''convert -density '' @ toString e density @ '' "'' @ artworkPdfPath @ ''[0]" "'' @ jobDir @ ''/artwork_flat.png"''\<close>

definition railway_compositeCmd :: "path \<Rightarrow> string" where
  \<open>railway_compositeCmd jobDir =
     ''convert "'' @ jobDir @ ''/artwork_flat.png" "'' @ jobDir @ ''/template_flat.png" -composite "'' @ jobDir @ ''/composite.png"''\<close>

definition railway_toPdfCmd :: "env \<Rightarrow> path \<Rightarrow> jsnum \<Rightarrow> jsnum \<Rightarrow> path \<Rightarrow> string" where
  \<open>railway_toPdfCmd e jobDir pageWidth pageHeight outputPath =
     ''convert "'' @ jobDir @ ''/composite.png" ''
     @ ''            -density 72 -units PixelsPerInch ''
     @ ''            -page '' @ toString e (Math_round pageWidth) @ ''x'' @ toString e (Math_round pageHeight) @ ''+0+0 ''
     @ ''            "'' @ outputPath @ ''"''\<close>

text \<open>
  The handler. \<^verbatim>\<open>gsConvertCmd\<close> (lines 112-125) is a constant the code never reads; it
  is left out.
\<close>

definition merge_pdf_layers_railway :: "env \<Rightarrow> request \<Rightarrow> response prog" where
  "merge_pdf_layers_railway e req =
    (let jobId = uuidv4 e;
         jobDir = path_join TEMP_DIR jobId
     in
     try_catch
      (block [mkdirSync jobDir]
        (case files_template req of
           None \<Rightarrow> ret (Json 400 [(''error'', ''Template PDF is required'')])
         | Some templateFile \<Rightarrow>
        (case files_artwork req of
           None \<Rightarrow> ret (Json 400 [(''error'', ''Artwork image is required'')])
         | Some artworkFile \<Rightarrow>
        (let layerName = js_or_str (body req ''layerName'') ''ARTWORK HERE'';
             x = js_or (parseFloat e (body req ''x'')) (Num 0);
             y = js_or (parseFloat e (body req ''y'')) (Num 0);
             width = js_or (parseFloat e (body req ''width'')) (Num 612);
             height = js_or (parseFloat e (body req ''height'')) (Num 792);
             templatePath = path_join jobDir ''template.pdf'';
             artworkPath = path_join jobDir (''artwork'' @ getExtension (mimetype artworkFile));
             artworkPdfPath = path_join jobDir ''artwork.pdf'';
             outputPath = path_join jobDir ''output.pdf'';
             pageWidth = js_or (parseFloat e (body req ''pageWidth'')) width;
             pageHeight = js_or (parseFloat e (body req ''pageHeight'')) height;
             artworkPngPath = artworkPath;
             density = Num 300
         in
         block
           [console_log (''Job '' @ jobId @ '': Processing with layer '' @ [CHR 0x22] @ layerName
              @ [CHR 0x22] @ '', position ('' @ toString e x @ '', '' @ toString e y @ ''), size ''
              @ toString e width @ ''x'' @ toString e height),
            writeFileSync templatePath (buffer templateFile),
            writeFileSync artworkPath (buffer artworkFile),
            console_log (''Job '' @ jobId @ '': Files saved''),
            console_log (''Job '' @ jobId @ '': Page dimensions: '' @ toString e pageWidth @ '' x ''
              @ toString e pageHeight @ '' points''),
            console_log (''Job '' @ jobId @ '': Converting artwork to PDF with exact page size ''
              @ toString e pageWidth @ ''x'' @ toString e pageHeight @ '' points''),
            try_catch
              (block
                 [exec e 129 (railway_rawCmd artworkPngPath jobDir),
                  console_log (''Job '' @ jobId @ '': Created raw artwork PDF''),
                  exec e 133 (railway_resizeCmd e pageWidth pageHeight artworkPdfPath jobDir),
                  console_log (''Job '' @ jobId @ '': Resized artwork PDF to '' @ toString e pageWidth
                    @ ''x'' @ toString e pageHeight @ '' points'')]
                 skip)
              (\<lambda>err.
                 block
                   [console_log (''Job '' @ jobId @ '': Ghostscript convert failed: '' @ err),
                    exec e 146
                      (railway_fallbackCmd e artworkPngPath pageWidth pageHeight artworkPdfPath)]
                   skip),
            console_log (''Job '' @ jobId @ '': Creating overlay PDF with qpdf...''),
            try_catch
              (block
                 [exec e 157 (railway_qpdfCmd templatePath artworkPdfPath outputPath),
                  console_log (''Job '' @ jobId @ '': qpdf underlay succeeded'')]
                 skip)
              (\<lambda>qpdfError.
                 block [console_log (''Job '' @ jobId @ '': qpdf failed, trying pdftk...'')]
                   (try_catch
                      (block
                         [exec e 165 (railway_pdftkCmd templatePath artworkPdfPath outputPath),
                          console_log (''Job '' @ jobId @ '': pdftk background succeeded'')]
                         skip)
                      (\<lambda>pdftkError.
                         block
                           [console_log
                              (''Job '' @ jobId @ '': pdftk failed, trying ImageMagick composite...'')]
                           (try_catch
                              (block
                                 [exec e 176 (railway_flatTemplateCmd e density templatePath jobDir),
                                  exec e 177 (railway_flatArtworkCmd e density artworkPdfPath jobDir),
                                  exec e 180 (railway_compositeCmd jobDir),
                                  exec e 183
                                    (railway_toPdfCmd e jobDir pageWidth pageHeight outputPath),
                                  console_log
                                    (''Job '' @ jobId @ '': ImageMagick composite succeeded'')]
                                 skip)
                              (\<lambda>compositeError.
                                 block
                                   [console_log
                                      (''Job '' @ jobId @ '': All methods failed: '' @ compositeError),
                                    copyFileSync artworkPdfPath outputPath]
                                   skip)))))]
           (bind (existsSync outputPath) (\<lambda>created.
              if created then
                block [console_log (''Job '' @ jobId @ '': PDF created successfully'')]
                  (bind (readFileSync outputPath) (\<lambda>outputBuffer.
                     block [cleanupJob jobDir]
                       (ret (Pdf (attachment (''printpilot-'' @ jobId @ ''.pdf'')) outputBuffer))))
              else throw ''Output PDF was not created''))))))
      (\<lambda>error.
         block
           [console_log (''Job '' @ jobId @ '': Error: '' @ error),
            cleanupJob jobDir]
           (ret (Json 500 [(''error'', ''PDF processing failed''),
                           (''message'', error),
                           (''jobId'', jobId)]))))"

subsection \<open>src/unnamed/part_000: POST /api/merge-pdf-layers (lines 56-267)\<close>

text \<open>Artwork to PDF: the command of line 107, the PostScript of lines 113-125 and the
  command of line 127.\<close>

definition part000_convertCmd :: "env \<Rightarrow> path \<Rightarrow> jsnum \<Rightarrow> jsnum \<Rightarrow> path \<Rightarrow> string" where
  \<open>part000_convertCmd e artworkPath pageWidth pageHeight artworkPdfPath =
     ''convert "'' @ artworkPath @ ''" -resize '' @ toString e (Math_round pageWidth) @ ''x'' @ toString e (Math_round pageHeight) @ ''! -density 72 "'' @ artworkPdfPath @ ''"''\<close>

definition part000_psContent :: "env \<Rightarrow> jsnum \<Rightarrow> jsnum \<Rightarrow> path \<Rightarrow> string" where
  \<open>part000_psContent e pageWidth pageHeight artworkPath =
     ''%!PS-Adobe-3.0\<newline>''
     @ ''<< /PageSize ['' @ toString e pageWidth @ '' '' @ toString e pageHeight @ ''] >> setpagedevice\<newline>''
     @ ''('' @ artworkPath @ '') (r) file /DCTDecode filter\<newline>''
     @ ''<< /ImageType 1\<newline>''
     @ ''   /Width '' @ toString e (Math_round pageWidth) @ ''\<newline>''
     @ ''   /Height '' @ toString e (Math_round pageHeight) @ ''\<newline>''
     @ ''   /BitsPerComponent 8\<newline>''
     @ ''   /Decode [0 1 0 1 0 1]\<newline>''
     @ ''   /ImageMatrix ['' @ toString e (Math_round pageWidth) @ '' 0 0 '' @ toString e (Math_round (neg pageHeight)) @ '' 0 '' @ toString e (Math_round pageHeight) @ '']\<newline>''
     @ ''   /DataSource currentfile\<newline>''
     @ ''>> image\<newline>''
     @ ''showpage\<newline>''\<close>

definition part000_gsImageCmd :: "path \<Rightarrow> path \<Rightarrow> string" where
  \<open>part000_gsImageCmd artworkPdfPath psImagePath =
     ''gs -dNOPAUSE -dBATCH -sDEVICE=pdfwrite -sOutputFile="'' @ artworkPdfPath @ ''" "'' @ psImagePath @ ''"''\<close>

text \<open>The merge strategies: the commands of lines 140 and 148, the PostScript of lines
  158-181, and the commands of lines 187-196, 202-210 and 221-224.\<close>

definition part000_pdftkCmd :: "path \<Rightarrow> path \<Rightarrow> path \<Rightarrow> string" where
  \<open>part000_pdftkCmd templatePath artworkPdfPath outputPath =
     ''pdftk "'' @ templatePath @ ''" background "'' @ artworkPdfPath @ ''" output "'' @ outputPath @ ''"''\<close>

definition part000_qpdfCmd :: "path \<Rightarrow> path \<Rightarrow> path \<Rightarrow> string" where
  \<open>part000_qpdfCmd templatePath artworkPdfPath outputPath =
     ''qpdf "'' @ templatePath @ ''" --underlay "'' @ artworkPdfPath @ ''" -- "'' @ outputPath @ ''"''\<close>

definition part000_compositePsContent :: "env \<Rightarrow> jsnum \<Rightarrow> jsnum \<Rightarrow> string" where
  \<open>part000_compositePsContent e pageWidth pageHeight =
     ''%!PS-Adobe-3.0 EPSF-3.0\<newline>''
     @ ''%%BoundingBox: 0 0 '' @ toString e (Math_round pageWidth) @ '' '' @ toString e (Math_round pageHeight) @ ''\<newline>''
     @ ''%%Pages: 1\<newline>''
     @ ''%%EndComments\<newline>''
     @ ''%%BeginProlog\<newline>''
     @ ''/BeginEPSF {\<newline>''
     @ ''  /b4_Inc_state save def\<newline>''
     @ ''  /dict_count countdictstack def\<newline>''
     @ ''  /op_count count 1 sub def\<newline>''
     @ ''  userdict begin\<newline>''
     @ ''  /showpage { } def\<newline>''
     @ ''  0 setgray 0 setlinecap 1 setlinewidth 0 setlinejoin\<newline>''
     @ ''  10 setmiterlimit [ ] 0 setdash newpath\<newline>''
     @ ''  /languagelevel where { pop languagelevel 1 ne { false setstrokeadjust false setoverprint } if } if\<newline>''
     @ ''} bind def\<newline>''
     @ ''/EndEPSF {\<newline>''
     @ ''  count op_count sub {pop} repeat\<newline>''
     @ ''  countdictstack dict_count sub {end} repeat\<newline>''
     @ ''  b4_Inc_state restore\<newline>''
     @ ''} bind def\<newline>''
     @ ''%%EndProlog\<newline>''
     @ ''%%Page: 1 1\<newline>''
     @ ''<< /PageSize ['' @ toString e pageWidth @ '' '' @ toString e pageHeight @ ''] >> setpagedevice\<newline>''\<close>

definition part000_gsCmd :: "env \<Rightarrow> jsnum \<Rightarrow> jsnum \<Rightarrow> path \<Rightarrow> path \<Rightarrow> string" where
  \<open>part000_gsCmd e pageWidth pageHeight intermediatePath artworkPdfPath =
     ''gs -dNOPAUSE -dBATCH -sDEVICE=pdfwrite ''
     @ ''            -dPDFSETTINGS=/prepress ''
     @ ''            -dCompatibilityLevel=1.7 ''
     @ ''            -dAutoRotatePages=/None ''
     @ ''            -dFirstPage=1 -dLastPage=1 ''
     @ ''            -dFIXEDMEDIA ''
     @ ''            -dDEVICEWIDTHPOINTS='' @ toString e pageWidth @ '' ''
     @ ''            -dDEVICEHEIGHTPOINTS='' @ toString e pageHeight @ '' ''
     @ ''            -sOutputFile="'' @ intermediatePath @ ''" ''
     @ ''            "'' @ artworkPdfPath @ ''" 2>&1''\<close>

definition part000_overlayCmd :: "env \<Rightarrow> path \<Rightarrow> path \<Rightarrow> jsnum \<Rightarrow> path \<Rightarrow> string" where
  \<open>part000_overlayCmd e outputPath intermediatePath pageHeight templatePath =
     ''gs -dNOPAUSE -dBATCH -sDEVICE=pdfwrite ''
     @ ''            -dPDFSETTINGS=/prepress ''
     @ ''            -dCompatibilityLevel=1.7 ''
     @ ''            -dAutoRotatePages=/None ''
     @ ''            -dFirstPage=1 -dLastPage=1 ''
     @ ''            -sOutputFile="'' @ outputPath @ ''" ''
     @ ''            "'' @ intermediatePath @ ''" ''
     @ ''            -c "[/Page 1 /View [/XYZ 0 '' @ toString e pageHeight @ '' 1] /DEST pdfmark" ''
     @ ''            -f "'' @ templatePath @ ''" 2>&1''\<close>

definition part000_flatArtworkCmd :: "env \<Rightarrow> path \<Rightarrow> jsnum \<Rightarrow> jsnum \<Rightarrow> path \<Rightarrow> string" where
  \<open>part000_flatArtworkCmd e artworkPdfPath pageWidth pageHeight jobDir =
     ''convert -density 300 "'' @ artworkPdfPath @ ''[0]" -resize '' @ toString e (Math_round pageWidth) @ ''x'' @ toString e (Math_round pageHeight) @ ''! "'' @ jobDir @ ''/artwork_flat.png"''\<close>

definition part000_flatTemplateCmd :: "env \<Rightarrow> path \<Rightarrow> jsnum \<Rightarrow> jsnum \<Rightarrow> path \<Rightarrow> string" where
  \<open>part000_flatTemplateCmd e templatePath pageWidth pageHeight jobDir =
     ''convert -density 300 "'' @ templatePath @ ''[0]" -resize '' @ toString e (Math_round pageWidth) @ ''x'' @ toString e (Math_round pageHeight) @ ''! "'' @ jobDir @ ''/template_flat.png"''\<close>

definition part000_compositeCmd :: "path \<Rightarrow> string" where
  \<open>part000_compositeCmd jobDir =
     ''convert "'' @ jobDir @ ''/artwork_flat.png" "'' @ jobDir @ ''/template_flat.png" -composite "'' @ jobDir @ ''/composite.png"''\<close>

definition part000_toPdfCmd :: "path \<Rightarrow> path \<Rightarrow> string" where
  \<open>part000_toPdfCmd jobDir outputPath =
     ''convert "'' @ jobDir @ ''/composite.png" -density 72 -units PixelsPerInch "'' @ outputPath @ ''"''\<close>

definition merge_pdf_layers_part000 :: "env \<Rightarrow> request \<Rightarrow> response prog" where
  "merge_pdf_layers_part000 e req =
    (let jobId = uuidv4 e;
         jobDir = path_join TEMP_DIR jobId
     in
     try_catch
      (block [mkdirSync jobDir]
        (case files_template req of
           None \<Rightarrow> ret (Json 400 [(''error'', ''Template PDF is required'')])
         | Some templateFile \<Rightarrow>
        (case files_artwork req of
           None \<Rightarrow> ret (Json 400 [(''error'', ''Artwork image is required'')])
         | Some artworkFile \<Rightarrow>
        (let layerName = js_or_str (body req ''layerName'') ''ARTWORK HERE'';
             x = js_or (parseFloat e (body req ''x'')) (Num 0);
             y = js_or (parseFloat e (body req ''y'')) (Num 0);
             width = js_or (parseFloat e (body req ''width'')) (Num 612);
             height = js_or (parseFloat e (body req ''height'')) (Num 792);
             templatePath = path_join jobDir ''template.pdf'';
             artworkPath = path_join jobDir (''artwork'' @ getExtension (mimetype artworkFile));
             artworkPdfPath = path_join jobDir ''artwork.pdf'';
             outputPath = path_join jobDir ''output.pdf'';
             pageWidth = js_or (parseFloat e (body req ''pageWidth'')) width;
             pageHeight = js_or (parseFloat e (body req ''pageHeight'')) height;
             psImagePath = path_join jobDir ''image.ps'';
             psContent = part000_psContent e pageWidth pageHeight artworkPath;
             intermediatePath = path_join jobDir ''intermediate.pdf'';
             compositePs = path_join jobDir ''composite.ps'';
             compositePsContent = part000_compositePsContent e pageWidth pageHeight;
             gsCmd = part000_gsCmd e pageWidth pageHeight intermediatePath artworkPdfPath;
             overlayCmd = part000_overlayCmd e outputPath intermediatePath pageHeight templatePath
         in
         block
           [console_log (''Job '' @ jobId @ '': Processing with layer '' @ [CHR 0x22] @ layerName
              @ [CHR 0x22] @ '', position ('' @ toString e x @ '', '' @ toString e y @ ''), size ''
              @ toString e width @ ''x'' @ toString e height),
            writeFileSync templatePath (buffer templateFile),
            writeFileSync artworkPath (buffer artworkFile),
            console_log (''Job '' @ jobId @ '': Files saved''),
            console_log (''Job '' @ jobId @ '': Page dimensions: '' @ toString e pageWidth @ '' x ''
              @ toString e pageHeight @ '' points''),
            try_catch
              (block
                 [exec e 107
                    (part000_convertCmd e artworkPath pageWidth pageHeight artworkPdfPath),
                  console_log (''Job '' @ jobId @ '': Converted artwork to PDF using ImageMagick'')]
                 skip)
              (\<lambda>err.
                 block
                   [console_log
                      (''Job '' @ jobId @ '': ImageMagick convert failed, trying alternative...''),
                    writeFileSync psImagePath psContent,
                    exec e 127 (part000_gsImageCmd artworkPdfPath psImagePath)]
                   skip),
            console_log (''Job '' @ jobId @ '': Creating overlay PDF...''),
            try_catch
              (block
                 [console_log (''Job '' @ jobId @ '': Trying pdftk background...''),
                  exec e 140 (part000_pdftkCmd templatePath artworkPdfPath outputPath),
                  console_log (''Job '' @ jobId @ '': pdftk background succeeded'')]
                 skip)
              (\<lambda>pdftkError.
                 block [console_log (''Job '' @ jobId @ '': pdftk not available, trying qpdf...'')]
                   (try_catch
                      (block
                         [exec e 148 (part000_qpdfCmd templatePath artworkPdfPath outputPath),
                          console_log (''Job '' @ jobId @ '': qpdf underlay succeeded'')]
                         skip)
                      (\<lambda>qpdfError.
                         block
                           [console_log (''Job '' @ jobId
                              @ '': qpdf not available, trying Ghostscript composite...'')]
                           (try_catch
                              (block
                                 [writeFileSync compositePs compositePsContent,
                                  exec e 198 gsCmd,
                                  console_log (''Job '' @ jobId @ '': Created artwork base layer''),
                                  exec e 212 overlayCmd,
                                  console_log (''Job '' @ jobId
                                    @ '': Added template overlay - but this creates 2 pages''),
                                  console_log (''Job '' @ jobId @ '': Trying ImageMagick composite...''),
                                  exec e 221
                                    (part000_flatArtworkCmd e artworkPdfPath pageWidth pageHeight jobDir),
                                  exec e 222
                                    (part000_flatTemplateCmd e templatePath pageWidth pageHeight jobDir),
                                  exec e 223 (part000_compositeCmd jobDir),
                                  exec e 224 (part000_toPdfCmd jobDir outputPath),
                                  console_log
                                    (''Job '' @ jobId @ '': ImageMagick composite succeeded'')]
                                 skip)
                              (\<lambda>gsError.
                                 block
                                   [console_log (''Job '' @ jobId
                                      @ '': All overlay methods failed: '' @ gsError),
                                    console_log (''Job '' @ jobId @ '': Returning artwork-only PDF''),
                                    copyFileSync artworkPdfPath outputPath]
                                   skip)))))]
           (bind (existsSync outputPath) (\<lambda>created.
              if created then
                block [console_log (''Job '' @ jobId @ '': PDF created successfully'')]
                  (bind (readFileSync outputPath) (\<lambda>outputBuffer.
                     block [cleanupJob jobDir]
                       (ret (Pdf (attachment (''printpilot-'' @ jobId @ ''.pdf'')) outputBuffer))))
              else throw ''Output PDF was not created''))))))
      (\<lambda>error.
         block
           [console_log (''Job '' @ jobId @ '': Error: '' @ error),
            cleanupJob jobDir]
           (ret (Json 500 [(''error'', ''PDF processing failed''),
                           (''message'', error),
                           (''jobId'', jobId)]))))"

section \<open>Observing a run\<close>

text \<open>A handler starts on the file system \<open>w\<close> with an empty trace.\<close>

definition start :: "world \<Rightarrow> state" where
  "start w = \<lparr>fs = w, trace = []\<rparr>"

text \<open>The job directory of a request.\<close>

definition jobDir_of :: "env \<Rightarrow> path" where
  "jobDir_of e = path_join TEMP_DIR (uuidv4 e)"

text \<open>The command lines a trace ran, in order, each with its outcome.\<close>

fun execs :: "event list \<Rightarrow> (string \<times> bool) list" where
  "execs [] = []"
| "execs (Exec l c ok # tr) = (c, ok) # execs tr"
| "execs (Write p b ok # tr) = execs tr"
| "execs (Read p b # tr) = execs tr"
| "execs (Copy src dst ok # tr) = execs tr"
| "execs (Log line # tr) = execs tr"

text \<open>The files the server itself wrote, in order: the writes that returned.\<close>

fun writes :: "event list \<Rightarrow> (path \<times> bytes) list" where
  "writes [] = []"
| "writes (Write p b ok # tr) = (if ok then (p, b) # writes tr else writes tr)"
| "writes (Exec l c ok # tr) = writes tr"
| "writes (Read p b # tr) = writes tr"
| "writes (Copy src dst ok # tr) = writes tr"
| "writes (Log line # tr) = writes tr"

text \<open>Whether the \<^verbatim>\<open>execSync\<close> call at a line ran and threw (\<open>failed\<close>) or returned
  (\<open>succeeded\<close>), and whether a \<^verbatim>\<open>copyFileSync\<close> was attempted.\<close>

fun exec_at :: "nat \<Rightarrow> bool \<Rightarrow> event \<Rightarrow> bool" where
  "exec_at l ok (Exec l' c ok') = (l' = l \<and> ok' = ok)"
| "exec_at l ok (Write p b ok') = False"
| "exec_at l ok (Read p b) = False"
| "exec_at l ok (Copy src dst ok') = False"
| "exec_at l ok (Log line) = False"

definition failed :: "nat \<Rightarrow> event list \<Rightarrow> bool" where
  "failed l tr = list_ex (exec_at l False) tr"

definition succeeded :: "nat \<Rightarrow> event list \<Rightarrow> bool" where
  "succeeded l tr = list_ex (exec_at l True) tr"

definition ran :: "nat \<Rightarrow> event list \<Rightarrow> bool" where
  "ran l tr = (failed l tr \<or> succeeded l tr)"

fun is_copy :: "event \<Rightarrow> bool" where
  "is_copy (Copy src dst ok) = True"
| "is_copy (Exec l c ok) = False"
| "is_copy (Write p b ok) = False"
| "is_copy (Read p b) = False"
| "is_copy (Log line) = False"

definition copied :: "event list \<Rightarrow> bool" where
  "copied tr = list_ex is_copy tr"

text \<open>The program a command line starts: its first word.\<close>

definition binary_of :: "string \<Rightarrow> string" where
  "binary_of cmd = takeWhile (\<lambda>c. c \<noteq> CHR '' '') cmd"

text \<open>Two views of a trace: without the console lines, and without the line numbers of the
  \<^verbatim>\<open>execSync\<close> calls (which differ between the copies of one handler).\<close>

fun unlog :: "event \<Rightarrow> event option" where
  "unlog (Log line) = None"
| "unlog (Exec l c ok) = Some (Exec l c ok)"
| "unlog (Write p b ok) = Some (Write p b ok)"
| "unlog (Read p b) = Some (Read p b)"
| "unlog (Copy src dst ok) = Some (Copy src dst ok)"

fun unlabel :: "event \<Rightarrow> event option" where
  "unlabel (Exec l c ok) = Some (Exec 0 c ok)"
| "unlabel (Log line) = Some (Log line)"
| "unlabel (Write p b ok) = Some (Write p b ok)"
| "unlabel (Read p b) = Some (Read p b)"
| "unlabel (Copy src dst ok) = Some (Copy src dst ok)"

definition view :: "(event \<Rightarrow> event option) \<Rightarrow> event list \<Rightarrow> event list" where
  "view f tr = List.map_filter f tr"

subsection \<open>Proof devices\<close>

text \<open>The weakest precondition of a program for a postcondition on its normal exit (\<open>Q\<close>)
  and one on its exit by a throw (\<open>E\<close>).\<close>

definition wp ::
  "'a prog \<Rightarrow> ('a \<Rightarrow> state \<Rightarrow> bool) \<Rightarrow> (string \<Rightarrow> state \<Rightarrow> bool) \<Rightarrow> state \<Rightarrow> bool" where
  "wp m Q E s = (case m s of (Inr v, s') \<Rightarrow> Q v s' | (Inl x, s') \<Rightarrow> E x s')"

text \<open>Two programs that, started on the same file system and on traces with the same view,
  end with the same result, the same file system and traces with the same view.\<close>

definition sim :: "(event \<Rightarrow> event option) \<Rightarrow> 'a prog \<Rightarrow> 'a prog \<Rightarrow> bool" where
  "sim f m n =
     (\<forall>s t. fs s = fs t \<and> view f (trace s) = view f (trace t) \<longrightarrow>
        fst (m s) = fst (n t) \<and> fs (snd (m s)) = fs (snd (n t)) \<and>
        view f (trace (snd (m s))) = view f (trace (snd (n t))))"

subsection \<open>A concrete environment\<close>

text \<open>
  An environment to run the handlers in: \<open>sample_parseFloat\<close> is \<^verbatim>\<open>parseFloat\<close> on
  \<^verbatim>\<open>undefined\<close> and on strings of decimal digits, and \<open>NaN\<close> on every other string (where
  JavaScript may parse a prefix); \<open>sample_toString\<close> prints the natural numbers in decimal.
  The job id is fixed. The tools are a parameter: \<open>no_tools\<close> is a machine where no binary is
  installed, \<open>inert_tools\<close> one where every command returns and changes nothing.
\<close>

definition is_digit :: "char \<Rightarrow> bool" where
  "is_digit c = (48 \<le> (of_char c :: nat) \<and> (of_char c :: nat) \<le> 57)"

definition sample_parseFloat :: "string option \<Rightarrow> jsnum" where
  "sample_parseFloat v =
     (case v of
        None \<Rightarrow> NaN
      | Some s \<Rightarrow>
          if s \<noteq> [] \<and> list_all is_digit s
          then Num (of_nat (foldl (\<lambda>a c. 10 * a + (of_char c - 48)) 0 s))
          else NaN)"

fun digits_of :: "nat \<Rightarrow> string" where
  "digits_of n =
     (if n < 10 then [''0123456789'' ! n]
      else digits_of (n div 10) @ [''0123456789'' ! (n mod 10)])"

definition sample_toString :: "jsnum \<Rightarrow> string" where
  "sample_toString n =
     (case n of
        NaN \<Rightarrow> ''NaN''
      | PInf \<Rightarrow> ''Infinity''
      | NInf \<Rightarrow> ''-Infinity''
      | Num q \<Rightarrow> if 0 \<le> q then digits_of (nat \<lfloor>q\<rfloor>) else ''-'' @ digits_of (nat \<lfloor>- q\<rfloor>))"

definition sample_env :: "(string \<Rightarrow> world \<Rightarrow> outcome \<times> world) \<Rightarrow> env" where
  "sample_env f =
     \<lparr>parseFloat = sample_parseFloat, toString = sample_toString, tool = f, uuidv4 = ''job-1''\<rparr>"

definition no_tools :: "string \<Rightarrow> world \<Rightarrow> outcome \<times> world" where
  "no_tools cmd w = (Failed ''not found'', w)"

definition inert_tools :: "string \<Rightarrow> world \<Rightarrow> outcome \<times> world" where
  "inert_tools cmd w = (Ok [], w)"

definition empty_world :: world where
  "empty_world = \<lparr>dirs = {TEMP_DIR}, files = (\<lambda>p. None)\<rparr>"

definition png :: "bytes \<Rightarrow> upload" where
  "png b = \<lparr>buffer = b, mimetype = ''image/png''\<rparr>"

definition pdf :: "bytes \<Rightarrow> upload" where
  "pdf b = \<lparr>buffer = b, mimetype = ''application/pdf''\<rparr>"

subsection \<open>Vocabulary of the claims\<close>

text \<open>A handler answers 400 with the JSON object \<^verbatim>\<open>{error: msg}\<close> and has run no command.\<close>

definition rejects_with :: "string \<Rightarrow> response prog \<Rightarrow> world \<Rightarrow> bool" where
  "rejects_with msg h w =
     (fst (h (start w)) = Inr (Json 400 [(''error'', msg)]) \<and>
      execs (trace (snd (h (start w)))) = [])"

text \<open>Sample requests: no upload, and a template with an artwork image.\<close>

definition no_uploads :: request where
  "no_uploads = \<lparr>files_template = None, files_artwork = None, body = (\<lambda>k. None)\<rparr>"

definition both_uploads :: request where
  "both_uploads =
     \<lparr>files_template = Some (pdf ''%PDF-template''), files_artwork = Some (png ''PNG-artwork''),
      body = (\<lambda>k. None)\<rparr>"

text \<open>The HTTP status of a response; \<^verbatim>\<open>res.send\<close> of the PDF answers 200.\<close>

fun status :: "string + response \<Rightarrow> nat option" where
  "status (Inr (Json st kv)) = Some st"
| "status (Inr (Pdf name b)) = Some 200"
| "status (Inl msg) = None"

text \<open>At the end of a run, the job directory is on disk and the answer is 400, or it is gone
  and the answer is 200 or 500.\<close>

definition dir_matches_status :: "env \<Rightarrow> (string + response) \<times> state \<Rightarrow> bool" where
  "dir_matches_status e r =
     ((status (fst r) = Some 400 \<and> exists_in (fs (snd r)) (jobDir_of e)) \<or>
      ((status (fst r) = Some 200 \<or> status (fst r) = Some 500) \<and>
       \<not> exists_in (fs (snd r)) (jobDir_of e)))"

definition cleanup_asymmetric :: "env \<Rightarrow> response prog \<Rightarrow> world \<Rightarrow> bool" where
  "cleanup_asymmetric e h w = dir_matches_status e (h (start w))"

text \<open>Two runs agree under a view of the trace: the same result, the same file system at the
  end, and traces with the same view.\<close>

definition agree ::
  "(event \<Rightarrow> event option) \<Rightarrow> (string + response) \<times> state \<Rightarrow> (string + response) \<times> state \<Rightarrow> bool"
  where
  "agree f r r' =
     (fst r = fst r' \<and> fs (snd r) = fs (snd r') \<and>
      view f (trace (snd r)) = view f (trace (snd r')))"

text \<open>The four binaries, and a trace all of whose commands start one of them.\<close>

definition known_binary :: "string \<Rightarrow> bool" where
  "known_binary cmd = (binary_of cmd \<in> set [''gs'', ''convert'', ''qpdf'', ''pdftk''])"

definition only_known_binaries :: "event list \<Rightarrow> bool" where
  "only_known_binaries tr = list_all known_binary (map fst (execs tr))"

text \<open>The programs a trace started, in order.\<close>

definition programs :: "event list \<Rightarrow> string list" where
  "programs tr = map binary_of (map fst (execs tr))"

text \<open>
  \<^verbatim>\<open>execSync\<close> hands its command line to a shell. The line starts a single program when, a
  final redirection \<^verbatim>\<open>2>&1\<close> aside, it holds none of the characters with which a shell
  starts another command or substitutes the output of one: the semicolon, the bar, the
  ampersand, the dollar sign, the backquote and the line feed.
\<close>

definition chaining :: "char \<Rightarrow> bool" where
  "chaining c = (c \<in> set [CHR 0x3B, CHR 0x7C, CHR 0x26, CHR 0x24, CHR 0x60, CHR 0x0A])"

definition plain :: "string \<Rightarrow> bool" where
  "plain s = (\<not> list_ex chaining s)"

definition drop_redirect :: "string \<Rightarrow> string" where
  "drop_redirect cmd = (if suffix ''2>&1'' cmd then take (length cmd - 4) cmd else cmd)"

definition single_command :: "string \<Rightarrow> bool" where
  "single_command cmd = plain (drop_redirect cmd)"

definition single_commands :: "event list \<Rightarrow> bool" where
  "single_commands tr = list_all single_command (map fst (execs tr))"

text \<open>
  The steps of a handler that a \<^verbatim>\<open>try\<close> block can fail at: the commands (with the line of
  their \<^verbatim>\<open>execSync\<close> call), the writes and the copies. \<open>steps\<close> are those of a trace, in
  order, each with whether it returned.
\<close>

datatype step = Run nat string | Save path bytes | Dup path path

fun steps :: "event list \<Rightarrow> (step \<times> bool) list" where
  "steps [] = []"
| "steps (Exec l c ok # tr) = (Run l c, ok) # steps tr"
| "steps (Write p b ok # tr) = (Save p b, ok) # steps tr"
| "steps (Copy src dst ok # tr) = (Dup src dst, ok) # steps tr"
| "steps (Read p b # tr) = steps tr"
| "steps (Log line # tr) = steps tr"

text \<open>
  A strategy is the list of the steps of one \<^verbatim>\<open>try\<close> block. \<open>attempt\<close> reads one attempt of
  a strategy off the front of the observed steps: the steps of the strategy in their order, up
  to and including the first that threw. It gives whether the strategy returned and what was
  observed after it, or \<open>None\<close> if the observation does not start with an attempt of the
  strategy.
\<close>

fun attempt :: "step list \<Rightarrow> (step \<times> bool) list \<Rightarrow> (bool \<times> (step \<times> bool) list) option" where
  "attempt [] obs = Some (True, obs)"
| "attempt (st # sts) [] = None"
| "attempt (st # sts) (ob # obs) =
     (if fst ob = st then (if snd ob then attempt sts obs else Some (False, obs)) else None)"

text \<open>
  A cascade is a list of strategies, each the fallback of the one before it: the first is
  attempted; the next one is attempted exactly when the one before it threw; a strategy that
  returned ends the cascade. A cascade whose strategies all threw has thrown itself.
\<close>

fun cascade :: "step list list \<Rightarrow> (step \<times> bool) list \<Rightarrow> (bool \<times> (step \<times> bool) list) option" where
  "cascade [] obs = Some (False, obs)"
| "cascade (s # ss) obs =
     (case attempt s obs of
        None \<Rightarrow> None
      | Some r \<Rightarrow> if fst r then Some r else cascade ss (snd r))"

text \<open>
  The body of a handler is a sequence of cascades. \<open>follows plan obs\<close>: the observed steps
  are a run of the cascades in their order, each started exactly when the one before it
  returned, and nothing else; when a cascade has thrown, nothing more is observed.
\<close>

fun follows :: "step list list list \<Rightarrow> (step \<times> bool) list \<Rightarrow> bool" where
  "follows [] obs = (obs = [])"
| "follows (c # cs) obs =
     (case cascade c obs of
        None \<Rightarrow> False
      | Some r \<Rightarrow> if fst r then follows cs (snd r) else snd r = [])"

text \<open>What a step runs: the program of a command, or the call of the server itself.\<close>

fun program :: "step \<Rightarrow> string" where
  "program (Run l c) = binary_of c"
| "program (Save p b) = ''writeFileSync''"
| "program (Dup src dst) = ''copyFileSync''"

text \<open>
  The numbers of POST /api/merge-pdf-layers: \<^verbatim>\<open>width\<close> and \<^verbatim>\<open>height\<close> (lines 82-83 of each
  file), and \<^verbatim>\<open>pageWidth\<close> and \<^verbatim>\<open>pageHeight\<close> of railway-api/server.js and part_000 (lines
  99-100).
\<close>

definition merge_width :: "env \<Rightarrow> request \<Rightarrow> jsnum" where
  "merge_width e req = js_or (parseFloat e (body req ''width'')) (Num 612)"

definition merge_height :: "env \<Rightarrow> request \<Rightarrow> jsnum" where
  "merge_height e req = js_or (parseFloat e (body req ''height'')) (Num 792)"

definition merge_pageWidth :: "env \<Rightarrow> request \<Rightarrow> jsnum" where
  "merge_pageWidth e req = js_or (parseFloat e (body req ''pageWidth'')) (merge_width e req)"

definition merge_pageHeight :: "env \<Rightarrow> request \<Rightarrow> jsnum" where
  "merge_pageHeight e req = js_or (parseFloat e (body req ''pageHeight'')) (merge_height e req)"

text \<open>The uploads are saved first, in one block (lines 93-94 of each file).\<close>

definition save_uploads :: "env \<Rightarrow> upload \<Rightarrow> upload \<Rightarrow> step list list" where
  "save_uploads e t a =
     [[Save (path_join (jobDir_of e) ''template.pdf'') (buffer t),
       Save (path_join (jobDir_of e) (''artwork'' @ getExtension (mimetype a))) (buffer a)]]"

text \<open>
  src/server.js. The artwork is converted in a \<^verbatim>\<open>try\<close> whose \<^verbatim>\<open>catch\<close> runs nothing (lines
  105-134); then Ghostscript merges template and artwork, with Ghostscript on the template
  alone as the fallback (lines 162-173).
\<close>

definition server_conversion :: "env \<Rightarrow> request \<Rightarrow> upload \<Rightarrow> step list list" where
  "server_conversion e req a =
     [[Run 107 (server_convertCmd e
          (path_join (jobDir_of e) (''artwork'' @ getExtension (mimetype a)))
          (merge_width e req) (merge_height e req) (path_join (jobDir_of e) ''artwork.pdf''))],
      []]"

definition server_merge :: "env \<Rightarrow> step list list" where
  "server_merge e =
     [[Run 163 (server_mergeCmd (path_join (jobDir_of e) ''output.pdf'')
          (path_join (jobDir_of e) ''template.pdf'') (path_join (jobDir_of e) ''artwork.pdf''))],
      [Run 172 (server_simpleMergeCmd (path_join (jobDir_of e) ''output.pdf'')
          (path_join (jobDir_of e) ''template.pdf''))]]"

definition server_plan :: "env \<Rightarrow> request \<Rightarrow> upload \<Rightarrow> upload \<Rightarrow> step list list list" where
  "server_plan e req t a = [save_uploads e t a, server_conversion e req a, server_merge e]"

text \<open>
  src/railway-api/server.js. The artwork is converted by ImageMagick and resized by
  Ghostscript, with ImageMagick alone as the fallback (lines 110-150); then qpdf underlay,
  pdftk background, the four ImageMagick commands that flatten and composite, and the copy of
  the artwork PDF to the output (lines 155-195).
\<close>

definition railway_conversion :: "env \<Rightarrow> request \<Rightarrow> upload \<Rightarrow> step list list" where
  "railway_conversion e req a =
     [[Run 129 (railway_rawCmd
          (path_join (jobDir_of e) (''artwork'' @ getExtension (mimetype a))) (jobDir_of e)),
       Run 133 (railway_resizeCmd e (merge_pageWidth e req) (merge_pageHeight e req)
          (path_join (jobDir_of e) ''artwork.pdf'') (jobDir_of e))],
      [Run 146 (railway_fallbackCmd e
          (path_join (jobDir_of e) (''artwork'' @ getExtension (mimetype a)))
          (merge_pageWidth e req) (merge_pageHeight e req)
          (path_join (jobDir_of e) ''artwork.pdf''))]]"

definition railway_merge :: "env \<Rightarrow> request \<Rightarrow> step list list" where
  "railway_merge e req =
     [[Run 157 (railway_qpdfCmd (path_join (jobDir_of e) ''template.pdf'')
          (path_join (jobDir_of e) ''artwork.pdf'') (path_join (jobDir_of e) ''output.pdf''))],
      [Run 165 (railway_pdftkCmd (path_join (jobDir_of e) ''template.pdf'')
          (path_join (jobDir_of e) ''artwork.pdf'') (path_join (jobDir_of e) ''output.pdf''))],
      [Run 176 (railway_flatTemplateCmd e (Num 300) (path_join (jobDir_of e) ''template.pdf'')
          (jobDir_of e)),
       Run 177 (railway_flatArtworkCmd e (Num 300) (path_join (jobDir_of e) ''artwork.pdf'')
          (jobDir_of e)),
       Run 180 (railway_compositeCmd (jobDir_of e)),
       Run 183 (railway_toPdfCmd e (jobDir_of e) (merge_pageWidth e req) (merge_pageHeight e req)
          (path_join (jobDir_of e) ''output.pdf''))],
      [Dup (path_join (jobDir_of e) ''artwork.pdf'') (path_join (jobDir_of e) ''output.pdf'')]]"

definition railway_plan :: "env \<Rightarrow> request \<Rightarrow> upload \<Rightarrow> upload \<Rightarrow> step list list list" where
  "railway_plan e req t a = [save_uploads e t a, railway_conversion e req a, railway_merge e req]"

text \<open>
  src/unnamed/part_000. The artwork is converted by ImageMagick, with a PostScript file run
  by Ghostscript as the fallback (lines 105-128); then pdftk background, qpdf underlay, a
  PostScript file followed by two Ghostscript and four ImageMagick commands, and the copy of
  the artwork PDF to the output (lines 136-234).
\<close>

definition part000_conversion :: "env \<Rightarrow> request \<Rightarrow> upload \<Rightarrow> step list list" where
  "part000_conversion e req a =
     [[Run 107 (part000_convertCmd e
          (path_join (jobDir_of e) (''artwork'' @ getExtension (mimetype a)))
          (merge_pageWidth e req) (merge_pageHeight e req)
          (path_join (jobDir_of e) ''artwork.pdf''))],
      [Save (path_join (jobDir_of e) ''image.ps'')
         (part000_psContent e (merge_pageWidth e req) (merge_pageHeight e req)
            (path_join (jobDir_of e) (''artwork'' @ getExtension (mimetype a)))),
       Run 127 (part000_gsImageCmd (path_join (jobDir_of e) ''artwork.pdf'')
          (path_join (jobDir_of e) ''image.ps''))]]"

definition part000_merge :: "env \<Rightarrow> request \<Rightarrow> step list list" where
  "part000_merge e req =
     [[Run 140 (part000_pdftkCmd (path_join (jobDir_of e) ''template.pdf'')
          (path_join (jobDir_of e) ''artwork.pdf'') (path_join (jobDir_of e) ''output.pdf''))],
      [Run 148 (part000_qpdfCmd (path_join (jobDir_of e) ''template.pdf'')
          (path_join (jobDir_of e) ''artwork.pdf'') (path_join (jobDir_of e) ''output.pdf''))],
      [Save (path_join (jobDir_of e) ''composite.ps'')
         (part000_compositePsContent e (merge_pageWidth e req) (merge_pageHeight e req)),
       Run 198 (part000_gsCmd e (merge_pageWidth e req) (merge_pageHeight e req)
          (path_join (jobDir_of e) ''intermediate.pdf'') (path_join (jobDir_of e) ''artwork.pdf'')),
       Run 212 (part000_overlayCmd e (path_join (jobDir_of e) ''output.pdf'')
          (path_join (jobDir_of e) ''intermediate.pdf'') (merge_pageHeight e req)
          (path_join (jobDir_of e) ''template.pdf'')),
       Run 221 (part000_flatArtworkCmd e (path_join (jobDir_of e) ''artwork.pdf'')
          (merge_pageWidth e req) (merge_pageHeight e req) (jobDir_of e)),
       Run 222 (part000_flatTemplateCmd e (path_join (jobDir_of e) ''template.pdf'')
          (merge_pageWidth e req) (merge_pageHeight e req) (jobDir_of e)),
       Run 223 (part000_compositeCmd (jobDir_of e)),
       Run 224 (part000_toPdfCmd (jobDir_of e) (path_join (jobDir_of e) ''output.pdf''))],
      [Dup (path_join (jobDir_of e) ''artwork.pdf'') (path_join (jobDir_of e) ''output.pdf'')]]"

definition part000_plan :: "env \<Rightarrow> request \<Rightarrow> upload \<Rightarrow> upload \<Rightarrow> step list list list" where
  "part000_plan e req t a = [save_uploads e t a, part000_conversion e req a, part000_merge e req]"

text \<open>Whether a file was written (\<open>saved\<close>), or its write threw (\<open>unsaved\<close>).\<close>

fun write_at :: "path \<Rightarrow> bool \<Rightarrow> event \<Rightarrow> bool" where
  "write_at p ok (Write q b ok') = (q = p \<and> ok' = ok)"
| "write_at p ok (Exec l c ok') = False"
| "write_at p ok (Read q b) = False"
| "write_at p ok (Copy src dst ok') = False"
| "write_at p ok (Log line) = False"

definition saved :: "path \<Rightarrow> event list \<Rightarrow> bool" where
  "saved p tr = list_ex (write_at p True) tr"

definition unsaved :: "path \<Rightarrow> event list \<Rightarrow> bool" where
  "unsaved p tr = list_ex (write_at p False) tr"

text \<open>
  The same cascades, told line by line. Each predicate says of a trace: a later strategy was
  attempted exactly when every earlier one threw; inside a strategy each step ran exactly when
  the one before it returned; and after a strategy that returned, no later one was attempted.

  railway-api/server.js: qpdf underlay (157), pdftk background (165), ImageMagick rasterize and
  composite (176, 177, 180, 183), copy of the artwork PDF (192).
\<close>

definition railway_cascade :: "event list \<Rightarrow> bool" where
  "railway_cascade tr =
     ((ran 165 tr \<longleftrightarrow> failed 157 tr) \<and>
      (ran 176 tr \<longleftrightarrow> failed 157 tr \<and> failed 165 tr) \<and>
      (ran 177 tr \<longleftrightarrow> succeeded 176 tr) \<and>
      (ran 180 tr \<longleftrightarrow> succeeded 177 tr) \<and>
      (ran 183 tr \<longleftrightarrow> succeeded 180 tr) \<and>
      (copied tr \<longleftrightarrow>
         failed 157 tr \<and> failed 165 tr \<and>
         (failed 176 tr \<or> failed 177 tr \<or> failed 180 tr \<or> failed 183 tr)) \<and>
      \<not> (succeeded 157 tr \<and> (ran 165 tr \<or> ran 176 tr \<or> copied tr)) \<and>
      \<not> (succeeded 165 tr \<and> (ran 176 tr \<or> copied tr)) \<and>
      \<not> (succeeded 183 tr \<and> copied tr))"

text \<open>part_000: pdftk background (140), qpdf underlay (148), the write of the PostScript
  file \<open>ps\<close> (182) with the Ghostscript and ImageMagick commands after it (198, 212, 221, 222,
  223, 224), copy of the artwork PDF (232).\<close>

definition part000_cascade :: "path \<Rightarrow> event list \<Rightarrow> bool" where
  "part000_cascade ps tr =
     ((ran 148 tr \<longleftrightarrow> failed 140 tr) \<and>
      (saved ps tr \<or> unsaved ps tr \<longleftrightarrow> failed 140 tr \<and> failed 148 tr) \<and>
      (ran 198 tr \<longleftrightarrow> saved ps tr) \<and>
      (ran 212 tr \<longleftrightarrow> succeeded 198 tr) \<and>
      (ran 221 tr \<longleftrightarrow> succeeded 212 tr) \<and>
      (ran 222 tr \<longleftrightarrow> succeeded 221 tr) \<and>
      (ran 223 tr \<longleftrightarrow> succeeded 222 tr) \<and>
      (ran 224 tr \<longleftrightarrow> succeeded 223 tr) \<and>
      (copied tr \<longleftrightarrow>
         failed 140 tr \<and> failed 148 tr \<and>
         (unsaved ps tr \<or> failed 198 tr \<or> failed 212 tr \<or> failed 221 tr \<or> failed 222 tr \<or>
          failed 223 tr \<or> failed 224 tr)) \<and>
      \<not> (succeeded 140 tr \<and> (ran 148 tr \<or> saved ps tr \<or> unsaved ps tr \<or> copied tr)) \<and>
      \<not> (succeeded 148 tr \<and> (saved ps tr \<or> unsaved ps tr \<or> copied tr)) \<and>
      \<not> (succeeded 224 tr \<and> copied tr))"

text \<open>server.js: Ghostscript merge of template and artwork (163), Ghostscript on the template
  alone (172).\<close>

definition server_cascade :: "event list \<Rightarrow> bool" where
  "server_cascade tr =
     ((ran 172 tr \<longleftrightarrow> failed 163 tr) \<and> \<not> (succeeded 163 tr \<and> ran 172 tr))"

text \<open>A machine with ImageMagick, whose \<^verbatim>\<open>convert\<close> returns and changes nothing, without
  pdftk and Ghostscript, and with a \<^verbatim>\<open>qpdf\<close> that fails and takes the directory \<open>d\<close> with
  it.\<close>

definition qpdf_wipes :: "path \<Rightarrow> string \<Rightarrow> world \<Rightarrow> outcome \<times> world" where
  "qpdf_wipes d cmd w =
     (if binary_of cmd = ''convert'' then (Ok [], w)
      else if binary_of cmd = ''qpdf'' then (Failed ''qpdf: killed'', rmSync d w)
      else (Failed (binary_of cmd @ '': not found''), w))"

text \<open>The outline of a run: what each step ran and whether it returned.\<close>

definition outline :: "event list \<Rightarrow> (string \<times> bool) list" where
  "outline tr = map (\<lambda>s. (program (fst s), snd s)) (steps tr)"

text \<open>A machine with ImageMagick and qpdf, without Ghostscript and pdftk: \<^verbatim>\<open>qpdf\<close> writes a
  PDF to the path \<open>out\<close>, \<^verbatim>\<open>convert\<close> returns, every other command is not found.\<close>

definition qpdf_machine :: "path \<Rightarrow> string \<Rightarrow> world \<Rightarrow> outcome \<times> world" where
  "qpdf_machine out cmd w =
     (if binary_of cmd = ''qpdf'' then (Ok [], w\<lparr>files := (files w)(out \<mapsto> ''%PDF-merged'')\<rparr>)
      else if binary_of cmd = ''convert'' then (Ok [], w)
      else (Failed (binary_of cmd @ '': not found''), w))"

definition sample_output :: path where
  "sample_output = ''/tmp/pdf-processing/job-1/output.pdf''"

text \<open>A parameter that is the \<^verbatim>\<open>parseFloat\<close> value of its form field or a default.\<close>

definition from_field :: "env \<Rightarrow> request \<Rightarrow> string \<Rightarrow> jsnum \<Rightarrow> jsnum \<Rightarrow> bool" where
  "from_field e req k d v = (v = parseFloat e (body req k) \<or> v = d)"

text \<open>
  The command lines of the merge handlers, for a job directory, the extension of the artwork
  file and the numbers interpolated: \<^verbatim>\<open>width\<close> and \<^verbatim>\<open>height\<close> in server.js,
  \<^verbatim>\<open>pageWidth\<close> and \<^verbatim>\<open>pageHeight\<close> in the other two files.
\<close>

definition server_commands :: "env \<Rightarrow> path \<Rightarrow> string \<Rightarrow> jsnum \<Rightarrow> jsnum \<Rightarrow> string list" where
  "server_commands e jobDir ext width height =
     [server_convertCmd e (path_join jobDir (''artwork'' @ ext)) width height
        (path_join jobDir ''artwork.pdf''),
      server_mergeCmd (path_join jobDir ''output.pdf'') (path_join jobDir ''template.pdf'')
        (path_join jobDir ''artwork.pdf''),
      server_simpleMergeCmd (path_join jobDir ''output.pdf'') (path_join jobDir ''template.pdf'')]"

definition railway_commands :: "env \<Rightarrow> path \<Rightarrow> string \<Rightarrow> jsnum \<Rightarrow> jsnum \<Rightarrow> string list" where
  "railway_commands e jobDir ext pageWidth pageHeight =
     [railway_rawCmd (path_join jobDir (''artwork'' @ ext)) jobDir,
      railway_resizeCmd e pageWidth pageHeight (path_join jobDir ''artwork.pdf'') jobDir,
      railway_fallbackCmd e (path_join jobDir (''artwork'' @ ext)) pageWidth pageHeight
        (path_join jobDir ''artwork.pdf''),
      railway_qpdfCmd (path_join jobDir ''template.pdf'') (path_join jobDir ''artwork.pdf'')
        (path_join jobDir ''output.pdf''),
      railway_pdftkCmd (path_join jobDir ''template.pdf'') (path_join jobDir ''artwork.pdf'')
        (path_join jobDir ''output.pdf''),
      railway_flatTemplateCmd e (Num 300) (path_join jobDir ''template.pdf'') jobDir,
      railway_flatArtworkCmd e (Num 300) (path_join jobDir ''artwork.pdf'') jobDir,
      railway_compositeCmd jobDir,
      railway_toPdfCmd e jobDir pageWidth pageHeight (path_join jobDir ''output.pdf'')]"

definition part000_commands :: "env \<Rightarrow> path \<Rightarrow> string \<Rightarrow> jsnum \<Rightarrow> jsnum \<Rightarrow> string list" where
  "part000_commands e jobDir ext pageWidth pageHeight =
     [part000_convertCmd e (path_join jobDir (''artwork'' @ ext)) pageWidth pageHeight
        (path_join jobDir ''artwork.pdf''),
      part000_gsImageCmd (path_join jobDir ''artwork.pdf'') (path_join jobDir ''image.ps''),
      part000_pdftkCmd (path_join jobDir ''template.pdf'') (path_join jobDir ''artwork.pdf'')
        (path_join jobDir ''output.pdf''),
      part000_qpdfCmd (path_join jobDir ''template.pdf'') (path_join jobDir ''artwork.pdf'')
        (path_join jobDir ''output.pdf''),
      part000_gsCmd e pageWidth pageHeight (path_join jobDir ''intermediate.pdf'')
        (path_join jobDir ''artwork.pdf''),
      part000_overlayCmd e (path_join jobDir ''output.pdf'') (path_join jobDir ''intermediate.pdf'')
        pageHeight (path_join jobDir ''template.pdf''),
      part000_flatArtworkCmd e (path_join jobDir ''artwork.pdf'') pageWidth pageHeight jobDir,
      part000_flatTemplateCmd e (path_join jobDir ''template.pdf'') pageWidth pageHeight jobDir,
      part000_compositeCmd jobDir,
      part000_toPdfCmd jobDir (path_join jobDir ''output.pdf'')]"

text \<open>A trace all of whose commands are in a list.\<close>

definition runs_only :: "string list \<Rightarrow> event list \<Rightarrow> bool" where
  "runs_only cmds tr = list_all (\<lambda>c. c \<in> set cmds) (map fst (execs tr))"

text \<open>The command line the \<^verbatim>\<open>execSync\<close> call of a line ran first, if it ran.\<close>

fun command_at :: "nat \<Rightarrow> event list \<Rightarrow> string option" where
  "command_at l [] = None"
| "command_at l (Exec l' c ok # tr) = (if l' = l then Some c else command_at l tr)"
| "command_at l (Write p b ok # tr) = command_at l tr"
| "command_at l (Read p b # tr) = command_at l tr"
| "command_at l (Copy src dst ok # tr) = command_at l tr"
| "command_at l (Log line # tr) = command_at l tr"

text \<open>A request with both uploads and the single field \<^verbatim>\<open>width=500\<close>, and the command line
  with a page of 500 by 792 points.\<close>

definition width_500 :: request where
  "width_500 = both_uploads\<lparr>body := (body both_uploads)(''width'' \<mapsto> ''500'')\<rparr>"

definition resize_to_500 :: string where
  \<open>resize_to_500 =
     ''gs -dNOPAUSE -dBATCH -sDEVICE=pdfwrite ''
     @ ''        -dFIXEDMEDIA ''
     @ ''        -dDEVICEWIDTHPOINTS=500 ''
     @ ''        -dDEVICEHEIGHTPOINTS=792 ''
     @ ''        -dPDFFitPage ''
     @ ''        -dCompatibilityLevel=1.7 ''
     @ ''        -sOutputFile="/tmp/pdf-processing/job-1/artwork.pdf" ''
     @ ''        "/tmp/pdf-processing/job-1/artwork_raw.pdf"''\<close>

text \<open>The numeric form fields, and a handler for which the text \<open>s\<close> in the field \<open>k\<close> is as
  good as no field \<open>k\<close>.\<close>

definition numeric_fields :: "string list" where
  "numeric_fields = [''x'', ''y'', ''width'', ''height'', ''pageWidth'', ''pageHeight'']"

definition as_missing :: "(request \<Rightarrow> response prog) \<Rightarrow> request \<Rightarrow> string \<Rightarrow> string \<Rightarrow> bool" where
  "as_missing h req s k =
     (h (req\<lparr>body := (body req)(k \<mapsto> s)\<rparr>) = h (req\<lparr>body := (body req)(k := None)\<rparr>))"

text \<open>
  A command that ignores the file \<open>p\<close>: run on a file system where \<open>p\<close> holds other bytes, it
  has the same outcome and leaves the same files, \<open>p\<close> still holding those bytes. This is how
  a program treats a file that is not named on its command line and that it never opens.
\<close>

definition ignores_file :: "env \<Rightarrow> string \<Rightarrow> path \<Rightarrow> bool" where
  "ignores_file e cmd p =
     (\<forall>w b. tool e cmd (w\<lparr>files := (files w)(p \<mapsto> b)\<rparr>) =
        (fst (tool e cmd w),
         (snd (tool e cmd w))\<lparr>files := (files (snd (tool e cmd w)))(p \<mapsto> b)\<rparr>))"

text \<open>The request \<open>req\<close> with the given template and artwork uploads.\<close>

definition with_uploads :: "request \<Rightarrow> upload \<Rightarrow> upload \<Rightarrow> request" where
  "with_uploads req t a = req\<lparr>files_template := Some t, files_artwork := Some a\<rparr>"

text \<open>A machine whose only program is a \<^verbatim>\<open>gs\<close> that rewrites the file \<open>src\<close> to the file
  \<open>dst\<close> unchanged.\<close>

definition gs_copies :: "path \<Rightarrow> path \<Rightarrow> string \<Rightarrow> world \<Rightarrow> outcome \<times> world" where
  "gs_copies src dst cmd w =
     (if binary_of cmd = ''gs'' then
        (case files w src of
           Some b \<Rightarrow> (Ok [], w\<lparr>files := (files w)(dst \<mapsto> b)\<rparr>)
         | None \<Rightarrow> (Failed ''gs: no such file'', w))
      else (Failed (binary_of cmd @ '': not found''), w))"

definition sample_template :: path where
  "sample_template = ''/tmp/pdf-processing/job-1/template.pdf''"

definition sample_artwork :: path where
  "sample_artwork = ''/tmp/pdf-processing/job-1/artwork.png''"

text \<open>The overlay handler on a request with both uploads, in closed form: the file system
  after its three writes into the new job directory, and the response as a function of what
  the one command does there.\<close>

definition overlay_world :: "env \<Rightarrow> request \<Rightarrow> upload \<Rightarrow> upload \<Rightarrow> world \<Rightarrow> world" where
  "overlay_world e req t a w =
     (let jobDir = jobDir_of e in
      (new_dir jobDir w)\<lparr>files := (files (new_dir jobDir w))
          (path_join jobDir ''template.pdf'' \<mapsto> buffer t,
           path_join jobDir ''artwork.png'' \<mapsto> buffer a,
           path_join jobDir ''overlay.ps'' \<mapsto>
             overlay_psContent e (path_join jobDir ''artwork.png'')
               (js_or (parseFloat e (body req ''x'')) (Num 0))
               (js_or (parseFloat e (body req ''y'')) (Num 0))
               (js_or (parseFloat e (body req ''width'')) (Num 0))
               (js_or (parseFloat e (body req ''height'')) (Num 0))
               (js_or (parseFloat e (body req ''pageWidth'')) (Num 612))
               (js_or (parseFloat e (body req ''pageHeight'')) (Num 792)))\<rparr>)"

definition overlay_response :: "env \<Rightarrow> outcome \<times> world \<Rightarrow> string + response" where
  "overlay_response e r =
     (let out = path_join (jobDir_of e) ''output.pdf'' in
      case r of
        (Failed msg, w') \<Rightarrow> Inr (Json 500 [(''error'', ''PDF processing failed''), (''message'', msg)])
      | (Ok stdout, w') \<Rightarrow>
          (case files w' out of
             Some b \<Rightarrow> Inr (Pdf (attachment (''printpilot-'' @ uuidv4 e @ ''.pdf'')) b)
           | None \<Rightarrow>
               Inr (Json 500 [(''error'', ''PDF processing failed''),
                  (''message'',
                   if out \<in> dirs w' then ''EISDIR: illegal operation on a directory, read''
                   else ''ENOENT: no such file or directory, open '' @ quoted out)])))"

text \<open>
  What the server itself does with document bytes, as three properties of a run.

  \<open>saved_first uploads tr\<close>: leaving the console lines aside, the trace begins with the
  writes of the uploads, each buffer as it is to its file, and each write returns.
\<close>

definition saved_first :: "(path \<times> bytes) list \<Rightarrow> event list \<Rightarrow> bool" where
  "saved_first uploads tr =
     prefix (map (\<lambda>pb. Write (fst pb) (snd pb) True) uploads) (view unlog tr)"

text \<open>\<open>writes_among allowed tr\<close>: every file the server wrote is in the list, with the bytes
  the list gives.\<close>

definition writes_among :: "(path \<times> bytes) list \<Rightarrow> event list \<Rightarrow> bool" where
  "writes_among allowed tr = list_all (\<lambda>pb. pb \<in> set allowed) (writes tr)"

text \<open>The copies the server made (those that returned), and \<open>copies_among\<close>: each is in the
  list.\<close>

fun copies :: "event list \<Rightarrow> (path \<times> path) list" where
  "copies [] = []"
| "copies (Copy src dst ok # tr) = (if ok then (src, dst) # copies tr else copies tr)"
| "copies (Exec l c ok # tr) = copies tr"
| "copies (Write p b ok # tr) = copies tr"
| "copies (Read p b # tr) = copies tr"
| "copies (Log line # tr) = copies tr"

definition copies_among :: "(path \<times> path) list \<Rightarrow> event list \<Rightarrow> bool" where
  "copies_among allowed tr = list_all (\<lambda>c. c \<in> set allowed) (copies tr)"

text \<open>
  Where the content of a file comes from. The actions of a trace are replayed on the file
  system the handler started on: \<open>after\<close> is the file system after one action, and
  \<open>origin_after\<close> says of each file whether it is as it was when the handler started
  (\<open>Initial\<close>), holds bytes the server wrote with \<^verbatim>\<open>writeFileSync\<close> (\<open>Server\<close>, with these
  bytes), or was last changed by the command of an \<^verbatim>\<open>execSync\<close> call (\<open>Tool\<close>, with the line of
  the call). A copy carries the origin of its source.
\<close>

datatype origin = Initial | Server bytes | Tool nat

fun after :: "env \<Rightarrow> event \<Rightarrow> world \<Rightarrow> world" where
  "after e (Exec l c ok) w = snd (tool e c w)"
| "after e (Write p b ok) w = (if ok then w\<lparr>files := (files w)(p \<mapsto> b)\<rparr> else w)"
| "after e (Copy src dst ok) w = (if ok then w\<lparr>files := (files w)(dst := files w src)\<rparr> else w)"
| "after e (Read p b) w = w"
| "after e (Log line) w = w"

fun origin_after :: "env \<Rightarrow> event \<Rightarrow> world \<Rightarrow> (path \<Rightarrow> origin) \<Rightarrow> path \<Rightarrow> origin" where
  "origin_after e (Exec l c ok) w orig p =
     (if files (snd (tool e c w)) p = files w p then orig p else Tool l)"
| "origin_after e (Write q b ok) w orig p = (if ok \<and> p = q then Server b else orig p)"
| "origin_after e (Copy src dst ok) w orig p = (if ok \<and> p = dst then orig src else orig p)"
| "origin_after e (Read q b) w orig p = orig p"
| "origin_after e (Log line) w orig p = orig p"

fun replay :: "env \<Rightarrow> event list \<Rightarrow> world \<times> (path \<Rightarrow> origin) \<Rightarrow> world \<times> (path \<Rightarrow> origin)" where
  "replay e [] x = x"
| "replay e (ev # tr) x = replay e tr (after e ev (fst x), origin_after e ev (fst x) (snd x))"

definition world_after :: "env \<Rightarrow> world \<Rightarrow> event list \<Rightarrow> world" where
  "world_after e w tr = fst (replay e tr (w, \<lambda>p. Initial))"

definition origin_of :: "env \<Rightarrow> world \<Rightarrow> event list \<Rightarrow> path \<Rightarrow> origin" where
  "origin_of e w tr p = snd (replay e tr (w, \<lambda>p. Initial)) p"

text \<open>The body of a response that is a PDF.\<close>

fun pdf_body :: "string + response \<Rightarrow> bytes option" where
  "pdf_body (Inr (Pdf name b)) = Some b"
| "pdf_body (Inr (Json st kv)) = None"
| "pdf_body (Inl msg) = None"

text \<open>\<open>body_read e w out r\<close>: when the response is the PDF, its body is the content of the
  file \<open>out\<close> after the actions of the run.\<close>

definition body_read :: "env \<Rightarrow> world \<Rightarrow> path \<Rightarrow> (string + response) \<times> state \<Rightarrow> bool" where
  "body_read e w out r =
     (case pdf_body (fst r) of
        Some b \<Rightarrow> files (world_after e w (trace (snd r))) out = Some b
      | None \<Rightarrow> True)"

text \<open>
  \<open>produced e w out verbatim r\<close>, of a run \<open>r\<close> that started on the file system \<open>w\<close>: when the
  response is the PDF, its body is the content of the file \<open>out\<close> after the actions of the
  run; and that content was last changed by a command of the run (and at most copied since),
  or it is bytes that the server wrote and that are in the list \<open>verbatim\<close>.
\<close>

definition produced ::
  "env \<Rightarrow> world \<Rightarrow> path \<Rightarrow> bytes list \<Rightarrow> (string + response) \<times> state \<Rightarrow> bool" where
  "produced e w out verbatim r =
     (case pdf_body (fst r) of
        None \<Rightarrow> True
      | Some b \<Rightarrow>
          files (world_after e w (trace (snd r))) out = Some b \<and>
          (case origin_of e w (trace (snd r)) out of
             Tool l \<Rightarrow> ran l (trace (snd r))
           | Server b' \<Rightarrow> b' = b \<and> b \<in> set verbatim
           | Initial \<Rightarrow> False))"

text \<open>The three together, for a handler whose job directory has just been made.\<close>

definition bytes_untouched ::
  "env \<Rightarrow> world \<Rightarrow> (path \<times> bytes) list \<Rightarrow> (path \<times> bytes) list \<Rightarrow> bytes list \<Rightarrow>
   (string + response) \<times> state \<Rightarrow> bool" where
  "bytes_untouched e w uploads scripts verbatim r =
     (saved_first uploads (trace (snd r)) \<and>
      writes_among (uploads @ scripts) (trace (snd r)) \<and>
      produced e (new_dir (jobDir_of e) w) (path_join (jobDir_of e) ''output.pdf'') verbatim r)"

text \<open>The uploads as each handler saves them, and the PostScript files it writes besides.\<close>

definition merge_uploads :: "env \<Rightarrow> upload \<Rightarrow> upload \<Rightarrow> (path \<times> bytes) list" where
  "merge_uploads e t a =
     [(path_join (jobDir_of e) ''template.pdf'', buffer t),
      (path_join (jobDir_of e) (''artwork'' @ getExtension (mimetype a)), buffer a)]"

definition overlay_uploads :: "env \<Rightarrow> upload \<Rightarrow> upload \<Rightarrow> (path \<times> bytes) list" where
  "overlay_uploads e t a =
     [(path_join (jobDir_of e) ''template.pdf'', buffer t),
      (path_join (jobDir_of e) ''artwork.png'', buffer a)]"

definition create_uploads :: "env \<Rightarrow> upload option \<Rightarrow> upload \<Rightarrow> (path \<times> bytes) list" where
  "create_uploads e t a =
     (path_join (jobDir_of e) ''artwork.png'', buffer a) #
     (case t of
        Some tf \<Rightarrow> [(path_join (jobDir_of e) ''template.pdf'', buffer tf)]
      | None \<Rightarrow> [])"

definition part000_scripts :: "env \<Rightarrow> request \<Rightarrow> upload \<Rightarrow> (path \<times> bytes) list" where
  "part000_scripts e req a =
     (let pageWidth = js_or (parseFloat e (body req ''pageWidth''))
            (js_or (parseFloat e (body req ''width'')) (Num 612));
          pageHeight = js_or (parseFloat e (body req ''pageHeight''))
            (js_or (parseFloat e (body req ''height'')) (Num 792))
      in [(path_join (jobDir_of e) ''image.ps'',
           part000_psContent e pageWidth pageHeight
             (path_join (jobDir_of e) (''artwork'' @ getExtension (mimetype a)))),
          (path_join (jobDir_of e) ''composite.ps'',
           part000_compositePsContent e pageWidth pageHeight)])"

definition overlay_script :: "env \<Rightarrow> request \<Rightarrow> (path \<times> bytes) list" where
  "overlay_script e req =
     [(path_join (jobDir_of e) ''overlay.ps'',
       overlay_psContent e (path_join (jobDir_of e) ''artwork.png'')
         (js_or (parseFloat e (body req ''x'')) (Num 0))
         (js_or (parseFloat e (body req ''y'')) (Num 0))
         (js_or (parseFloat e (body req ''width'')) (Num 0))
         (js_or (parseFloat e (body req ''height'')) (Num 0))
         (js_or (parseFloat e (body req ''pageWidth'')) (Num 612))
         (js_or (parseFloat e (body req ''pageHeight'')) (Num 792)))]"

definition create_script :: "env \<Rightarrow> request \<Rightarrow> (path \<times> bytes) list" where
  "create_script e req =
     [(path_join (jobDir_of e) ''layered.ps'',
       layered_psContent e (js_or_str (body req ''artworkLayerName'') ''ARTWORK HERE'')
         (js_or (parseFloat e (body req ''pageWidth'')) (Num 612))
         (js_or (parseFloat e (body req ''pageHeight'')) (Num 792)))]"

text \<open>The uploaded artwork, when it is saved as \<^verbatim>\<open>artwork.pdf\<close>: the file that the copy of
  the last merge strategy takes.\<close>

definition pdf_artwork :: "upload \<Rightarrow> bytes list" where
  "pdf_artwork a = (if getExtension (mimetype a) = ''.pdf'' then [buffer a] else [])"

text \<open>
  A machine on which Ghostscript and ImageMagick return without writing anything, except that
  \<^verbatim>\<open>convert -density\<close> fails; qpdf and pdftk are missing. And a request whose artwork is a
  PDF.
\<close>

definition idle_tools :: "string \<Rightarrow> world \<Rightarrow> outcome \<times> world" where
  "idle_tools cmd w =
     (if binary_of cmd = ''gs'' \<or>
         binary_of cmd = ''convert'' \<and> \<not> prefix ''convert -density'' cmd
      then (Ok [], w)
      else (Failed (binary_of cmd @ '': failed''), w))"

definition pdf_uploads :: request where
  "pdf_uploads =
     \<lparr>files_template = Some (pdf ''%PDF-template''), files_artwork = Some (pdf ''%PDF-artwork''),
      body = (\<lambda>k. None)\<rparr>"

section \<open>Rules of the proof devices\<close>

declare digits_of.simps [simp del]

lemma wp_ret: "wp (ret v) Q E s = Q v s"
  by (simp add: wp_def ret_def)

lemma wp_throw: "wp (throw x) Q E s = E x s"
  by (simp add: wp_def throw_def)

lemma wp_skip: "wp skip Q E s = Q () s"
  by (simp add: skip_def wp_ret)

lemma wp_bind: "wp (bind m k) Q E s = wp m (\<lambda>v. wp (k v) Q E) E s"
  by (simp add: wp_def bind_def split: prod.splits sum.splits)

lemma wp_try_catch: "wp (try_catch m h) Q E s = wp m Q (\<lambda>x. wp (h x) Q E) s"
  by (simp add: wp_def try_catch_def split: prod.splits sum.splits)

lemma wp_block_Nil: "wp (block [] k) Q E s = wp k Q E s"
  by simp

lemma wp_block_Cons: "wp (block (m # ms) k) Q E s = wp m (\<lambda>_. wp (block ms k) Q E) E s"
  by (simp add: wp_bind)

lemma wp_console_log:
  "wp (console_log l) Q E \<lparr>fs = w, trace = tr\<rparr> = Q () \<lparr>fs = w, trace = tr @ [Log l]\<rparr>"
  by (simp add: console_log_def wp_def emit_def)

lemma wp_execSync:
  "wp (execSync e l c) Q E \<lparr>fs = w, trace = tr\<rparr> =
    ((\<forall>out w'. tool e c w = (Ok out, w') \<longrightarrow> Q out \<lparr>fs = w', trace = tr @ [Exec l c True]\<rparr>) \<and>
     (\<forall>msg w'. tool e c w = (Failed msg, w') \<longrightarrow> E msg \<lparr>fs = w', trace = tr @ [Exec l c False]\<rparr>))"
  by (auto simp add: wp_def execSync_def split: prod.splits outcome.splits)

lemma wp_exec:
  "wp (exec e l c) Q E \<lparr>fs = w, trace = tr\<rparr> =
    ((\<forall>out w'. tool e c w = (Ok out, w') \<longrightarrow> Q () \<lparr>fs = w', trace = tr @ [Exec l c True]\<rparr>) \<and>
     (\<forall>msg w'. tool e c w = (Failed msg, w') \<longrightarrow> E msg \<lparr>fs = w', trace = tr @ [Exec l c False]\<rparr>))"
  by (simp add: exec_def wp_execSync wp_bind wp_ret)

lemma wp_mkdirSync:
  "wp (mkdirSync d) Q E \<lparr>fs = w, trace = tr\<rparr> = Q () \<lparr>fs = new_dir d w, trace = tr\<rparr>"
  by (simp add: wp_def mkdirSync_def)

lemma wp_writeFileSync:
  "wp (writeFileSync p b) Q E \<lparr>fs = w, trace = tr\<rparr> =
     ((write_error w p = None \<longrightarrow>
         Q () \<lparr>fs = w\<lparr>files := (files w)(p \<mapsto> b)\<rparr>, trace = tr @ [Write p b True]\<rparr>) \<and>
      (\<forall>err. write_error w p = Some err \<longrightarrow>
         E (err @ '', open '' @ quoted p) \<lparr>fs = w, trace = tr @ [Write p b False]\<rparr>))"
  by (simp add: wp_def writeFileSync_def split: option.splits)

text \<open>The first writes of a handler go into the directory it has just made: they return.\<close>

lemma dirname_join:
  assumes "CHR ''/'' \<notin> set n"
  shows "dirname (path_join d n) = d"
proof -
  have "dropWhile (\<lambda>c. c \<noteq> CHR ''/'') (rev n @ CHR ''/'' # rev d) = CHR ''/'' # rev d"
    using assms by (subst dropWhile_append2) auto
  then show ?thesis
    by (simp add: dirname_def path_join_def)
qed

lemma join_not_dir: "path_join d n \<noteq> d"
  by (simp add: path_join_def)

lemma under_join: "under d (path_join d n)"
  by (simp add: under_def path_join_def)

lemma path_join_eq: "(path_join d n = path_join d n') = (n = n')"
  by (simp add: path_join_def)

lemma files_new_dir: "files (new_dir d w) (path_join d n) = None"
  by (simp add: new_dir_def rmSync_def under_join)

lemma write_error_new_dir:
  "CHR ''/'' \<notin> set n \<Longrightarrow> write_error (new_dir d w) (path_join d n) = None"
  by (simp add: write_error_def new_dir_def rmSync_def dirname_join join_not_dir under_join)

lemma write_error_files:
  "write_error w p = None \<Longrightarrow> write_error (w\<lparr>files := F\<rparr>) p = None"
  by (simp add: write_error_def split: if_splits)

lemma slashless_getExtension: "CHR ''/'' \<notin> set (''artwork'' @ getExtension m)"
  by (simp add: getExtension_def)

lemmas first_writes =
  write_error_files
  write_error_new_dir [of "''template.pdf''", simplified]
  write_error_new_dir [of "''artwork.png''", simplified]
  write_error_new_dir [of "''overlay.ps''", simplified]
  write_error_new_dir [of "''layered.ps''", simplified]
  write_error_new_dir [OF slashless_getExtension]
  write_error_new_dir [OF slashless_getExtension, simplified]
  option.distinct simp_thms

lemma wp_existsSync:
  "wp (existsSync p) Q E \<lparr>fs = w, trace = tr\<rparr> = Q (exists_in w p) \<lparr>fs = w, trace = tr\<rparr>"
  by (simp add: wp_def existsSync_def)

lemma wp_readFileSync:
  "wp (readFileSync p) Q E \<lparr>fs = w, trace = tr\<rparr> =
     ((\<forall>b. files w p = Some b \<longrightarrow> Q b \<lparr>fs = w, trace = tr @ [Read p b]\<rparr>) \<and>
      (files w p = None \<longrightarrow>
         E (if p \<in> dirs w then ''EISDIR: illegal operation on a directory, read''
            else ''ENOENT: no such file or directory, open '' @ quoted p)
           \<lparr>fs = w, trace = tr\<rparr>))"
  by (simp add: wp_def readFileSync_def split: option.splits)

lemma wp_copyFileSync:
  "wp (copyFileSync src dst) Q E \<lparr>fs = w, trace = tr\<rparr> =
     ((\<forall>b. files w src = Some b \<longrightarrow>
         (write_error w dst = None \<longrightarrow>
            Q () \<lparr>fs = w\<lparr>files := (files w)(dst \<mapsto> b)\<rparr>, trace = tr @ [Copy src dst True]\<rparr>) \<and>
         (\<forall>err. write_error w dst = Some err \<longrightarrow>
            E (err @ '', copyfile '' @ quoted src @ '' -> '' @ quoted dst)
              \<lparr>fs = w, trace = tr @ [Copy src dst False]\<rparr>)) \<and>
      (files w src = None \<longrightarrow>
         E ((if src \<in> dirs w then ''EISDIR: illegal operation on a directory''
             else ''ENOENT: no such file or directory'')
            @ '', copyfile '' @ quoted src @ '' -> '' @ quoted dst)
           \<lparr>fs = w, trace = tr @ [Copy src dst False]\<rparr>))"
  by (simp add: wp_def copyFileSync_def split: option.splits)

lemma wp_cleanupJob:
  "wp (cleanupJob d) Q E \<lparr>fs = w, trace = tr\<rparr> =
     Q () \<lparr>fs = (if exists_in w d then rmSync d w else w), trace = tr\<rparr>"
  by (simp add: wp_def cleanupJob_def)

lemma wp_if: "wp (if b then m else n) Q E s = (if b then wp m Q E s else wp n Q E s)"
  by simp

lemma wp_case_option:
  "wp (case x of None \<Rightarrow> m | Some v \<Rightarrow> k v) Q E s =
     (case x of None \<Rightarrow> wp m Q E s | Some v \<Rightarrow> wp (k v) Q E s)"
  by (simp split: option.splits)

lemmas wp_rules =
  wp_ret wp_throw wp_skip wp_bind wp_try_catch wp_block_Nil wp_block_Cons wp_console_log
  wp_mkdirSync wp_writeFileSync wp_existsSync wp_cleanupJob wp_if wp_case_option wp_exec
  wp_execSync wp_readFileSync wp_copyFileSync first_writes

text \<open>The same rules for a run on a concrete machine: the outcome of each call is computed.\<close>

lemma wp_execSync_eval:
  "wp (execSync e l c) Q E \<lparr>fs = w, trace = tr\<rparr> =
     (case tool e c w of
        (Ok out, w') \<Rightarrow> Q out \<lparr>fs = w', trace = tr @ [Exec l c True]\<rparr>
      | (Failed msg, w') \<Rightarrow> E msg \<lparr>fs = w', trace = tr @ [Exec l c False]\<rparr>)"
  by (simp add: wp_def execSync_def split: prod.splits outcome.splits)

lemma wp_exec_eval:
  "wp (exec e l c) Q E \<lparr>fs = w, trace = tr\<rparr> =
     (case tool e c w of
        (Ok out, w') \<Rightarrow> Q () \<lparr>fs = w', trace = tr @ [Exec l c True]\<rparr>
      | (Failed msg, w') \<Rightarrow> E msg \<lparr>fs = w', trace = tr @ [Exec l c False]\<rparr>)"
  by (simp add: exec_def wp_execSync_eval wp_bind wp_ret split: prod.splits outcome.splits)

lemma wp_readFileSync_eval:
  "wp (readFileSync p) Q E \<lparr>fs = w, trace = tr\<rparr> =
     (case files w p of
        Some b \<Rightarrow> Q b \<lparr>fs = w, trace = tr @ [Read p b]\<rparr>
      | None \<Rightarrow>
          E (if p \<in> dirs w then ''EISDIR: illegal operation on a directory, read''
             else ''ENOENT: no such file or directory, open '' @ quoted p)
            \<lparr>fs = w, trace = tr\<rparr>)"
  by (simp add: wp_def readFileSync_def split: option.splits)

lemma wp_writeFileSync_eval:
  "wp (writeFileSync p b) Q E \<lparr>fs = w, trace = tr\<rparr> =
     (case write_error w p of
        None \<Rightarrow> Q () \<lparr>fs = w\<lparr>files := (files w)(p \<mapsto> b)\<rparr>, trace = tr @ [Write p b True]\<rparr>
      | Some err \<Rightarrow> E (err @ '', open '' @ quoted p) \<lparr>fs = w, trace = tr @ [Write p b False]\<rparr>)"
  by (simp add: wp_def writeFileSync_def split: option.splits)

lemma wp_copyFileSync_eval:
  "wp (copyFileSync src dst) Q E \<lparr>fs = w, trace = tr\<rparr> =
     (case files w src of
        Some b \<Rightarrow>
          (case write_error w dst of
             None \<Rightarrow>
               Q () \<lparr>fs = w\<lparr>files := (files w)(dst \<mapsto> b)\<rparr>, trace = tr @ [Copy src dst True]\<rparr>
           | Some err \<Rightarrow>
               E (err @ '', copyfile '' @ quoted src @ '' -> '' @ quoted dst)
                 \<lparr>fs = w, trace = tr @ [Copy src dst False]\<rparr>)
      | None \<Rightarrow>
          E ((if src \<in> dirs w then ''EISDIR: illegal operation on a directory''
              else ''ENOENT: no such file or directory'')
             @ '', copyfile '' @ quoted src @ '' -> '' @ quoted dst)
            \<lparr>fs = w, trace = tr @ [Copy src dst False]\<rparr>)"
  by (simp add: wp_def copyFileSync_def split: option.splits)

lemmas wp_eval =
  wp_ret wp_throw wp_skip wp_bind wp_try_catch wp_block_Nil wp_block_Cons wp_console_log
  wp_mkdirSync wp_writeFileSync_eval wp_existsSync wp_cleanupJob wp_if wp_case_option
  wp_exec_eval
  wp_execSync_eval wp_readFileSync_eval wp_copyFileSync_eval first_writes

lemma case_option_cancel: "(case x of None \<Rightarrow> c | Some b \<Rightarrow> c) = c"
  by (simp split: option.splits)

lemmas eval_post =
  prod.case outcome.case option.case case_option_cancel if_True if_False if_cancel simp_thms
  list.inject char.inject fst_conv snd_conv state.simps numeral_eq_iff num.simps

lemma wpI: "wp m (\<lambda>v s'. P (Inr v, s')) (\<lambda>x s'. P (Inl x, s')) s \<Longrightarrow> P (m s)"
  by (simp add: wp_def split: prod.splits sum.splits)

subsection \<open>Observations, event by event\<close>

lemma failed_Nil: "failed l [] = False"
  by (simp add: failed_def)

lemma failed_snoc: "failed l (tr @ [ev]) = (failed l tr \<or> exec_at l False ev)"
  by (simp add: failed_def)

lemma succeeded_Nil: "succeeded l [] = False"
  by (simp add: succeeded_def)

lemma succeeded_snoc: "succeeded l (tr @ [ev]) = (succeeded l tr \<or> exec_at l True ev)"
  by (simp add: succeeded_def)

lemma copied_Nil: "copied [] = False"
  by (simp add: copied_def)

lemma copied_snoc: "copied (tr @ [ev]) = (copied tr \<or> is_copy ev)"
  by (simp add: copied_def)

lemma execs_append: "execs (tr @ tr') = execs tr @ execs tr'"
  by (induction tr rule: execs.induct) simp_all

lemma writes_append: "writes (tr @ tr') = writes tr @ writes tr'"
  by (induction tr rule: writes.induct) simp_all

lemmas obs =
  failed_Nil failed_snoc succeeded_Nil succeeded_snoc copied_Nil copied_snoc ran_def
  exec_at.simps is_copy.simps

lemma cleanup_gone: "\<not> exists_in (if exists_in w d then rmSync d w else w) d"
  by (simp add: exists_in_def rmSync_def under_def)

subsection \<open>Rules of the simulation\<close>

lemma view_Nil: "view f [] = []"
  by (simp add: view_def)
lemma view_snoc: "view f (tr @ [ev]) = view f tr @ (case f ev of None \<Rightarrow> [] | Some x \<Rightarrow> [x])"
  by (simp add: view_def map_filter_def split: option.splits)

lemma simI:
  assumes "\<And>w tr tr'. view f tr = view f tr' \<Longrightarrow>
     fst (m \<lparr>fs = w, trace = tr\<rparr>) = fst (n \<lparr>fs = w, trace = tr'\<rparr>) \<and>
     fs (snd (m \<lparr>fs = w, trace = tr\<rparr>)) = fs (snd (n \<lparr>fs = w, trace = tr'\<rparr>)) \<and>
     view f (trace (snd (m \<lparr>fs = w, trace = tr\<rparr>))) = view f (trace (snd (n \<lparr>fs = w, trace = tr'\<rparr>)))"
  shows "sim f m n"
  unfolding sim_def
proof (intro allI impI)
  fix s t :: state
  assume h: "fs s = fs t \<and> view f (trace s) = view f (trace t)"
  have s: "s = \<lparr>fs = fs t, trace = trace s\<rparr>" using h by simp
  have t: "t = \<lparr>fs = fs t, trace = trace t\<rparr>" by simp
  from assms[of "trace s" "trace t" "fs t"] h
  show "fst (m s) = fst (n t) \<and> fs (snd (m s)) = fs (snd (n t)) \<and>
        view f (trace (snd (m s))) = view f (trace (snd (n t)))"
    by (metis s t)
qed

lemma simD:
  assumes "sim f m n" "fs s = fs t" "view f (trace s) = view f (trace t)"
    "m s = (r, s')" "n t = (q, t')"
  shows "r = q \<and> fs s' = fs t' \<and> view f (trace s') = view f (trace t')"
proof -
  from assms(1) have
    "fs s = fs t \<and> view f (trace s) = view f (trace t) \<longrightarrow>
       fst (m s) = fst (n t) \<and> fs (snd (m s)) = fs (snd (n t)) \<and>
       view f (trace (snd (m s))) = view f (trace (snd (n t)))"
    unfolding sim_def by blast
  with assms(2-5) show ?thesis by simp
qed

lemma sim_ret: "sim f (ret v) (ret v)"
  by (simp add: sim_def ret_def)
lemma sim_throw: "sim f (throw x) (throw x)"
  by (simp add: sim_def throw_def)
lemma sim_skip: "sim f skip skip"
  by (simp add: skip_def sim_ret)

lemma sim_bind:
  assumes "sim f m n" "\<And>v. sim f (k v) (l v)"
  shows "sim f (bind m k) (bind n l)"
  unfolding sim_def
proof (intro allI impI)
  fix s t :: state
  assume h: "fs s = fs t \<and> view f (trace s) = view f (trace t)"
  obtain r s' where ms: "m s = (r, s')" by (cases "m s")
  obtain q t' where nt: "n t = (q, t')" by (cases "n t")
  from simD[OF assms(1) _ _ ms nt] h
  have rq: "r = q" and st: "fs s' = fs t' \<and> view f (trace s') = view f (trace t')"
    by simp_all
  show "fst (bind m k s) = fst (bind n l t) \<and> fs (snd (bind m k s)) = fs (snd (bind n l t)) \<and>
        view f (trace (snd (bind m k s))) = view f (trace (snd (bind n l t)))"
  proof (cases r)
    case (Inl x)
    then show ?thesis using ms nt rq st by (simp add: bind_def)
  next
    case (Inr v)
    then show ?thesis using ms nt rq st assms(2)[of v] by (simp add: bind_def sim_def)
  qed
qed

lemma sim_try_catch:
  assumes "sim f m n" "\<And>x. sim f (h x) (g x)"
  shows "sim f (try_catch m h) (try_catch n g)"
  unfolding sim_def
proof (intro allI impI)
  fix s t :: state
  assume a: "fs s = fs t \<and> view f (trace s) = view f (trace t)"
  obtain r s' where ms: "m s = (r, s')" by (cases "m s")
  obtain q t' where nt: "n t = (q, t')" by (cases "n t")
  from simD[OF assms(1) _ _ ms nt] a
  have rq: "r = q" and st: "fs s' = fs t' \<and> view f (trace s') = view f (trace t')"
    by simp_all
  show "fst (try_catch m h s) = fst (try_catch n g t) \<and>
        fs (snd (try_catch m h s)) = fs (snd (try_catch n g t)) \<and>
        view f (trace (snd (try_catch m h s))) = view f (trace (snd (try_catch n g t)))"
  proof (cases r)
    case (Inl x)
    then show ?thesis using ms nt rq st assms(2)[of x] by (simp add: try_catch_def sim_def)
  next
    case (Inr v)
    then show ?thesis using ms nt rq st by (simp add: try_catch_def)
  qed
qed

lemma sim_block_Nil: "sim f k k' \<Longrightarrow> sim f (block [] k) (block [] k')"
  by simp
lemma sim_block_Cons:
  "sim f m n \<Longrightarrow> sim f (block ms k) (block ns k') \<Longrightarrow> sim f (block (m # ms) k) (block (n # ns) k')"
  by (simp add: sim_bind)

lemma sim_console_log: "f (Log a) = f (Log b) \<Longrightarrow> sim f (console_log a) (console_log b)"
  by (rule simI) (simp add: console_log_def emit_def view_snoc)

lemma sim_execSync:
  "(\<And>ok. f (Exec l c ok) = f (Exec l' c ok)) \<Longrightarrow> sim f (execSync e l c) (execSync e l' c)"
  by (rule simI) (simp add: execSync_def view_snoc split: prod.splits outcome.splits)

lemma sim_exec:
  "(\<And>ok. f (Exec l c ok) = f (Exec l' c ok)) \<Longrightarrow> sim f (exec e l c) (exec e l' c)"
  unfolding exec_def by (intro sim_bind sim_execSync sim_ret)

lemma sim_mkdirSync: "sim f (mkdirSync d) (mkdirSync d)"
  by (rule simI) (simp add: mkdirSync_def)
lemma sim_writeFileSync: "sim f (writeFileSync p b) (writeFileSync p b)"
  by (rule simI) (simp add: writeFileSync_def view_snoc split: option.splits)
lemma sim_existsSync: "sim f (existsSync p) (existsSync p)"
  by (rule simI) (simp add: existsSync_def)
lemma sim_readFileSync: "sim f (readFileSync p) (readFileSync p)"
  by (rule simI) (simp add: readFileSync_def view_snoc split: option.splits)
lemma sim_copyFileSync: "sim f (copyFileSync p q) (copyFileSync p q)"
  by (rule simI) (simp add: copyFileSync_def view_snoc split: option.splits)
lemma sim_cleanupJob: "sim f (cleanupJob d) (cleanupJob d)"
  by (rule simI) (simp add: cleanupJob_def)
lemma sim_if: "sim f m n \<Longrightarrow> sim f m' n' \<Longrightarrow> sim f (if b then m else m') (if b then n else n')"
  by simp
lemma sim_case_option:
  "sim f m n \<Longrightarrow> (\<And>v. sim f (k v) (l v)) \<Longrightarrow>
   sim f (case x of None \<Rightarrow> m | Some v \<Rightarrow> k v) (case x of None \<Rightarrow> n | Some v \<Rightarrow> l v)"
  by (simp split: option.splits)

lemmas sim_rules = sim_ret sim_throw sim_skip sim_bind sim_try_catch sim_block_Nil sim_block_Cons
  sim_console_log sim_execSync sim_exec sim_mkdirSync sim_writeFileSync sim_existsSync
  sim_readFileSync sim_copyFileSync sim_cleanupJob sim_if sim_case_option

lemma sim_start:
  "sim f m n \<Longrightarrow> fst (m (start w)) = fst (n (start w)) \<and> fs (snd (m (start w))) = fs (snd (n (start w))) \<and>
     view f (trace (snd (m (start w)))) = view f (trace (snd (n (start w))))"
  by (simp add: sim_def)

section \<open>The claims\<close>

subsection \<open>Requests that fail upload validation\<close>

text \<open>Each handler, run on a request that fails its validation, returns at once: the job
  directory has been created, nothing else has happened.\<close>

lemmas early = bind_def try_catch_def ret_def mkdirSync_def start_def jobDir_of_def Let_def

lemma merge_server_400:
  "files_template req = None \<or> files_artwork req = None \<Longrightarrow>
   merge_pdf_layers_server e req (start w) =
     (Inr (Json 400 [(''error'', if files_template req = None then ''Template PDF is required''
                                  else ''Artwork image is required'')]),
      \<lparr>fs = new_dir (jobDir_of e) w, trace = []\<rparr>)"
  by (auto simp add: merge_pdf_layers_server_def early split: option.splits)

lemma merge_railway_400:
  "files_template req = None \<or> files_artwork req = None \<Longrightarrow>
   merge_pdf_layers_railway e req (start w) =
     (Inr (Json 400 [(''error'', if files_template req = None then ''Template PDF is required''
                                  else ''Artwork image is required'')]),
      \<lparr>fs = new_dir (jobDir_of e) w, trace = []\<rparr>)"
  by (auto simp add: merge_pdf_layers_railway_def early split: option.splits)

lemma merge_part000_400:
  "files_template req = None \<or> files_artwork req = None \<Longrightarrow>
   merge_pdf_layers_part000 e req (start w) =
     (Inr (Json 400 [(''error'', if files_template req = None then ''Template PDF is required''
                                  else ''Artwork image is required'')]),
      \<lparr>fs = new_dir (jobDir_of e) w, trace = []\<rparr>)"
  by (auto simp add: merge_pdf_layers_part000_def early split: option.splits)

lemma overlay_server_400:
  "files_template req = None \<or> files_artwork req = None \<Longrightarrow>
   overlay_artwork_server e req (start w) =
     (Inr (Json 400 [(''error'', ''Both template and artwork files are required'')]),
      \<lparr>fs = new_dir (jobDir_of e) w, trace = []\<rparr>)"
  by (auto simp add: overlay_artwork_server_def early split: option.splits)

lemma overlay_railway_400:
  "files_template req = None \<or> files_artwork req = None \<Longrightarrow>
   overlay_artwork_railway e req (start w) =
     (Inr (Json 400 [(''error'', ''Both template and artwork files are required'')]),
      \<lparr>fs = new_dir (jobDir_of e) w, trace = []\<rparr>)"
  by (auto simp add: overlay_artwork_railway_def early split: option.splits)

lemma overlay_part000_400:
  "files_template req = None \<or> files_artwork req = None \<Longrightarrow>
   overlay_artwork_part000 e req (start w) =
     (Inr (Json 400 [(''error'', ''Both template and artwork files are required'')]),
      \<lparr>fs = new_dir (jobDir_of e) w, trace = []\<rparr>)"
  by (auto simp add: overlay_artwork_part000_def early split: option.splits)

lemma create_server_400:
  "files_artwork req = None \<Longrightarrow>
   create_layered_pdf_server e req (start w) =
     (Inr (Json 400 [(''error'', ''Artwork image is required'')]),
      \<lparr>fs = new_dir (jobDir_of e) w, trace = []\<rparr>)"
  by (auto simp add: create_layered_pdf_server_def early split: option.splits)

lemma create_railway_400:
  "files_artwork req = None \<Longrightarrow>
   create_layered_pdf_railway e req (start w) =
     (Inr (Json 400 [(''error'', ''Artwork image is required'')]),
      \<lparr>fs = new_dir (jobDir_of e) w, trace = []\<rparr>)"
  by (auto simp add: create_layered_pdf_railway_def early split: option.splits)

lemma create_part000_400:
  "files_artwork req = None \<Longrightarrow>
   create_layered_pdf_part000 e req (start w) =
     (Inr (Json 400 [(''error'', ''Artwork image is required'')]),
      \<lparr>fs = new_dir (jobDir_of e) w, trace = []\<rparr>)"
  by (auto simp add: create_layered_pdf_part000_def early split: option.splits)

lemmas rejected_400 =
  merge_server_400 merge_railway_400 merge_part000_400
  overlay_server_400 overlay_railway_400 overlay_part000_400
  create_server_400 create_railway_400 create_part000_400

text \<open>
  \<^bold>\<open>C4.\<close> A request to POST /api/merge-pdf-layers or POST /api/overlay-artwork without the
  template file or without the artwork file, and a request to POST /api/create-layered-pdf
  without the artwork file, is answered with status 400 and a JSON object holding an
  \<^verbatim>\<open>error\<close> message, and no external command is run for it. This holds in each of the
  three files.
\<close>

theorem C4_missing_upload_rejected:
  "(files_template req = None \<or> files_artwork req = None \<longrightarrow>
      rejects_with (if files_template req = None then ''Template PDF is required''
                    else ''Artwork image is required'') (merge_pdf_layers_server e req) w \<and>
      rejects_with (if files_template req = None then ''Template PDF is required''
                    else ''Artwork image is required'') (merge_pdf_layers_railway e req) w \<and>
      rejects_with (if files_template req = None then ''Template PDF is required''
                    else ''Artwork image is required'') (merge_pdf_layers_part000 e req) w \<and>
      rejects_with ''Both template and artwork files are required''
        (overlay_artwork_server e req) w \<and>
      rejects_with ''Both template and artwork files are required''
        (overlay_artwork_railway e req) w \<and>
      rejects_with ''Both template and artwork files are required''
        (overlay_artwork_part000 e req) w) \<and>
   (files_artwork req = None \<longrightarrow>
      rejects_with ''Artwork image is required'' (create_layered_pdf_server e req) w \<and>
      rejects_with ''Artwork image is required'' (create_layered_pdf_railway e req) w \<and>
      rejects_with ''Artwork image is required'' (create_layered_pdf_part000 e req) w)"
proof (intro conjI impI)
  assume missing: "files_template req = None \<or> files_artwork req = None"
  show "rejects_with (if files_template req = None then ''Template PDF is required''
          else ''Artwork image is required'') (merge_pdf_layers_server e req) w"
    by (simp add: rejects_with_def merge_server_400 [OF missing])
  show "rejects_with (if files_template req = None then ''Template PDF is required''
          else ''Artwork image is required'') (merge_pdf_layers_railway e req) w"
    by (simp add: rejects_with_def merge_railway_400 [OF missing])
  show "rejects_with (if files_template req = None then ''Template PDF is required''
          else ''Artwork image is required'') (merge_pdf_layers_part000 e req) w"
    by (simp add: rejects_with_def merge_part000_400 [OF missing])
  show "rejects_with ''Both template and artwork files are required''
          (overlay_artwork_server e req) w"
    by (simp add: rejects_with_def overlay_server_400 [OF missing])
  show "rejects_with ''Both template and artwork files are required''
          (overlay_artwork_railway e req) w"
    by (simp add: rejects_with_def overlay_railway_400 [OF missing])
  show "rejects_with ''Both template and artwork files are required''
          (overlay_artwork_part000 e req) w"
    by (simp add: rejects_with_def overlay_part000_400 [OF missing])
next
  assume missing: "files_artwork req = None"
  show "rejects_with ''Artwork image is required'' (create_layered_pdf_server e req) w"
    by (simp add: rejects_with_def create_server_400 [OF missing])
  show "rejects_with ''Artwork image is required'' (create_layered_pdf_railway e req) w"
    by (simp add: rejects_with_def create_railway_400 [OF missing])
  show "rejects_with ''Artwork image is required'' (create_layered_pdf_part000 e req) w"
    by (simp add: rejects_with_def create_part000_400 [OF missing])
qed

text \<open>The request without uploads, on a machine without tools.\<close>

theorem C4_missing_upload_rejected_witness:
  "rejects_with ''Template PDF is required''
     (merge_pdf_layers_server (sample_env no_tools) no_uploads) empty_world \<and>
   rejects_with ''Template PDF is required''
     (merge_pdf_layers_railway (sample_env no_tools) no_uploads) empty_world \<and>
   rejects_with ''Template PDF is required''
     (merge_pdf_layers_part000 (sample_env no_tools) no_uploads) empty_world \<and>
   rejects_with ''Both template and artwork files are required''
     (overlay_artwork_server (sample_env no_tools) no_uploads) empty_world \<and>
   rejects_with ''Both template and artwork files are required''
     (overlay_artwork_railway (sample_env no_tools) no_uploads) empty_world \<and>
   rejects_with ''Both template and artwork files are required''
     (overlay_artwork_part000 (sample_env no_tools) no_uploads) empty_world \<and>
   rejects_with ''Artwork image is required''
     (create_layered_pdf_server (sample_env no_tools) no_uploads) empty_world \<and>
   rejects_with ''Artwork image is required''
     (create_layered_pdf_railway (sample_env no_tools) no_uploads) empty_world \<and>
   rejects_with ''Artwork image is required''
     (create_layered_pdf_part000 (sample_env no_tools) no_uploads) empty_world"
  using C4_missing_upload_rejected [of no_uploads "sample_env no_tools" empty_world]
  by (simp add: no_uploads_def)

subsection \<open>Cleanup of the job directory\<close>

lemma just_made: "exists_in (new_dir d w) d"
  by (simp add: exists_in_def new_dir_def)

lemmas cleanup_post =
  dir_matches_status_def fst_conv snd_conv state.simps status.simps cleanup_gone
  just_made jobDir_of_def option.inject numeral_eq_iff num.simps simp_thms if_cancel

lemma cleanup_merge_server: "cleanup_asymmetric e (merge_pdf_layers_server e req) w"
  unfolding cleanup_asymmetric_def
  apply (rule wpI [where P = "dir_matches_status e"])
  apply (simp only: merge_pdf_layers_server_def Let_def start_def)
  apply (simp only: wp_rules)
  apply (simp only: cleanup_post split: option.splits)
  done

lemma cleanup_merge_railway: "cleanup_asymmetric e (merge_pdf_layers_railway e req) w"
  unfolding cleanup_asymmetric_def
  apply (rule wpI [where P = "dir_matches_status e"])
  apply (simp only: merge_pdf_layers_railway_def Let_def start_def)
  apply (simp only: wp_rules)
  apply (simp only: cleanup_post split: option.splits)
  done

lemma cleanup_merge_part000: "cleanup_asymmetric e (merge_pdf_layers_part000 e req) w"
  unfolding cleanup_asymmetric_def
  apply (rule wpI [where P = "dir_matches_status e"])
  apply (simp only: merge_pdf_layers_part000_def Let_def start_def)
  apply (simp only: wp_rules)
  apply (simp only: cleanup_post split: option.splits)
  done

lemma cleanup_overlay_server: "cleanup_asymmetric e (overlay_artwork_server e req) w"
  unfolding cleanup_asymmetric_def
  apply (rule wpI [where P = "dir_matches_status e"])
  apply (simp only: overlay_artwork_server_def Let_def start_def)
  apply (simp only: wp_rules)
  apply (simp only: cleanup_post split: option.splits)
  done

lemma cleanup_overlay_railway: "cleanup_asymmetric e (overlay_artwork_railway e req) w"
  unfolding cleanup_asymmetric_def
  apply (rule wpI [where P = "dir_matches_status e"])
  apply (simp only: overlay_artwork_railway_def Let_def start_def)
  apply (simp only: wp_rules)
  apply (simp only: cleanup_post split: option.splits)
  done

lemma cleanup_overlay_part000: "cleanup_asymmetric e (overlay_artwork_part000 e req) w"
  unfolding cleanup_asymmetric_def
  apply (rule wpI [where P = "dir_matches_status e"])
  apply (simp only: overlay_artwork_part000_def Let_def start_def)
  apply (simp only: wp_rules)
  apply (simp only: cleanup_post split: option.splits)
  done

lemma cleanup_create_server: "cleanup_asymmetric e (create_layered_pdf_server e req) w"
  unfolding cleanup_asymmetric_def
  apply (rule wpI [where P = "dir_matches_status e"])
  apply (simp only: create_layered_pdf_server_def Let_def start_def)
  apply (simp only: wp_rules)
  apply (simp only: cleanup_post split: option.splits)
  done

lemma cleanup_create_railway: "cleanup_asymmetric e (create_layered_pdf_railway e req) w"
  unfolding cleanup_asymmetric_def
  apply (rule wpI [where P = "dir_matches_status e"])
  apply (simp only: create_layered_pdf_railway_def Let_def start_def)
  apply (simp only: wp_rules)
  apply (simp only: cleanup_post split: option.splits)
  done

lemma cleanup_create_part000: "cleanup_asymmetric e (create_layered_pdf_part000 e req) w"
  unfolding cleanup_asymmetric_def
  apply (rule wpI [where P = "dir_matches_status e"])
  apply (simp only: create_layered_pdf_part000_def Let_def start_def)
  apply (simp only: wp_rules)
  apply (simp only: cleanup_post split: option.splits)
  done

text \<open>
  \<^bold>\<open>C9.\<close> Cleanup differs between the error paths. A request answered 400 for a missing
  upload leaves the job directory, created before the validation, on disk; a request
  answered 500 by the outer catch, and one answered with the PDF, ends with the job
  directory removed. No other answer occurs. This holds for the nine upload handlers.
\<close>

theorem C9_cleanup_asymmetric:
  "cleanup_asymmetric e (merge_pdf_layers_server e req) w \<and>
   cleanup_asymmetric e (merge_pdf_layers_railway e req) w \<and>
   cleanup_asymmetric e (merge_pdf_layers_part000 e req) w \<and>
   cleanup_asymmetric e (overlay_artwork_server e req) w \<and>
   cleanup_asymmetric e (overlay_artwork_railway e req) w \<and>
   cleanup_asymmetric e (overlay_artwork_part000 e req) w \<and>
   cleanup_asymmetric e (create_layered_pdf_server e req) w \<and>
   cleanup_asymmetric e (create_layered_pdf_railway e req) w \<and>
   cleanup_asymmetric e (create_layered_pdf_part000 e req) w"
  by (intro conjI cleanup_merge_server cleanup_merge_railway cleanup_merge_part000
      cleanup_overlay_server cleanup_overlay_railway cleanup_overlay_part000
      cleanup_create_server cleanup_create_railway cleanup_create_part000)

text \<open>Both cases occur: without uploads the answer is 400; with both uploads on a machine
  without tools it is 500.\<close>

lemma no_tools_500:
  "status (fst (merge_pdf_layers_server (sample_env no_tools) both_uploads (start empty_world)))
     = Some 500"
  apply (rule wpI [where P = "\<lambda>r. status (fst r) = Some 500"])
  apply (simp only: merge_pdf_layers_server_def Let_def start_def)
  apply (simp add: both_uploads_def cong: option.case_cong)
  apply (simp only: wp_rules)
  apply (simp add: sample_env_def no_tools_def)
  done

theorem C9_cleanup_asymmetric_witness:
  "cleanup_asymmetric (sample_env no_tools)
     (merge_pdf_layers_server (sample_env no_tools) no_uploads) empty_world \<and>
   status (fst (merge_pdf_layers_server (sample_env no_tools) no_uploads (start empty_world)))
     = Some 400 \<and>
   cleanup_asymmetric (sample_env no_tools)
     (merge_pdf_layers_server (sample_env no_tools) both_uploads) empty_world \<and>
   status (fst (merge_pdf_layers_server (sample_env no_tools) both_uploads (start empty_world)))
     = Some 500"
  using C9_cleanup_asymmetric [of "sample_env no_tools" no_uploads empty_world]
    C9_cleanup_asymmetric [of "sample_env no_tools" both_uploads empty_world]
  by (simp add: no_tools_500 merge_server_400 no_uploads_def)

subsection \<open>A size of zero\<close>

lemma js_or_falsy: "\<not> truthy a \<Longrightarrow> js_or a d = d"
  by (simp add: js_or_def)

lemma js_or_same: "js_or d d = d"
  by (simp add: js_or_def)

lemma sample_parseFloat_0: "sample_parseFloat (Some ''0'') = Num 0"
  by (simp add: sample_parseFloat_def is_digit_def)

lemma sample_parseFloat_612: "sample_parseFloat (Some ''612'') = Num 612"
  by (simp add: sample_parseFloat_def is_digit_def)

lemma sample_parseFloat_undefined: "sample_parseFloat None = NaN"
  by (simp add: sample_parseFloat_def)

text \<open>
  \<^bold>\<open>C10.\<close> In POST /api/merge-pdf-layers, \<^verbatim>\<open>width\<close> or \<^verbatim>\<open>height\<close> given as \<^verbatim>\<open>"0"\<close> behaves
  as the field left out, and as the field set to its default (612 for the width, 792 for the
  height): the handler is the same program in the three cases. This is so in each of the three
  files. Of \<^verbatim>\<open>parseFloat\<close> it is assumed that \<^verbatim>\<open>"0"\<close> and \<^verbatim>\<open>undefined\<close> parse to falsy
  numbers (0 and NaN in JavaScript); \<open>s\<close> is any text that parses to the default.
\<close>

theorem C10_zero_is_default:
  assumes zero: "\<not> truthy (parseFloat e (Some ''0''))"
    and absent: "\<not> truthy (parseFloat e None)"
  shows
   "merge_pdf_layers_server e (req\<lparr>body := (body req)(''width'' \<mapsto> ''0'')\<rparr>) =
      merge_pdf_layers_server e (req\<lparr>body := (body req)(''width'' := None)\<rparr>) \<and>
    merge_pdf_layers_server e (req\<lparr>body := (body req)(''height'' \<mapsto> ''0'')\<rparr>) =
      merge_pdf_layers_server e (req\<lparr>body := (body req)(''height'' := None)\<rparr>) \<and>
    merge_pdf_layers_railway e (req\<lparr>body := (body req)(''width'' \<mapsto> ''0'')\<rparr>) =
      merge_pdf_layers_railway e (req\<lparr>body := (body req)(''width'' := None)\<rparr>) \<and>
    merge_pdf_layers_railway e (req\<lparr>body := (body req)(''height'' \<mapsto> ''0'')\<rparr>) =
      merge_pdf_layers_railway e (req\<lparr>body := (body req)(''height'' := None)\<rparr>) \<and>
    merge_pdf_layers_part000 e (req\<lparr>body := (body req)(''width'' \<mapsto> ''0'')\<rparr>) =
      merge_pdf_layers_part000 e (req\<lparr>body := (body req)(''width'' := None)\<rparr>) \<and>
    merge_pdf_layers_part000 e (req\<lparr>body := (body req)(''height'' \<mapsto> ''0'')\<rparr>) =
      merge_pdf_layers_part000 e (req\<lparr>body := (body req)(''height'' := None)\<rparr>) \<and>
    (parseFloat e (Some s) = Num 612 \<longrightarrow>
       merge_pdf_layers_server e (req\<lparr>body := (body req)(''width'' \<mapsto> ''0'')\<rparr>) =
         merge_pdf_layers_server e (req\<lparr>body := (body req)(''width'' \<mapsto> s)\<rparr>)) \<and>
    (parseFloat e (Some s) = Num 792 \<longrightarrow>
       merge_pdf_layers_server e (req\<lparr>body := (body req)(''height'' \<mapsto> ''0'')\<rparr>) =
         merge_pdf_layers_server e (req\<lparr>body := (body req)(''height'' \<mapsto> s)\<rparr>))"
proof (intro conjI impI)
  show "merge_pdf_layers_server e (req\<lparr>body := (body req)(''width'' \<mapsto> ''0'')\<rparr>) =
      merge_pdf_layers_server e (req\<lparr>body := (body req)(''width'' := None)\<rparr>)"
    unfolding merge_pdf_layers_server_def Let_def
    by (simp add: js_or_falsy zero absent cong: option.case_cong)
  show "merge_pdf_layers_server e (req\<lparr>body := (body req)(''height'' \<mapsto> ''0'')\<rparr>) =
      merge_pdf_layers_server e (req\<lparr>body := (body req)(''height'' := None)\<rparr>)"
    unfolding merge_pdf_layers_server_def Let_def
    by (simp add: js_or_falsy zero absent cong: option.case_cong)
  show "merge_pdf_layers_railway e (req\<lparr>body := (body req)(''width'' \<mapsto> ''0'')\<rparr>) =
      merge_pdf_layers_railway e (req\<lparr>body := (body req)(''width'' := None)\<rparr>)"
    unfolding merge_pdf_layers_railway_def Let_def
    by (simp add: js_or_falsy zero absent cong: option.case_cong)
  show "merge_pdf_layers_railway e (req\<lparr>body := (body req)(''height'' \<mapsto> ''0'')\<rparr>) =
      merge_pdf_layers_railway e (req\<lparr>body := (body req)(''height'' := None)\<rparr>)"
    unfolding merge_pdf_layers_railway_def Let_def
    by (simp add: js_or_falsy zero absent cong: option.case_cong)
  show "merge_pdf_layers_part000 e (req\<lparr>body := (body req)(''width'' \<mapsto> ''0'')\<rparr>) =
      merge_pdf_layers_part000 e (req\<lparr>body := (body req)(''width'' := None)\<rparr>)"
    unfolding merge_pdf_layers_part000_def Let_def
    by (simp add: js_or_falsy zero absent cong: option.case_cong)
  show "merge_pdf_layers_part000 e (req\<lparr>body := (body req)(''height'' \<mapsto> ''0'')\<rparr>) =
      merge_pdf_layers_part000 e (req\<lparr>body := (body req)(''height'' := None)\<rparr>)"
    unfolding merge_pdf_layers_part000_def Let_def
    by (simp add: js_or_falsy zero absent cong: option.case_cong)
next
  assume "parseFloat e (Some s) = Num 612"
  then show "merge_pdf_layers_server e (req\<lparr>body := (body req)(''width'' \<mapsto> ''0'')\<rparr>) =
         merge_pdf_layers_server e (req\<lparr>body := (body req)(''width'' \<mapsto> s)\<rparr>)"
    unfolding merge_pdf_layers_server_def Let_def
    by (simp add: js_or_falsy js_or_same zero cong: option.case_cong)
next
  assume "parseFloat e (Some s) = Num 792"
  then show "merge_pdf_layers_server e (req\<lparr>body := (body req)(''height'' \<mapsto> ''0'')\<rparr>) =
         merge_pdf_layers_server e (req\<lparr>body := (body req)(''height'' \<mapsto> s)\<rparr>)"
    unfolding merge_pdf_layers_server_def Let_def
    by (simp add: js_or_falsy js_or_same zero cong: option.case_cong)
qed

theorem C10_zero_is_default_witness:
  "\<not> truthy (parseFloat (sample_env no_tools) (Some ''0'')) \<and>
   \<not> truthy (parseFloat (sample_env no_tools) None) \<and>
   parseFloat (sample_env no_tools) (Some ''612'') = Num 612 \<and>
   merge_pdf_layers_server (sample_env no_tools)
       (both_uploads\<lparr>body := (body both_uploads)(''width'' \<mapsto> ''0'')\<rparr>) =
     merge_pdf_layers_server (sample_env no_tools)
       (both_uploads\<lparr>body := (body both_uploads)(''width'' := None)\<rparr>) \<and>
   merge_pdf_layers_server (sample_env no_tools)
       (both_uploads\<lparr>body := (body both_uploads)(''width'' \<mapsto> ''0'')\<rparr>) =
     merge_pdf_layers_server (sample_env no_tools)
       (both_uploads\<lparr>body := (body both_uploads)(''width'' \<mapsto> ''612'')\<rparr>)"
proof -
  have zero: "\<not> truthy (parseFloat (sample_env no_tools) (Some ''0''))"
    by (simp add: sample_env_def sample_parseFloat_0)
  have absent: "\<not> truthy (parseFloat (sample_env no_tools) None)"
    by (simp add: sample_env_def sample_parseFloat_undefined)
  have dflt: "parseFloat (sample_env no_tools) (Some ''612'') = Num 612"
    by (simp add: sample_env_def sample_parseFloat_612)
  from C10_zero_is_default [OF zero absent, of both_uploads "''612''"] zero absent dflt
  show ?thesis by blast
qed

subsection \<open>The layer name\<close>

lemma sim_agree: "sim f m n \<Longrightarrow> agree f (m (start w)) (n (start w))"
  unfolding agree_def by (rule sim_start)

lemma execs_unlog: "execs (view unlog tr) = execs tr"
  by (induction tr rule: execs.induct) (simp_all add: view_def)

lemma writes_unlog: "writes (view unlog tr) = writes tr"
  by (induction tr rule: writes.induct) (simp_all add: view_def)

lemma agree_unlog_execs:
  "agree unlog r r' \<Longrightarrow> execs (trace (snd r)) = execs (trace (snd r'))"
  by (metis agree_def execs_unlog)

lemma agree_unlog_writes:
  "agree unlog r r' \<Longrightarrow> writes (trace (snd r)) = writes (trace (snd r'))"
  by (metis agree_def writes_unlog)

lemma layerName_server:
  "sim unlog (merge_pdf_layers_server e (req\<lparr>body := (body req)(''layerName'' := a)\<rparr>))
             (merge_pdf_layers_server e (req\<lparr>body := (body req)(''layerName'' := b)\<rparr>))"
  unfolding merge_pdf_layers_server_def Let_def
  apply (simp cong: option.case_cong)
  apply (intro sim_rules)
  apply simp_all
  done

text \<open>
  \<^bold>\<open>C8.\<close> In src/server.js the \<^verbatim>\<open>layerName\<close> field of POST /api/merge-pdf-layers has no
  effect on the result. Two requests that differ in this field only (\<open>a\<close> and \<open>b\<close> are any
  two values of the field, \<open>None\<close> for a missing one) get the same response and leave the same
  file system; the handler runs the same commands with the same outcomes and writes the same
  files; the traces differ in console lines at most.
\<close>

theorem C8_layerName_ignored:
  "agree unlog
     (merge_pdf_layers_server e (req\<lparr>body := (body req)(''layerName'' := a)\<rparr>) (start w))
     (merge_pdf_layers_server e (req\<lparr>body := (body req)(''layerName'' := b)\<rparr>) (start w)) \<and>
   execs (trace (snd
     (merge_pdf_layers_server e (req\<lparr>body := (body req)(''layerName'' := a)\<rparr>) (start w)))) =
   execs (trace (snd
     (merge_pdf_layers_server e (req\<lparr>body := (body req)(''layerName'' := b)\<rparr>) (start w)))) \<and>
   writes (trace (snd
     (merge_pdf_layers_server e (req\<lparr>body := (body req)(''layerName'' := a)\<rparr>) (start w)))) =
   writes (trace (snd
     (merge_pdf_layers_server e (req\<lparr>body := (body req)(''layerName'' := b)\<rparr>) (start w))))"
proof -
  have "agree unlog
     (merge_pdf_layers_server e (req\<lparr>body := (body req)(''layerName'' := a)\<rparr>) (start w))
     (merge_pdf_layers_server e (req\<lparr>body := (body req)(''layerName'' := b)\<rparr>) (start w))"
    by (rule sim_agree [OF layerName_server])
  then show ?thesis
    by (simp add: agree_unlog_execs agree_unlog_writes)
qed

text \<open>A run where the layer name is read: it is printed on the console, and nowhere else.\<close>

lemma sample_toString_0: "sample_toString (Num 0) = ''0''"
  by (simp add: sample_toString_def digits_of.simps)

lemma sample_toString_612: "sample_toString (Num 612) = ''612''"
  by (simp add: sample_toString_def digits_of.simps)

lemma sample_toString_792: "sample_toString (Num 792) = ''792''"
  by (simp add: sample_toString_def digits_of.simps)

lemma layerName_logged:
  "hd (trace (snd (merge_pdf_layers_server (sample_env no_tools)
         (both_uploads\<lparr>body := (body both_uploads)(''layerName'' \<mapsto> ''Layer 1'')\<rparr>)
         (start empty_world)))) =
   Log (''Job job-1: Processing with layer '' @ [CHR 0x22] @ ''Layer 1'' @ [CHR 0x22]
        @ '', position (0, 0), size 612x792'')"
  apply (rule wpI [where P = "\<lambda>r. hd (trace (snd r)) =
     Log (''Job job-1: Processing with layer '' @ [CHR 0x22] @ ''Layer 1'' @ [CHR 0x22]
          @ '', position (0, 0), size 612x792'')"])
  apply (simp only: merge_pdf_layers_server_def Let_def start_def)
  apply (simp add: both_uploads_def cong: option.case_cong)
  apply (simp only: wp_rules)
  apply (simp add: sample_env_def no_tools_def js_or_def js_or_str_def sample_parseFloat_def
      sample_toString_0 sample_toString_612 sample_toString_792)
  done

theorem C8_layerName_ignored_witness:
  "agree unlog
     (merge_pdf_layers_server (sample_env no_tools)
        (both_uploads\<lparr>body := (body both_uploads)(''layerName'' \<mapsto> ''Layer 1'')\<rparr>)
        (start empty_world))
     (merge_pdf_layers_server (sample_env no_tools)
        (both_uploads\<lparr>body := (body both_uploads)(''layerName'' := None)\<rparr>)
        (start empty_world)) \<and>
   hd (trace (snd (merge_pdf_layers_server (sample_env no_tools)
         (both_uploads\<lparr>body := (body both_uploads)(''layerName'' \<mapsto> ''Layer 1'')\<rparr>)
         (start empty_world)))) =
   Log (''Job job-1: Processing with layer '' @ [CHR 0x22] @ ''Layer 1'' @ [CHR 0x22]
        @ '', position (0, 0), size 612x792'')"
  using C8_layerName_ignored
    [of "sample_env no_tools" both_uploads "Some ''Layer 1''" empty_world None]
  by (simp add: layerName_logged)

subsection \<open>The programs the commands start\<close>

text \<open>The first word of each command line of the three files.\<close>

lemma binary_server_convertCmd: "binary_of (server_convertCmd e a wd ht p) = ''convert''"
  by (simp add: binary_of_def server_convertCmd_def)

lemma binary_server_mergeCmd: "binary_of (server_mergeCmd out t p) = ''gs''"
  by (simp add: binary_of_def server_mergeCmd_def)

lemma binary_server_simpleMergeCmd: "binary_of (server_simpleMergeCmd out t) = ''gs''"
  by (simp add: binary_of_def server_simpleMergeCmd_def)

lemma binary_overlay_gsCmd: "binary_of (overlay_gsCmd out t) = ''gs''"
  by (simp add: binary_of_def overlay_gsCmd_def)

lemma binary_layered_gsCmd: "binary_of (layered_gsCmd out p) = ''gs''"
  by (simp add: binary_of_def layered_gsCmd_def)

lemma binary_railway_rawCmd: "binary_of (railway_rawCmd a j) = ''convert''"
  by (simp add: binary_of_def railway_rawCmd_def)

lemma binary_railway_resizeCmd: "binary_of (railway_resizeCmd e pw ph p j) = ''gs''"
  by (simp add: binary_of_def railway_resizeCmd_def)

lemma binary_railway_fallbackCmd: "binary_of (railway_fallbackCmd e a pw ph p) = ''convert''"
  by (simp add: binary_of_def railway_fallbackCmd_def)

lemma binary_railway_qpdfCmd: "binary_of (railway_qpdfCmd t p out) = ''qpdf''"
  by (simp add: binary_of_def railway_qpdfCmd_def)

lemma binary_railway_pdftkCmd: "binary_of (railway_pdftkCmd t p out) = ''pdftk''"
  by (simp add: binary_of_def railway_pdftkCmd_def)

lemma binary_railway_flatTemplateCmd: "binary_of (railway_flatTemplateCmd e d t j) = ''convert''"
  by (simp add: binary_of_def railway_flatTemplateCmd_def)

lemma binary_railway_flatArtworkCmd: "binary_of (railway_flatArtworkCmd e d p j) = ''convert''"
  by (simp add: binary_of_def railway_flatArtworkCmd_def)

lemma binary_railway_compositeCmd: "binary_of (railway_compositeCmd j) = ''convert''"
  by (simp add: binary_of_def railway_compositeCmd_def)

lemma binary_railway_toPdfCmd: "binary_of (railway_toPdfCmd e j pw ph out) = ''convert''"
  by (simp add: binary_of_def railway_toPdfCmd_def)

lemma binary_part000_convertCmd: "binary_of (part000_convertCmd e a pw ph p) = ''convert''"
  by (simp add: binary_of_def part000_convertCmd_def)

lemma binary_part000_gsImageCmd: "binary_of (part000_gsImageCmd p i) = ''gs''"
  by (simp add: binary_of_def part000_gsImageCmd_def)

lemma binary_part000_pdftkCmd: "binary_of (part000_pdftkCmd t p out) = ''pdftk''"
  by (simp add: binary_of_def part000_pdftkCmd_def)

lemma binary_part000_qpdfCmd: "binary_of (part000_qpdfCmd t p out) = ''qpdf''"
  by (simp add: binary_of_def part000_qpdfCmd_def)

lemma binary_part000_gsCmd: "binary_of (part000_gsCmd e pw ph i p) = ''gs''"
  by (simp add: binary_of_def part000_gsCmd_def)

lemma binary_part000_overlayCmd: "binary_of (part000_overlayCmd e out i ph t) = ''gs''"
  by (simp add: binary_of_def part000_overlayCmd_def)

lemma binary_part000_flatArtworkCmd: "binary_of (part000_flatArtworkCmd e p pw ph j) = ''convert''"
  by (simp add: binary_of_def part000_flatArtworkCmd_def)

lemma binary_part000_flatTemplateCmd: "binary_of (part000_flatTemplateCmd e t pw ph j) = ''convert''"
  by (simp add: binary_of_def part000_flatTemplateCmd_def)

lemma binary_part000_compositeCmd: "binary_of (part000_compositeCmd j) = ''convert''"
  by (simp add: binary_of_def part000_compositeCmd_def)

lemma binary_part000_toPdfCmd: "binary_of (part000_toPdfCmd j out) = ''convert''"
  by (simp add: binary_of_def part000_toPdfCmd_def)

lemma binary_gs_version: "binary_of ''gs --version'' = ''gs''"
  by (simp add: binary_of_def)

lemma binary_convert_version: "binary_of ''convert --version'' = ''convert''"
  by (simp add: binary_of_def)

lemmas binaries =
  binary_server_convertCmd binary_server_mergeCmd binary_server_simpleMergeCmd
  binary_overlay_gsCmd binary_layered_gsCmd binary_railway_rawCmd
  binary_railway_resizeCmd binary_railway_fallbackCmd binary_railway_qpdfCmd
  binary_railway_pdftkCmd binary_railway_flatTemplateCmd binary_railway_flatArtworkCmd
  binary_railway_compositeCmd binary_railway_toPdfCmd binary_part000_convertCmd
  binary_part000_gsImageCmd binary_part000_pdftkCmd binary_part000_qpdfCmd
  binary_part000_gsCmd binary_part000_overlayCmd binary_part000_flatArtworkCmd
  binary_part000_flatTemplateCmd binary_part000_compositeCmd binary_part000_toPdfCmd
  binary_gs_version binary_convert_version

lemma known_gs: "binary_of c = ''gs'' \<Longrightarrow> known_binary c"
  by (simp add: known_binary_def)

lemma known_convert: "binary_of c = ''convert'' \<Longrightarrow> known_binary c"
  by (simp add: known_binary_def)

lemma known_qpdf: "binary_of c = ''qpdf'' \<Longrightarrow> known_binary c"
  by (simp add: known_binary_def)

lemma known_pdftk: "binary_of c = ''pdftk'' \<Longrightarrow> known_binary c"
  by (simp add: known_binary_def)

lemmas known =
  known_convert [OF binary_server_convertCmd] known_gs [OF binary_server_mergeCmd]
  known_gs [OF binary_server_simpleMergeCmd] known_gs [OF binary_overlay_gsCmd]
  known_gs [OF binary_layered_gsCmd] known_convert [OF binary_railway_rawCmd]
  known_gs [OF binary_railway_resizeCmd] known_convert [OF binary_railway_fallbackCmd]
  known_qpdf [OF binary_railway_qpdfCmd] known_pdftk [OF binary_railway_pdftkCmd]
  known_convert [OF binary_railway_flatTemplateCmd] known_convert [OF binary_railway_flatArtworkCmd]
  known_convert [OF binary_railway_compositeCmd] known_convert [OF binary_railway_toPdfCmd]
  known_convert [OF binary_part000_convertCmd] known_gs [OF binary_part000_gsImageCmd]
  known_pdftk [OF binary_part000_pdftkCmd] known_qpdf [OF binary_part000_qpdfCmd]
  known_gs [OF binary_part000_gsCmd] known_gs [OF binary_part000_overlayCmd]
  known_convert [OF binary_part000_flatArtworkCmd] known_convert [OF binary_part000_flatTemplateCmd]
  known_convert [OF binary_part000_compositeCmd] known_convert [OF binary_part000_toPdfCmd]
  known_gs [OF binary_gs_version] known_convert [OF binary_convert_version]

lemma okb_Nil: "only_known_binaries [] = True"
  by (simp add: only_known_binaries_def)

lemma okb_Exec: "only_known_binaries (tr @ [Exec l c ok]) = (only_known_binaries tr \<and> known_binary c)"
  by (simp add: only_known_binaries_def execs_append)

lemma okb_Write: "only_known_binaries (tr @ [Write p b ok]) = only_known_binaries tr"
  by (simp add: only_known_binaries_def execs_append)

lemma okb_Read: "only_known_binaries (tr @ [Read p b]) = only_known_binaries tr"
  by (simp add: only_known_binaries_def execs_append)

lemma okb_Copy: "only_known_binaries (tr @ [Copy p q ok]) = only_known_binaries tr"
  by (simp add: only_known_binaries_def execs_append)

lemma okb_Log: "only_known_binaries (tr @ [Log x]) = only_known_binaries tr"
  by (simp add: only_known_binaries_def execs_append)

lemmas okb_post =
  snd_conv state.simps okb_Nil okb_Exec okb_Write okb_Read okb_Copy okb_Log known simp_thms
  if_cancel

lemma okb_merge_server: "only_known_binaries (trace (snd (merge_pdf_layers_server e req (start w))))"
  apply (rule wpI [where P = "\<lambda>r. only_known_binaries (trace (snd r))"])
  apply (simp only: merge_pdf_layers_server_def Let_def start_def)
  apply (simp only: wp_rules)
  apply (simp only: okb_post split: option.splits)
  done

lemma okb_merge_railway: "only_known_binaries (trace (snd (merge_pdf_layers_railway e req (start w))))"
  apply (rule wpI [where P = "\<lambda>r. only_known_binaries (trace (snd r))"])
  apply (simp only: merge_pdf_layers_railway_def Let_def start_def)
  apply (simp only: wp_rules)
  apply (simp only: okb_post split: option.splits)
  done

lemma okb_merge_part000: "only_known_binaries (trace (snd (merge_pdf_layers_part000 e req (start w))))"
  apply (rule wpI [where P = "\<lambda>r. only_known_binaries (trace (snd r))"])
  apply (simp only: merge_pdf_layers_part000_def Let_def start_def)
  apply (simp only: wp_rules)
  apply (simp only: okb_post split: option.splits)
  done

lemma okb_overlay_server: "only_known_binaries (trace (snd (overlay_artwork_server e req (start w))))"
  apply (rule wpI [where P = "\<lambda>r. only_known_binaries (trace (snd r))"])
  apply (simp only: overlay_artwork_server_def Let_def start_def)
  apply (simp only: wp_rules)
  apply (simp only: okb_post split: option.splits)
  done

lemma okb_overlay_railway: "only_known_binaries (trace (snd (overlay_artwork_railway e req (start w))))"
  apply (rule wpI [where P = "\<lambda>r. only_known_binaries (trace (snd r))"])
  apply (simp only: overlay_artwork_railway_def Let_def start_def)
  apply (simp only: wp_rules)
  apply (simp only: okb_post split: option.splits)
  done

lemma okb_overlay_part000: "only_known_binaries (trace (snd (overlay_artwork_part000 e req (start w))))"
  apply (rule wpI [where P = "\<lambda>r. only_known_binaries (trace (snd r))"])
  apply (simp only: overlay_artwork_part000_def Let_def start_def)
  apply (simp only: wp_rules)
  apply (simp only: okb_post split: option.splits)
  done

lemma okb_create_server: "only_known_binaries (trace (snd (create_layered_pdf_server e req (start w))))"
  apply (rule wpI [where P = "\<lambda>r. only_known_binaries (trace (snd r))"])
  apply (simp only: create_layered_pdf_server_def Let_def start_def)
  apply (simp only: wp_rules)
  apply (simp only: okb_post split: option.splits)
  done

lemma okb_create_railway: "only_known_binaries (trace (snd (create_layered_pdf_railway e req (start w))))"
  apply (rule wpI [where P = "\<lambda>r. only_known_binaries (trace (snd r))"])
  apply (simp only: create_layered_pdf_railway_def Let_def start_def)
  apply (simp only: wp_rules)
  apply (simp only: okb_post split: option.splits)
  done

lemma okb_create_part000: "only_known_binaries (trace (snd (create_layered_pdf_part000 e req (start w))))"
  apply (rule wpI [where P = "\<lambda>r. only_known_binaries (trace (snd r))"])
  apply (simp only: create_layered_pdf_part000_def Let_def start_def)
  apply (simp only: wp_rules)
  apply (simp only: okb_post split: option.splits)
  done

lemma okb_gs_version: "only_known_binaries (trace (snd (gs_version e (start w))))"
  apply (rule wpI [where P = "\<lambda>r. only_known_binaries (trace (snd r))"])
  apply (simp only: gs_version_def start_def)
  apply (simp only: wp_rules)
  apply (simp only: okb_post)
  done

lemma okb_listen_callback: "only_known_binaries (trace (snd (listen_callback e port (start w))))"
  apply (rule wpI [where P = "\<lambda>r. only_known_binaries (trace (snd r))"])
  apply (simp only: listen_callback_def start_def)
  apply (simp only: wp_rules)
  apply (simp only: okb_post)
  done

subsection \<open>One program per command line\<close>

lemma plain_Nil: "plain [] = True"
  by (simp add: plain_def)

lemma plain_Cons: "plain (c # cs) = (\<not> chaining c \<and> plain cs)"
  by (simp add: plain_def)

lemma plain_append: "plain (a @ b) = (plain a \<and> plain b)"
  by (induction a) (simp_all add: plain_Nil plain_Cons)

lemma plain_take: "plain c \<Longrightarrow> plain (take n c)"
  by (induction c arbitrary: n) (simp_all add: plain_Nil plain_Cons take_Cons split: nat.splits)

lemma single_plain: "plain c \<Longrightarrow> single_command c"
  by (simp add: single_command_def drop_redirect_def plain_take)

lemma single_redirect: "plain c \<Longrightarrow> single_command (c @ ''2>&1'')"
  by (simp add: single_command_def drop_redirect_def suffix_def)

lemma redirect_tail: "[CHR 0x22, CHR 0x20, CHR ''2'', CHR 0x3E, CHR 0x26, CHR ''1''] = [CHR 0x22, CHR 0x20] @ ''2>&1''"
  by simp

text \<open>Each command line of the three files is a single command, when the paths and the
  printed numbers put into it are plain.\<close>

lemma single_server_convertCmd:
  "(\<forall>n. plain (toString e n)) \<Longrightarrow>
   plain artworkPath \<Longrightarrow>
   plain artworkPdfPath \<Longrightarrow>
   single_command (server_convertCmd e artworkPath width height artworkPdfPath)"
  unfolding server_convertCmd_def
  apply (rule single_plain)
  apply (simp add: plain_append plain_Cons plain_Nil chaining_def)
  done

lemma single_server_mergeCmd:
  "plain outputPath \<Longrightarrow>
   plain templatePath \<Longrightarrow>
   plain artworkPdfPath \<Longrightarrow>
   single_command (server_mergeCmd outputPath templatePath artworkPdfPath)"
  unfolding server_mergeCmd_def
  apply (simp only: redirect_tail)
  apply (simp only: append_assoc [symmetric])
  apply (rule single_redirect)
  apply (simp add: plain_append plain_Cons plain_Nil chaining_def)
  done

lemma single_server_simpleMergeCmd:
  "plain outputPath \<Longrightarrow>
   plain templatePath \<Longrightarrow>
   single_command (server_simpleMergeCmd outputPath templatePath)"
  unfolding server_simpleMergeCmd_def
  apply (simp only: redirect_tail)
  apply (simp only: append_assoc [symmetric])
  apply (rule single_redirect)
  apply (simp add: plain_append plain_Cons plain_Nil chaining_def)
  done

lemma single_overlay_gsCmd:
  "plain outputPath \<Longrightarrow>
   plain templatePath \<Longrightarrow>
   single_command (overlay_gsCmd outputPath templatePath)"
  unfolding overlay_gsCmd_def
  apply (rule single_plain)
  apply (simp add: plain_append plain_Cons plain_Nil chaining_def)
  done

lemma single_layered_gsCmd:
  "plain outputPath \<Longrightarrow>
   plain psPath \<Longrightarrow>
   single_command (layered_gsCmd outputPath psPath)"
  unfolding layered_gsCmd_def
  apply (simp only: redirect_tail)
  apply (simp only: append_assoc [symmetric])
  apply (rule single_redirect)
  apply (simp add: plain_append plain_Cons plain_Nil chaining_def)
  done

lemma single_railway_rawCmd:
  "plain artworkPngPath \<Longrightarrow>
   plain jobDir \<Longrightarrow>
   single_command (railway_rawCmd artworkPngPath jobDir)"
  unfolding railway_rawCmd_def
  apply (rule single_plain)
  apply (simp add: plain_append plain_Cons plain_Nil chaining_def)
  done

lemma single_railway_resizeCmd:
  "(\<forall>n. plain (toString e n)) \<Longrightarrow>
   plain artworkPdfPath \<Longrightarrow>
   plain jobDir \<Longrightarrow>
   single_command (railway_resizeCmd e pageWidth pageHeight artworkPdfPath jobDir)"
  unfolding railway_resizeCmd_def
  apply (rule single_plain)
  apply (simp add: plain_append plain_Cons plain_Nil chaining_def)
  done

lemma single_railway_fallbackCmd:
  "(\<forall>n. plain (toString e n)) \<Longrightarrow>
   plain artworkPngPath \<Longrightarrow>
   plain artworkPdfPath \<Longrightarrow>
   single_command (railway_fallbackCmd e artworkPngPath pageWidth pageHeight artworkPdfPath)"
  unfolding railway_fallbackCmd_def
  apply (rule single_plain)
  apply (simp add: plain_append plain_Cons plain_Nil chaining_def)
  done

lemma single_railway_qpdfCmd:
  "plain templatePath \<Longrightarrow>
   plain artworkPdfPath \<Longrightarrow>
   plain outputPath \<Longrightarrow>
   single_command (railway_qpdfCmd templatePath artworkPdfPath outputPath)"
  unfolding railway_qpdfCmd_def
  apply (rule single_plain)
  apply (simp add: plain_append plain_Cons plain_Nil chaining_def)
  done

lemma single_railway_pdftkCmd:
  "plain templatePath \<Longrightarrow>
   plain artworkPdfPath \<Longrightarrow>
   plain outputPath \<Longrightarrow>
   single_command (railway_pdftkCmd templatePath artworkPdfPath outputPath)"
  unfolding railway_pdftkCmd_def
  apply (rule single_plain)
  apply (simp add: plain_append plain_Cons plain_Nil chaining_def)
  done

lemma single_railway_flatTemplateCmd:
  "(\<forall>n. plain (toString e n)) \<Longrightarrow>
   plain templatePath \<Longrightarrow>
   plain jobDir \<Longrightarrow>
   single_command (railway_flatTemplateCmd e density templatePath jobDir)"
  unfolding railway_flatTemplateCmd_def
  apply (rule single_plain)
  apply (simp add: plain_append plain_Cons plain_Nil chaining_def)
  done

lemma single_railway_flatArtworkCmd:
  "(\<forall>n. plain (toString e n)) \<Longrightarrow>
   plain artworkPdfPath \<Longrightarrow>
   plain jobDir \<Longrightarrow>
   single_command (railway_flatArtworkCmd e density artworkPdfPath jobDir)"
  unfolding railway_flatArtworkCmd_def
  apply (rule single_plain)
  apply (simp add: plain_append plain_Cons plain_Nil chaining_def)
  done

lemma single_railway_compositeCmd:
  "plain jobDir \<Longrightarrow>
   single_command (railway_compositeCmd jobDir)"
  unfolding railway_compositeCmd_def
  apply (rule single_plain)
  apply (simp add: plain_append plain_Cons plain_Nil chaining_def)
  done

lemma single_railway_toPdfCmd:
  "(\<forall>n. plain (toString e n)) \<Longrightarrow>
   plain jobDir \<Longrightarrow>
   plain outputPath \<Longrightarrow>
   single_command (railway_toPdfCmd e jobDir pageWidth pageHeight outputPath)"
  unfolding railway_toPdfCmd_def
  apply (rule single_plain)
  apply (simp add: plain_append plain_Cons plain_Nil chaining_def)
  done

lemma single_part000_convertCmd:
  "(\<forall>n. plain (toString e n)) \<Longrightarrow>
   plain artworkPath \<Longrightarrow>
   plain artworkPdfPath \<Longrightarrow>
   single_command (part000_convertCmd e artworkPath pageWidth pageHeight artworkPdfPath)"
  unfolding part000_convertCmd_def
  apply (rule single_plain)
  apply (simp add: plain_append plain_Cons plain_Nil chaining_def)
  done

lemma single_part000_gsImageCmd:
  "plain artworkPdfPath \<Longrightarrow>
   plain psImagePath \<Longrightarrow>
   single_command (part000_gsImageCmd artworkPdfPath psImagePath)"
  unfolding part000_gsImageCmd_def
  apply (rule single_plain)
  apply (simp add: plain_append plain_Cons plain_Nil chaining_def)
  done

lemma single_part000_pdftkCmd:
  "plain templatePath \<Longrightarrow>
   plain artworkPdfPath \<Longrightarrow>
   plain outputPath \<Longrightarrow>
   single_command (part000_pdftkCmd templatePath artworkPdfPath outputPath)"
  unfolding part000_pdftkCmd_def
  apply (rule single_plain)
  apply (simp add: plain_append plain_Cons plain_Nil chaining_def)
  done

lemma single_part000_qpdfCmd:
  "plain templatePath \<Longrightarrow>
   plain artworkPdfPath \<Longrightarrow>
   plain outputPath \<Longrightarrow>
   single_command (part000_qpdfCmd templatePath artworkPdfPath outputPath)"
  unfolding part000_qpdfCmd_def
  apply (rule single_plain)
  apply (simp add: plain_append plain_Cons plain_Nil chaining_def)
  done

lemma single_part000_gsCmd:
  "(\<forall>n. plain (toString e n)) \<Longrightarrow>
   plain intermediatePath \<Longrightarrow>
   plain artworkPdfPath \<Longrightarrow>
   single_command (part000_gsCmd e pageWidth pageHeight intermediatePath artworkPdfPath)"
  unfolding part000_gsCmd_def
  apply (simp only: redirect_tail)
  apply (simp only: append_assoc [symmetric])
  apply (rule single_redirect)
  apply (simp add: plain_append plain_Cons plain_Nil chaining_def)
  done

lemma single_part000_overlayCmd:
  "(\<forall>n. plain (toString e n)) \<Longrightarrow>
   plain outputPath \<Longrightarrow>
   plain intermediatePath \<Longrightarrow>
   plain templatePath \<Longrightarrow>
   single_command (part000_overlayCmd e outputPath intermediatePath pageHeight templatePath)"
  unfolding part000_overlayCmd_def
  apply (simp only: redirect_tail)
  apply (simp only: append_assoc [symmetric])
  apply (rule single_redirect)
  apply (simp add: plain_append plain_Cons plain_Nil chaining_def)
  done

lemma single_part000_flatArtworkCmd:
  "(\<forall>n. plain (toString e n)) \<Longrightarrow>
   plain artworkPdfPath \<Longrightarrow>
   plain jobDir \<Longrightarrow>
   single_command (part000_flatArtworkCmd e artworkPdfPath pageWidth pageHeight jobDir)"
  unfolding part000_flatArtworkCmd_def
  apply (rule single_plain)
  apply (simp add: plain_append plain_Cons plain_Nil chaining_def)
  done

lemma single_part000_flatTemplateCmd:
  "(\<forall>n. plain (toString e n)) \<Longrightarrow>
   plain templatePath \<Longrightarrow>
   plain jobDir \<Longrightarrow>
   single_command (part000_flatTemplateCmd e templatePath pageWidth pageHeight jobDir)"
  unfolding part000_flatTemplateCmd_def
  apply (rule single_plain)
  apply (simp add: plain_append plain_Cons plain_Nil chaining_def)
  done

lemma single_part000_compositeCmd:
  "plain jobDir \<Longrightarrow>
   single_command (part000_compositeCmd jobDir)"
  unfolding part000_compositeCmd_def
  apply (rule single_plain)
  apply (simp add: plain_append plain_Cons plain_Nil chaining_def)
  done

lemma single_part000_toPdfCmd:
  "plain jobDir \<Longrightarrow>
   plain outputPath \<Longrightarrow>
   single_command (part000_toPdfCmd jobDir outputPath)"
  unfolding part000_toPdfCmd_def
  apply (rule single_plain)
  apply (simp add: plain_append plain_Cons plain_Nil chaining_def)
  done

lemma single_gs_version: "single_command ''gs --version''"
  by (rule single_plain) (simp add: plain_Cons plain_Nil chaining_def)

lemma single_convert_version: "single_command ''convert --version''"
  by (rule single_plain) (simp add: plain_Cons plain_Nil chaining_def)

lemmas singles =
  single_server_convertCmd single_server_mergeCmd single_server_simpleMergeCmd
  single_overlay_gsCmd single_layered_gsCmd single_railway_rawCmd single_railway_resizeCmd
  single_railway_fallbackCmd single_railway_qpdfCmd single_railway_pdftkCmd
  single_railway_flatTemplateCmd single_railway_flatArtworkCmd single_railway_compositeCmd
  single_railway_toPdfCmd single_part000_convertCmd single_part000_gsImageCmd
  single_part000_pdftkCmd single_part000_qpdfCmd single_part000_gsCmd
  single_part000_overlayCmd single_part000_flatArtworkCmd single_part000_flatTemplateCmd
  single_part000_compositeCmd single_part000_toPdfCmd single_gs_version
  single_convert_version

text \<open>The paths the handlers put into their commands are plain when the job id is.\<close>

lemma plain_path_join: "plain (path_join d n) = (plain d \<and> plain n)"
  by (simp add: path_join_def plain_append plain_Cons plain_Nil chaining_def)

lemma plain_TEMP_DIR: "plain TEMP_DIR"
  by (simp add: TEMP_DIR_def plain_Cons plain_Nil chaining_def)

lemma plain_names:
  "plain ''template.pdf''" "plain ''artwork.pdf''" "plain ''output.pdf''"
  "plain ''artwork.png''" "plain ''overlay.ps''" "plain ''layered.ps''"
  "plain ''image.ps''" "plain ''composite.ps''" "plain ''intermediate.pdf''"
  by (simp_all add: plain_Cons plain_Nil chaining_def)

lemma plain_getExtension: "plain (''artwork'' @ getExtension m)"
  by (simp add: getExtension_def plain_append plain_Cons plain_Nil chaining_def)

lemma sc_Nil: "single_commands [] = True"
  by (simp add: single_commands_def)

lemma sc_Exec: "single_commands (tr @ [Exec l c ok]) = (single_commands tr \<and> single_command c)"
  by (simp add: single_commands_def execs_append)

lemma sc_Write: "single_commands (tr @ [Write p b ok]) = single_commands tr"
  by (simp add: single_commands_def execs_append)

lemma sc_Read: "single_commands (tr @ [Read p b]) = single_commands tr"
  by (simp add: single_commands_def execs_append)

lemma sc_Copy: "single_commands (tr @ [Copy p q ok]) = single_commands tr"
  by (simp add: single_commands_def execs_append)

lemma sc_Log: "single_commands (tr @ [Log x]) = single_commands tr"
  by (simp add: single_commands_def execs_append)

lemmas sc_post =
  snd_conv state.simps sc_Nil sc_Exec sc_Write sc_Read sc_Copy sc_Log singles
  plain_path_join plain_TEMP_DIR plain_names plain_getExtension simp_thms if_cancel

lemma single_merge_server:
  assumes "\<forall>n. plain (toString e n)" "plain (uuidv4 e)"
  shows "single_commands (trace (snd (merge_pdf_layers_server e req (start w))))"
  apply (rule wpI [where P = "\<lambda>r. single_commands (trace (snd r))"])
  apply (simp only: merge_pdf_layers_server_def Let_def start_def)
  apply (simp only: wp_rules)
  apply (simp only: sc_post assms split: option.splits)
  done

lemma single_merge_railway:
  assumes "\<forall>n. plain (toString e n)" "plain (uuidv4 e)"
  shows "single_commands (trace (snd (merge_pdf_layers_railway e req (start w))))"
  apply (rule wpI [where P = "\<lambda>r. single_commands (trace (snd r))"])
  apply (simp only: merge_pdf_layers_railway_def Let_def start_def)
  apply (simp only: wp_rules)
  apply (simp only: sc_post assms split: option.splits)
  done

lemma single_merge_part000:
  assumes "\<forall>n. plain (toString e n)" "plain (uuidv4 e)"
  shows "single_commands (trace (snd (merge_pdf_layers_part000 e req (start w))))"
  apply (rule wpI [where P = "\<lambda>r. single_commands (trace (snd r))"])
  apply (simp only: merge_pdf_layers_part000_def Let_def start_def)
  apply (simp only: wp_rules)
  apply (simp only: sc_post assms split: option.splits)
  done

lemma single_overlay_server:
  assumes "\<forall>n. plain (toString e n)" "plain (uuidv4 e)"
  shows "single_commands (trace (snd (overlay_artwork_server e req (start w))))"
  apply (rule wpI [where P = "\<lambda>r. single_commands (trace (snd r))"])
  apply (simp only: overlay_artwork_server_def Let_def start_def)
  apply (simp only: wp_rules)
  apply (simp only: sc_post assms split: option.splits)
  done

lemma single_overlay_railway:
  assumes "\<forall>n. plain (toString e n)" "plain (uuidv4 e)"
  shows "single_commands (trace (snd (overlay_artwork_railway e req (start w))))"
  apply (rule wpI [where P = "\<lambda>r. single_commands (trace (snd r))"])
  apply (simp only: overlay_artwork_railway_def Let_def start_def)
  apply (simp only: wp_rules)
  apply (simp only: sc_post assms split: option.splits)
  done

lemma single_overlay_part000:
  assumes "\<forall>n. plain (toString e n)" "plain (uuidv4 e)"
  shows "single_commands (trace (snd (overlay_artwork_part000 e req (start w))))"
  apply (rule wpI [where P = "\<lambda>r. single_commands (trace (snd r))"])
  apply (simp only: overlay_artwork_part000_def Let_def start_def)
  apply (simp only: wp_rules)
  apply (simp only: sc_post assms split: option.splits)
  done

lemma single_create_server:
  assumes "\<forall>n. plain (toString e n)" "plain (uuidv4 e)"
  shows "single_commands (trace (snd (create_layered_pdf_server e req (start w))))"
  apply (rule wpI [where P = "\<lambda>r. single_commands (trace (snd r))"])
  apply (simp only: create_layered_pdf_server_def Let_def start_def)
  apply (simp only: wp_rules)
  apply (simp only: sc_post assms split: option.splits)
  done

lemma single_create_railway:
  assumes "\<forall>n. plain (toString e n)" "plain (uuidv4 e)"
  shows "single_commands (trace (snd (create_layered_pdf_railway e req (start w))))"
  apply (rule wpI [where P = "\<lambda>r. single_commands (trace (snd r))"])
  apply (simp only: create_layered_pdf_railway_def Let_def start_def)
  apply (simp only: wp_rules)
  apply (simp only: sc_post assms split: option.splits)
  done

lemma single_create_part000:
  assumes "\<forall>n. plain (toString e n)" "plain (uuidv4 e)"
  shows "single_commands (trace (snd (create_layered_pdf_part000 e req (start w))))"
  apply (rule wpI [where P = "\<lambda>r. single_commands (trace (snd r))"])
  apply (simp only: create_layered_pdf_part000_def Let_def start_def)
  apply (simp only: wp_rules)
  apply (simp only: sc_post assms split: option.splits)
  done

lemma single_gs_version_route: "single_commands (trace (snd (gs_version e (start w))))"
  apply (rule wpI [where P = "\<lambda>r. single_commands (trace (snd r))"])
  apply (simp only: gs_version_def start_def)
  apply (simp only: wp_rules)
  apply (simp only: sc_post)
  done

lemma single_listen_callback: "single_commands (trace (snd (listen_callback e port (start w))))"
  apply (rule wpI [where P = "\<lambda>r. single_commands (trace (snd r))"])
  apply (simp only: listen_callback_def start_def)
  apply (simp only: wp_rules)
  apply (simp only: sc_post)
  done

text \<open>
  \<^bold>\<open>C7.\<close> Every command line run through \<^verbatim>\<open>execSync\<close> starts one of the four binaries
  \<^verbatim>\<open>gs\<close>, \<^verbatim>\<open>convert\<close>, \<^verbatim>\<open>qpdf\<close> and \<^verbatim>\<open>pdftk\<close>: in every run of each of the nine upload
  handlers, of GET /gs-version and of the start-up checks, whatever the request and whatever
  the commands do. And it starts nothing else: when the job id and the printed numbers
  hold no character that chains or substitutes commands (they never do: a UUID is
  hexadecimal digits and hyphens, a printed number digits, a sign, a point, an exponent,
  \<^verbatim>\<open>Infinity\<close> or \<^verbatim>\<open>NaN\<close>), every command line is a single command. No text of the request
  reaches a command line otherwise.
\<close>

theorem C7_only_four_binaries:
  "only_known_binaries (trace (snd (merge_pdf_layers_server e req (start w)))) \<and>
   only_known_binaries (trace (snd (merge_pdf_layers_railway e req (start w)))) \<and>
   only_known_binaries (trace (snd (merge_pdf_layers_part000 e req (start w)))) \<and>
   only_known_binaries (trace (snd (overlay_artwork_server e req (start w)))) \<and>
   only_known_binaries (trace (snd (overlay_artwork_railway e req (start w)))) \<and>
   only_known_binaries (trace (snd (overlay_artwork_part000 e req (start w)))) \<and>
   only_known_binaries (trace (snd (create_layered_pdf_server e req (start w)))) \<and>
   only_known_binaries (trace (snd (create_layered_pdf_railway e req (start w)))) \<and>
   only_known_binaries (trace (snd (create_layered_pdf_part000 e req (start w)))) \<and>
   only_known_binaries (trace (snd (gs_version e (start w)))) \<and>
   only_known_binaries (trace (snd (listen_callback e port (start w)))) \<and>
   ((\<forall>n. plain (toString e n)) \<and> plain (uuidv4 e) \<longrightarrow>
    single_commands (trace (snd (merge_pdf_layers_server e req (start w)))) \<and>
    single_commands (trace (snd (merge_pdf_layers_railway e req (start w)))) \<and>
    single_commands (trace (snd (merge_pdf_layers_part000 e req (start w)))) \<and>
    single_commands (trace (snd (overlay_artwork_server e req (start w)))) \<and>
    single_commands (trace (snd (overlay_artwork_railway e req (start w)))) \<and>
    single_commands (trace (snd (overlay_artwork_part000 e req (start w)))) \<and>
    single_commands (trace (snd (create_layered_pdf_server e req (start w)))) \<and>
    single_commands (trace (snd (create_layered_pdf_railway e req (start w)))) \<and>
    single_commands (trace (snd (create_layered_pdf_part000 e req (start w)))) \<and>
    single_commands (trace (snd (gs_version e (start w)))) \<and>
    single_commands (trace (snd (listen_callback e port (start w)))))"
proof (intro conjI impI)
  assume "(\<forall>n. plain (toString e n)) \<and> plain (uuidv4 e)"
  then have numbers: "\<forall>n. plain (toString e n)" and id: "plain (uuidv4 e)"
    by simp_all
  show "single_commands (trace (snd (merge_pdf_layers_server e req (start w))))"
    by (rule single_merge_server [OF numbers id])
  show "single_commands (trace (snd (merge_pdf_layers_railway e req (start w))))"
    by (rule single_merge_railway [OF numbers id])
  show "single_commands (trace (snd (merge_pdf_layers_part000 e req (start w))))"
    by (rule single_merge_part000 [OF numbers id])
  show "single_commands (trace (snd (overlay_artwork_server e req (start w))))"
    by (rule single_overlay_server [OF numbers id])
  show "single_commands (trace (snd (overlay_artwork_railway e req (start w))))"
    by (rule single_overlay_railway [OF numbers id])
  show "single_commands (trace (snd (overlay_artwork_part000 e req (start w))))"
    by (rule single_overlay_part000 [OF numbers id])
  show "single_commands (trace (snd (create_layered_pdf_server e req (start w))))"
    by (rule single_create_server [OF numbers id])
  show "single_commands (trace (snd (create_layered_pdf_railway e req (start w))))"
    by (rule single_create_railway [OF numbers id])
  show "single_commands (trace (snd (create_layered_pdf_part000 e req (start w))))"
    by (rule single_create_part000 [OF numbers id])
qed (rule okb_merge_server okb_merge_railway okb_merge_part000
      okb_overlay_server okb_overlay_railway okb_overlay_part000
      okb_create_server okb_create_railway okb_create_part000
      okb_gs_version okb_listen_callback single_gs_version_route single_listen_callback)+

text \<open>A run on a machine where every command returns and changes nothing: the handler of
  railway-api/server.js starts \<^verbatim>\<open>convert\<close>, \<^verbatim>\<open>gs\<close> and \<^verbatim>\<open>qpdf\<close>, then finds no output.\<close>

lemma inert_tool: "tool (sample_env inert_tools) c w = (Ok [], w)"
  by (simp add: sample_env_def inert_tools_def)

lemma programs_Nil: "programs [] = []"
  by (simp add: programs_def)

lemma programs_Exec: "programs (tr @ [Exec l c ok]) = programs tr @ [binary_of c]"
  by (simp add: programs_def execs_append)

lemma programs_Write: "programs (tr @ [Write p b ok]) = programs tr"
  by (simp add: programs_def execs_append)

lemma programs_Read: "programs (tr @ [Read p b]) = programs tr"
  by (simp add: programs_def execs_append)

lemma programs_Copy: "programs (tr @ [Copy p q ok]) = programs tr"
  by (simp add: programs_def execs_append)

lemma programs_Log: "programs (tr @ [Log x]) = programs tr"
  by (simp add: programs_def execs_append)

lemmas programs_post =
  programs_Nil programs_Exec programs_Write programs_Read programs_Copy programs_Log binaries
  prod.inject outcome.simps simp_thms snd_conv fst_conv state.simps if_cancel

lemma inert_run_binaries:
  "programs (trace (snd
     (merge_pdf_layers_railway (sample_env inert_tools) both_uploads (start empty_world)))) =
   [''convert'', ''gs'', ''qpdf'']"
  apply (rule wpI [where P = "\<lambda>r. programs (trace (snd r)) = [''convert'', ''gs'', ''qpdf'']"])
  apply (simp only: merge_pdf_layers_railway_def Let_def start_def)
  apply (simp add: both_uploads_def cong: option.case_cong)
  apply (simp only: wp_rules)
  apply (simp only: inert_tool programs_post)
  apply (simp only: append.simps simp_thms if_cancel)
  done

text \<open>The sample environment prints numbers in digits, with a sign or as a word, and its job
  id is \<^verbatim>\<open>job-1\<close>.\<close>

lemma plain_digit:
  assumes "k < 10"
  shows "\<not> chaining (''0123456789'' ! k)"
proof -
  have "list_all (\<lambda>c. \<not> chaining c) ''0123456789''"
    by (simp add: chaining_def)
  with assms show ?thesis
    by (simp add: list_all_length)
qed

lemma plain_digits_of: "plain (digits_of n)"
proof (induction n rule: digits_of.induct)
  case (1 n)
  show ?case
  proof (cases "n < 10")
    case True
    then show ?thesis
      by (subst digits_of.simps) (simp add: plain_Cons plain_Nil plain_digit)
  next
    case False
    with 1 have "plain (digits_of (n div 10))"
      by simp
    with False show ?thesis
      by (subst digits_of.simps) (simp add: plain_append plain_Cons plain_Nil plain_digit)
  qed
qed

lemma plain_sample_env:
  "(\<forall>n. plain (toString (sample_env f) n)) \<and> plain (uuidv4 (sample_env f))"
  by (simp add: sample_env_def sample_toString_def plain_digits_of plain_append plain_Cons
      plain_Nil chaining_def split: jsnum.splits)

theorem C7_only_four_binaries_witness:
  "only_known_binaries (trace (snd
     (merge_pdf_layers_railway (sample_env inert_tools) both_uploads (start empty_world)))) \<and>
   programs (trace (snd
     (merge_pdf_layers_railway (sample_env inert_tools) both_uploads (start empty_world)))) =
   [''convert'', ''gs'', ''qpdf''] \<and>
   (\<forall>n. plain (toString (sample_env inert_tools) n)) \<and>
   plain (uuidv4 (sample_env inert_tools)) \<and>
   single_commands (trace (snd
     (merge_pdf_layers_railway (sample_env inert_tools) both_uploads (start empty_world))))"
  using C7_only_four_binaries [of "sample_env inert_tools" both_uploads empty_world]
    inert_run_binaries plain_sample_env [of inert_tools]
  by blast
subsection \<open>The cascade of merge strategies\<close>

lemma steps_append: "steps (tr @ tr') = steps tr @ steps tr'"
  by (induction tr rule: steps.induct) simp_all

lemma steps_snoc:
  "steps (tr @ [Exec l c ok]) = steps tr @ [(Run l c, ok)]"
  "steps (tr @ [Write p b ok]) = steps tr @ [(Save p b, ok)]"
  "steps (tr @ [Copy src dst ok]) = steps tr @ [(Dup src dst, ok)]"
  "steps (tr @ [Read p b]) = steps tr"
  "steps (tr @ [Log line]) = steps tr"
  by (simp_all add: steps_append)

lemma steps_Nil: "steps [] = []"
  by simp

lemmas plan_defs =
  server_plan_def railway_plan_def part000_plan_def save_uploads_def server_conversion_def
  server_merge_def railway_conversion_def railway_merge_def part000_conversion_def
  part000_merge_def merge_width_def merge_height_def merge_pageWidth_def merge_pageHeight_def
  jobDir_of_def

lemmas follows_post =
  follows.simps cascade.simps attempt.simps fst_conv snd_conv option.case if_True if_False
  if_cancel simp_thms list.distinct

lemma follows_railway:
  assumes "files_template req = Some t" "files_artwork req = Some a"
  shows "follows (railway_plan e req t a)
     (steps (trace (snd (merge_pdf_layers_railway e req (start w)))))"
  apply (rule wpI [where P = "\<lambda>r. follows (railway_plan e req t a) (steps (trace (snd r)))"])
  apply (simp only: merge_pdf_layers_railway_def Let_def start_def assms option.case)
  apply (simp only: wp_rules)
  apply (simp only: snd_conv state.simps steps_Nil steps_snoc)
  apply (simp only: append.simps plan_defs)
  apply (simp only: follows_post)
  done

lemma follows_part000:
  assumes "files_template req = Some t" "files_artwork req = Some a"
  shows "follows (part000_plan e req t a)
     (steps (trace (snd (merge_pdf_layers_part000 e req (start w)))))"
  apply (rule wpI [where P = "\<lambda>r. follows (part000_plan e req t a) (steps (trace (snd r)))"])
  apply (simp only: merge_pdf_layers_part000_def Let_def start_def assms option.case)
  apply (simp only: wp_rules)
  apply (simp only: snd_conv state.simps steps_Nil steps_snoc)
  apply (simp only: append.simps plan_defs)
  apply (simp only: follows_post)
  done

lemma follows_server:
  assumes "files_template req = Some t" "files_artwork req = Some a"
  shows "follows (server_plan e req t a)
     (steps (trace (snd (merge_pdf_layers_server e req (start w)))))"
  apply (rule wpI [where P = "\<lambda>r. follows (server_plan e req t a) (steps (trace (snd r)))"])
  apply (simp only: merge_pdf_layers_server_def Let_def start_def assms option.case)
  apply (simp only: wp_rules)
  apply (simp only: snd_conv state.simps steps_Nil steps_snoc)
  apply (simp only: append.simps plan_defs)
  apply (simp only: follows_post)
  done

text \<open>The same, line by line.\<close>

lemma saved_Nil: "saved p [] = False"
  by (simp add: saved_def)

lemma saved_snoc: "saved p (tr @ [ev]) = (saved p tr \<or> write_at p True ev)"
  by (simp add: saved_def)

lemma unsaved_Nil: "unsaved p [] = False"
  by (simp add: unsaved_def)

lemma unsaved_snoc: "unsaved p (tr @ [ev]) = (unsaved p tr \<or> write_at p False ev)"
  by (simp add: unsaved_def)

lemmas cascade_post =
  snd_conv state.simps obs saved_Nil saved_snoc unsaved_Nil unsaved_snoc write_at.simps
  path_join_eq numeral_eq_iff num.simps simp_thms if_cancel if_True if_False

lemmas names_post =
  append.simps list.inject list.distinct char.inject simp_thms if_cancel if_True if_False

lemma cascade_railway:
  assumes "files_template req = Some t" "files_artwork req = Some a"
  shows "railway_cascade (trace (snd (merge_pdf_layers_railway e req (start w))))"
  apply (rule wpI [where P = "\<lambda>r. railway_cascade (trace (snd r))"])
  apply (simp only: merge_pdf_layers_railway_def Let_def start_def assms option.case)
  apply (simp only: wp_rules)
  apply (simp only: railway_cascade_def cascade_post)
  done

lemma cascade_part000:
  assumes "files_template req = Some t" "files_artwork req = Some a"
  shows "part000_cascade (path_join (jobDir_of e) ''composite.ps'')
     (trace (snd (merge_pdf_layers_part000 e req (start w))))"
  apply (rule wpI [where P = "\<lambda>r. part000_cascade (path_join (jobDir_of e) ''composite.ps'')
     (trace (snd r))"])
  apply (simp only: merge_pdf_layers_part000_def Let_def start_def assms option.case)
  apply (simp only: wp_rules)
  apply (simp only: part000_cascade_def jobDir_of_def cascade_post)
  apply (simp only: names_post)
  done

lemma cascade_server:
  assumes "files_template req = Some t" "files_artwork req = Some a"
  shows "server_cascade (trace (snd (merge_pdf_layers_server e req (start w))))"
  apply (rule wpI [where P = "\<lambda>r. server_cascade (trace (snd r))"])
  apply (simp only: merge_pdf_layers_server_def Let_def start_def assms option.case)
  apply (simp only: wp_rules)
  apply (simp only: server_cascade_def cascade_post)
  done

text \<open>What the strategies run.\<close>

lemma programs_of_merge:
  "map (map program) (railway_merge e req) =
     [[''qpdf''], [''pdftk''], [''convert'', ''convert'', ''convert'', ''convert''],
      [''copyFileSync'']]"
  "map (map program) (part000_merge e req) =
     [[''pdftk''], [''qpdf''],
      [''writeFileSync'', ''gs'', ''gs'', ''convert'', ''convert'', ''convert'', ''convert''],
      [''copyFileSync'']]"
  "map (map program) (server_merge e) = [[''gs''], [''gs'']]"
  by (simp_all add: railway_merge_def part000_merge_def server_merge_def binaries)

text \<open>
  \<^bold>\<open>C2.\<close> For every request to POST /api/merge-pdf-layers with both uploads, in each of the
  three files, whatever the tools do: the commands, writes and copies of the run are a run of
  the handler's cascades. The uploads are saved; the artwork is converted; then the merge
  strategies are attempted in their order, the first always, each later one exactly when
  every earlier one threw, and a strategy that returned ends the cascade. In
  railway-api/server.js the strategies are qpdf underlay, pdftk background, the four
  ImageMagick commands and the copy of \<^verbatim>\<open>artwork.pdf\<close> to \<^verbatim>\<open>output.pdf\<close>; in part_000 they are
  pdftk, qpdf, a PostScript file with two Ghostscript and four ImageMagick commands, and the
  same copy; in server.js Ghostscript on both files and Ghostscript on the template alone.
  The same is told line by line by \<open>railway_cascade\<close>, \<open>part000_cascade\<close> and
  \<open>server_cascade\<close>.
\<close>

theorem C2_fallback_cascade:
  assumes "files_template req = Some t" "files_artwork req = Some a"
  shows
   "follows (railway_plan e req t a)
      (steps (trace (snd (merge_pdf_layers_railway e req (start w))))) \<and>
    follows (part000_plan e req t a)
      (steps (trace (snd (merge_pdf_layers_part000 e req (start w))))) \<and>
    follows (server_plan e req t a)
      (steps (trace (snd (merge_pdf_layers_server e req (start w))))) \<and>
    map (map program) (railway_merge e req) =
      [[''qpdf''], [''pdftk''], [''convert'', ''convert'', ''convert'', ''convert''],
       [''copyFileSync'']] \<and>
    map (map program) (part000_merge e req) =
      [[''pdftk''], [''qpdf''],
       [''writeFileSync'', ''gs'', ''gs'', ''convert'', ''convert'', ''convert'', ''convert''],
       [''copyFileSync'']] \<and>
    map (map program) (server_merge e) = [[''gs''], [''gs'']] \<and>
    railway_cascade (trace (snd (merge_pdf_layers_railway e req (start w)))) \<and>
    part000_cascade (path_join (jobDir_of e) ''composite.ps'')
      (trace (snd (merge_pdf_layers_part000 e req (start w)))) \<and>
    server_cascade (trace (snd (merge_pdf_layers_server e req (start w))))"
  by (intro conjI follows_railway [OF assms] follows_part000 [OF assms]
      follows_server [OF assms] programs_of_merge cascade_railway [OF assms]
      cascade_part000 [OF assms] cascade_server [OF assms])

text \<open>A run of part_000 in which the write of the PostScript file throws: \<^verbatim>\<open>convert\<close>
  returns, pdftk is missing, and the failing qpdf removes the job directory. The third
  strategy throws at its write, the copy is attempted and throws, and the answer is 500.\<close>

lemma qpdf_wipes_tool:
  "tool (sample_env (qpdf_wipes d)) c w =
     (if binary_of c = ''convert'' then (Ok [], w)
      else if binary_of c = ''qpdf'' then (Failed ''qpdf: killed'', rmSync d w)
      else (Failed (binary_of c @ '': not found''), w))"
  by (simp add: sample_env_def qpdf_wipes_def)

lemma uuid_sample: "uuidv4 (sample_env f) = ''job-1''"
  by (simp add: sample_env_def)

lemma write_error_rmSync:
  assumes "CHR ''/'' \<notin> set n"
  shows "write_error (rmSync d w) (path_join d n) = Some ''ENOENT: no such file or directory''"
proof -
  have "under d (path_join d n)"
    by (rule under_join)
  moreover have "under d d"
    by (simp add: under_def)
  ultimately show ?thesis
    using assms by (simp add: write_error_def rmSync_def dirname_join)
qed

lemma files_rmSync: "files (rmSync d w) (path_join d n) = None"
  by (simp add: rmSync_def under_join)

lemma outline_Nil: "outline [] = []"
  by (simp add: outline_def)

lemma outline_snoc:
  "outline (tr @ [Exec l c ok]) = outline tr @ [(binary_of c, ok)]"
  "outline (tr @ [Write p b ok]) = outline tr @ [(''writeFileSync'', ok)]"
  "outline (tr @ [Copy src dst ok]) = outline tr @ [(''copyFileSync'', ok)]"
  "outline (tr @ [Read p b]) = outline tr"
  "outline (tr @ [Log line]) = outline tr"
  by (simp_all add: outline_def steps_append)

lemmas wipes_post =
  qpdf_wipes_tool uuid_sample binaries eval_post status.simps outline_Nil outline_snoc
  write_error_rmSync [of "''composite.ps''", simplified] files_rmSync option.inject

lemma part000_on_qpdf_wipes:
  "(\<lambda>r. status (fst r) = Some 500 \<and>
        outline (trace (snd r)) =
          [(''writeFileSync'', True), (''writeFileSync'', True), (''convert'', True),
           (''pdftk'', False), (''qpdf'', False), (''writeFileSync'', False),
           (''copyFileSync'', False)])
     (merge_pdf_layers_part000 (sample_env (qpdf_wipes (path_join TEMP_DIR ''job-1'')))
        both_uploads (start empty_world))"
  apply (rule wpI [where P = "\<lambda>r. status (fst r) = Some 500 \<and>
        outline (trace (snd r)) =
          [(''writeFileSync'', True), (''writeFileSync'', True), (''convert'', True),
           (''pdftk'', False), (''qpdf'', False), (''writeFileSync'', False),
           (''copyFileSync'', False)]"])
  apply (simp only: merge_pdf_layers_part000_def Let_def start_def)
  apply (simp add: both_uploads_def cong: option.case_cong)
  apply (simp only: wp_eval)
  apply (simp only: wipes_post)
  apply (simp only: append.simps simp_thms)
  done

theorem C2_fallback_cascade_witness:
  "files_template both_uploads = Some (pdf ''%PDF-template'') \<and>
   files_artwork both_uploads = Some (png ''PNG-artwork'') \<and>
   follows
     (part000_plan (sample_env (qpdf_wipes (path_join TEMP_DIR ''job-1''))) both_uploads
        (pdf ''%PDF-template'') (png ''PNG-artwork''))
     (steps (trace (snd (merge_pdf_layers_part000
        (sample_env (qpdf_wipes (path_join TEMP_DIR ''job-1''))) both_uploads
        (start empty_world))))) \<and>
   outline (trace (snd (merge_pdf_layers_part000
        (sample_env (qpdf_wipes (path_join TEMP_DIR ''job-1''))) both_uploads
        (start empty_world)))) =
     [(''writeFileSync'', True), (''writeFileSync'', True), (''convert'', True),
      (''pdftk'', False), (''qpdf'', False), (''writeFileSync'', False),
      (''copyFileSync'', False)] \<and>
   status (fst (merge_pdf_layers_part000
        (sample_env (qpdf_wipes (path_join TEMP_DIR ''job-1''))) both_uploads
        (start empty_world))) = Some 500"
proof -
  have template: "files_template both_uploads = Some (pdf ''%PDF-template'')"
    and artwork: "files_artwork both_uploads = Some (png ''PNG-artwork'')"
    by (simp_all add: both_uploads_def)
  from C2_fallback_cascade [OF template artwork,
      of "sample_env (qpdf_wipes (path_join TEMP_DIR ''job-1''))" empty_world]
    part000_on_qpdf_wipes template artwork
  show ?thesis by blast
qed

subsection \<open>The three files compared\<close>

text \<open>The copies of the overlay and of the create-layered handler differ in the line numbers
  of their \<^verbatim>\<open>execSync\<close> calls only.\<close>

lemma overlay_server_railway:
  "sim unlabel (overlay_artwork_server e req) (overlay_artwork_railway e req)"
  unfolding overlay_artwork_server_def overlay_artwork_railway_def Let_def
  by (intro sim_rules) simp_all

lemma overlay_server_part000:
  "sim unlabel (overlay_artwork_server e req) (overlay_artwork_part000 e req)"
  unfolding overlay_artwork_server_def overlay_artwork_part000_def Let_def
  by (intro sim_rules) simp_all

lemma create_server_railway:
  "sim unlabel (create_layered_pdf_server e req) (create_layered_pdf_railway e req)"
  unfolding create_layered_pdf_server_def create_layered_pdf_railway_def Let_def
  by (intro sim_rules) simp_all

lemma create_server_part000:
  "sim unlabel (create_layered_pdf_server e req) (create_layered_pdf_part000 e req)"
  unfolding create_layered_pdf_server_def create_layered_pdf_part000_def Let_def
  by (intro sim_rules) simp_all

text \<open>The merge handlers on the machine with ImageMagick and qpdf only: server.js fails on
  Ghostscript; railway-api/server.js falls back to \<^verbatim>\<open>convert\<close> and merges with qpdf.\<close>

lemma qpdf_machine_tool:
  "tool (sample_env (qpdf_machine out)) c w =
     (if binary_of c = ''qpdf'' then (Ok [], w\<lparr>files := (files w)(out \<mapsto> ''%PDF-merged'')\<rparr>)
      else if binary_of c = ''convert'' then (Ok [], w)
      else (Failed (binary_of c @ '': not found''), w))"
  by (simp add: sample_env_def qpdf_machine_def)

lemma sample_output_path:
  "path_join (path_join TEMP_DIR (uuidv4 (sample_env f))) ''output.pdf'' = sample_output"
  by (simp add: path_join_def TEMP_DIR_def sample_env_def sample_output_def)

lemma exists_written: "exists_in (w\<lparr>files := (files w)(p \<mapsto> b)\<rparr>) p"
  by (simp add: exists_in_def)

lemma read_written: "files (w\<lparr>files := (files w)(p \<mapsto> b)\<rparr>) p = Some b"
  by simp

lemmas machine_post =
  qpdf_machine_tool sample_output_path binaries eval_post status.simps exists_written
  read_written programs_Nil programs_Exec programs_Write programs_Read programs_Copy
  programs_Log

lemma server_on_qpdf_machine:
  "(\<lambda>r. status (fst r) = Some 500 \<and> programs (trace (snd r)) = [''convert'', ''gs'', ''gs''])
     (merge_pdf_layers_server (sample_env (qpdf_machine sample_output)) both_uploads
        (start empty_world))"
  apply (rule wpI [where P = "\<lambda>r. status (fst r) = Some 500 \<and>
     programs (trace (snd r)) = [''convert'', ''gs'', ''gs'']"])
  apply (simp only: merge_pdf_layers_server_def Let_def start_def)
  apply (simp add: both_uploads_def cong: option.case_cong)
  apply (simp only: wp_eval)
  apply (simp only: machine_post)
  apply (simp only: append.simps simp_thms)
  done

lemma railway_on_qpdf_machine:
  "(\<lambda>r. status (fst r) = Some 200 \<and>
        programs (trace (snd r)) = [''convert'', ''gs'', ''convert'', ''qpdf''])
     (merge_pdf_layers_railway (sample_env (qpdf_machine sample_output)) both_uploads
        (start empty_world))"
  apply (rule wpI [where P = "\<lambda>r. status (fst r) = Some 200 \<and>
     programs (trace (snd r)) = [''convert'', ''gs'', ''convert'', ''qpdf'']"])
  apply (simp only: merge_pdf_layers_railway_def Let_def start_def)
  apply (simp add: both_uploads_def cong: option.case_cong)
  apply (simp only: wp_eval)
  apply (simp only: machine_post)
  apply (simp only: append.simps simp_thms)
  done

text \<open>
  \<^bold>\<open>C3.\<close> The claim: for every request, the handlers of each shared endpoint in the three
  files perform the same sequence of external-tool strategies and return the same response.
  It fails for POST /api/merge-pdf-layers. On a machine with ImageMagick and qpdf but without
  Ghostscript, the request with a template and a PNG artwork is answered 500 by server.js,
  after \<^verbatim>\<open>convert\<close>, \<^verbatim>\<open>gs\<close>, \<^verbatim>\<open>gs\<close>, and 200 by railway-api/server.js, after \<^verbatim>\<open>convert\<close>,
  \<^verbatim>\<open>gs\<close>, \<^verbatim>\<open>convert\<close>, \<^verbatim>\<open>qpdf\<close>.
\<close>

theorem C3_counterexample:
  "status (fst (merge_pdf_layers_server (sample_env (qpdf_machine sample_output)) both_uploads
     (start empty_world))) = Some 500 \<and>
   status (fst (merge_pdf_layers_railway (sample_env (qpdf_machine sample_output)) both_uploads
     (start empty_world))) = Some 200 \<and>
   programs (trace (snd (merge_pdf_layers_server (sample_env (qpdf_machine sample_output))
     both_uploads (start empty_world)))) = [''convert'', ''gs'', ''gs''] \<and>
   programs (trace (snd (merge_pdf_layers_railway (sample_env (qpdf_machine sample_output))
     both_uploads (start empty_world)))) = [''convert'', ''gs'', ''convert'', ''qpdf'']"
  using server_on_qpdf_machine railway_on_qpdf_machine by simp

text \<open>
  \<^bold>\<open>C3, amended.\<close> The handlers of POST /api/overlay-artwork and of
  POST /api/create-layered-pdf are the same in the three files: for every request they run the
  same commands with the same outcomes, write and read the same files, print the same lines,
  leave the same file system and return the same response. The handlers of
  POST /api/merge-pdf-layers agree on the requests that fail upload validation; on the other
  requests each file runs strategies of its own.
\<close>

theorem C3_shared_handlers_agree:
  "agree unlabel (overlay_artwork_server e req (start w)) (overlay_artwork_railway e req (start w)) \<and>
   agree unlabel (overlay_artwork_server e req (start w)) (overlay_artwork_part000 e req (start w)) \<and>
   agree unlabel (create_layered_pdf_server e req (start w))
     (create_layered_pdf_railway e req (start w)) \<and>
   agree unlabel (create_layered_pdf_server e req (start w))
     (create_layered_pdf_part000 e req (start w)) \<and>
   (files_template req = None \<or> files_artwork req = None \<longrightarrow>
      merge_pdf_layers_server e req (start w) = merge_pdf_layers_railway e req (start w) \<and>
      merge_pdf_layers_server e req (start w) = merge_pdf_layers_part000 e req (start w))"
proof (intro conjI impI)
  show "agree unlabel (overlay_artwork_server e req (start w))
          (overlay_artwork_railway e req (start w))"
    by (rule sim_agree [OF overlay_server_railway])
  show "agree unlabel (overlay_artwork_server e req (start w))
          (overlay_artwork_part000 e req (start w))"
    by (rule sim_agree [OF overlay_server_part000])
  show "agree unlabel (create_layered_pdf_server e req (start w))
          (create_layered_pdf_railway e req (start w))"
    by (rule sim_agree [OF create_server_railway])
  show "agree unlabel (create_layered_pdf_server e req (start w))
          (create_layered_pdf_part000 e req (start w))"
    by (rule sim_agree [OF create_server_part000])
next
  assume missing: "files_template req = None \<or> files_artwork req = None"
  show "merge_pdf_layers_server e req (start w) = merge_pdf_layers_railway e req (start w)"
    by (simp add: merge_server_400 [OF missing] merge_railway_400 [OF missing])
  show "merge_pdf_layers_server e req (start w) = merge_pdf_layers_part000 e req (start w)"
    by (simp add: merge_server_400 [OF missing] merge_part000_400 [OF missing])
qed

theorem C3_shared_handlers_agree_witness:
  "agree unlabel
     (overlay_artwork_server (sample_env inert_tools) no_uploads (start empty_world))
     (overlay_artwork_railway (sample_env inert_tools) no_uploads (start empty_world)) \<and>
   agree unlabel
     (create_layered_pdf_server (sample_env inert_tools) no_uploads (start empty_world))
     (create_layered_pdf_part000 (sample_env inert_tools) no_uploads (start empty_world)) \<and>
   merge_pdf_layers_server (sample_env inert_tools) no_uploads (start empty_world) =
     merge_pdf_layers_railway (sample_env inert_tools) no_uploads (start empty_world) \<and>
   merge_pdf_layers_server (sample_env inert_tools) no_uploads (start empty_world) =
     merge_pdf_layers_part000 (sample_env inert_tools) no_uploads (start empty_world)"
proof -
  have missing: "files_template no_uploads = None \<or> files_artwork no_uploads = None"
    by (simp add: no_uploads_def)
  from C3_shared_handlers_agree [of "sample_env inert_tools" no_uploads empty_world] missing
  show ?thesis by blast
qed

subsection \<open>The numeric parameters\<close>

lemma js_or_from_field: "from_field e req k d (js_or (parseFloat e (body req k)) d)"
  by (simp add: from_field_def js_or_def)

lemma runs_only_Nil: "runs_only cmds [] = True"
  by (simp add: runs_only_def)

lemma runs_only_Exec: "runs_only cmds (tr @ [Exec l c ok]) = (runs_only cmds tr \<and> c \<in> set cmds)"
  by (simp add: runs_only_def execs_append)

lemma runs_only_Write: "runs_only cmds (tr @ [Write p b ok]) = runs_only cmds tr"
  by (simp add: runs_only_def execs_append)

lemma runs_only_Read: "runs_only cmds (tr @ [Read p b]) = runs_only cmds tr"
  by (simp add: runs_only_def execs_append)

lemma runs_only_Copy: "runs_only cmds (tr @ [Copy p q ok]) = runs_only cmds tr"
  by (simp add: runs_only_def execs_append)

lemma runs_only_Log: "runs_only cmds (tr @ [Log x]) = runs_only cmds tr"
  by (simp add: runs_only_def execs_append)

lemmas runs_only_post =
  snd_conv state.simps runs_only_Nil runs_only_Exec runs_only_Write runs_only_Read
  runs_only_Copy runs_only_Log list.set insert_iff simp_thms if_cancel

lemma server_runs_only:
  assumes "files_template req = Some t" "files_artwork req = Some a"
  shows "runs_only
     (server_commands e (jobDir_of e) (getExtension (mimetype a))
        (js_or (parseFloat e (body req ''width'')) (Num 612))
        (js_or (parseFloat e (body req ''height'')) (Num 792)))
     (trace (snd (merge_pdf_layers_server e req (start w))))"
  apply (rule wpI [where P = "\<lambda>r. runs_only
     (server_commands e (jobDir_of e) (getExtension (mimetype a))
        (js_or (parseFloat e (body req ''width'')) (Num 612))
        (js_or (parseFloat e (body req ''height'')) (Num 792))) (trace (snd r))"])
  apply (simp only: merge_pdf_layers_server_def Let_def start_def assms option.case)
  apply (simp only: wp_rules)
  apply (simp only: server_commands_def jobDir_of_def runs_only_post)
  done

lemma railway_runs_only:
  assumes "files_template req = Some t" "files_artwork req = Some a"
  shows "runs_only
     (railway_commands e (jobDir_of e) (getExtension (mimetype a))
        (js_or (parseFloat e (body req ''pageWidth''))
           (js_or (parseFloat e (body req ''width'')) (Num 612)))
        (js_or (parseFloat e (body req ''pageHeight''))
           (js_or (parseFloat e (body req ''height'')) (Num 792))))
     (trace (snd (merge_pdf_layers_railway e req (start w))))"
  apply (rule wpI [where P = "\<lambda>r. runs_only
     (railway_commands e (jobDir_of e) (getExtension (mimetype a))
        (js_or (parseFloat e (body req ''pageWidth''))
           (js_or (parseFloat e (body req ''width'')) (Num 612)))
        (js_or (parseFloat e (body req ''pageHeight''))
           (js_or (parseFloat e (body req ''height'')) (Num 792)))) (trace (snd r))"])
  apply (simp only: merge_pdf_layers_railway_def Let_def start_def assms option.case)
  apply (simp only: wp_rules)
  apply (simp only: railway_commands_def jobDir_of_def runs_only_post)
  done

lemma part000_runs_only:
  assumes "files_template req = Some t" "files_artwork req = Some a"
  shows "runs_only
     (part000_commands e (jobDir_of e) (getExtension (mimetype a))
        (js_or (parseFloat e (body req ''pageWidth''))
           (js_or (parseFloat e (body req ''width'')) (Num 612)))
        (js_or (parseFloat e (body req ''pageHeight''))
           (js_or (parseFloat e (body req ''height'')) (Num 792))))
     (trace (snd (merge_pdf_layers_part000 e req (start w))))"
  apply (rule wpI [where P = "\<lambda>r. runs_only
     (part000_commands e (jobDir_of e) (getExtension (mimetype a))
        (js_or (parseFloat e (body req ''pageWidth''))
           (js_or (parseFloat e (body req ''width'')) (Num 612)))
        (js_or (parseFloat e (body req ''pageHeight''))
           (js_or (parseFloat e (body req ''height'')) (Num 792)))) (trace (snd r))"])
  apply (simp only: merge_pdf_layers_part000_def Let_def start_def assms option.case)
  apply (simp only: wp_rules)
  apply (simp only: part000_commands_def jobDir_of_def runs_only_post)
  done

lemmas not_400_post =
  fst_conv status.simps option.inject numeral_eq_iff num.simps simp_thms if_cancel

lemma server_not_400:
  assumes "files_template req = Some t" "files_artwork req = Some a"
  shows "status (fst (merge_pdf_layers_server e req (start w))) \<noteq> Some 400"
  apply (rule wpI [where P = "\<lambda>r. status (fst r) \<noteq> Some 400"])
  apply (simp only: merge_pdf_layers_server_def Let_def start_def assms option.case)
  apply (simp only: wp_rules)
  apply (simp only: not_400_post)
  done

lemma railway_not_400:
  assumes "files_template req = Some t" "files_artwork req = Some a"
  shows "status (fst (merge_pdf_layers_railway e req (start w))) \<noteq> Some 400"
  apply (rule wpI [where P = "\<lambda>r. status (fst r) \<noteq> Some 400"])
  apply (simp only: merge_pdf_layers_railway_def Let_def start_def assms option.case)
  apply (simp only: wp_rules)
  apply (simp only: not_400_post)
  done

lemma part000_not_400:
  assumes "files_template req = Some t" "files_artwork req = Some a"
  shows "status (fst (merge_pdf_layers_part000 e req (start w))) \<noteq> Some 400"
  apply (rule wpI [where P = "\<lambda>r. status (fst r) \<noteq> Some 400"])
  apply (simp only: merge_pdf_layers_part000_def Let_def start_def assms option.case)
  apply (simp only: wp_rules)
  apply (simp only: not_400_post)
  done

text \<open>A field that does not parse to a truthy number counts as a missing one.\<close>

lemma server_malformed:
  assumes "\<not> truthy (parseFloat e (Some s))" "\<not> truthy (parseFloat e None)"
  shows
    "merge_pdf_layers_server e (req\<lparr>body := (body req)(''x'' \<mapsto> s)\<rparr>) =
       merge_pdf_layers_server e (req\<lparr>body := (body req)(''x'' := None)\<rparr>)"
    "merge_pdf_layers_server e (req\<lparr>body := (body req)(''y'' \<mapsto> s)\<rparr>) =
       merge_pdf_layers_server e (req\<lparr>body := (body req)(''y'' := None)\<rparr>)"
    "merge_pdf_layers_server e (req\<lparr>body := (body req)(''width'' \<mapsto> s)\<rparr>) =
       merge_pdf_layers_server e (req\<lparr>body := (body req)(''width'' := None)\<rparr>)"
    "merge_pdf_layers_server e (req\<lparr>body := (body req)(''height'' \<mapsto> s)\<rparr>) =
       merge_pdf_layers_server e (req\<lparr>body := (body req)(''height'' := None)\<rparr>)"
    "merge_pdf_layers_server e (req\<lparr>body := (body req)(''pageWidth'' \<mapsto> s)\<rparr>) =
       merge_pdf_layers_server e (req\<lparr>body := (body req)(''pageWidth'' := None)\<rparr>)"
    "merge_pdf_layers_server e (req\<lparr>body := (body req)(''pageHeight'' \<mapsto> s)\<rparr>) =
       merge_pdf_layers_server e (req\<lparr>body := (body req)(''pageHeight'' := None)\<rparr>)"
  unfolding merge_pdf_layers_server_def Let_def
  by (simp_all add: js_or_falsy assms cong: option.case_cong)

lemma railway_malformed:
  assumes "\<not> truthy (parseFloat e (Some s))" "\<not> truthy (parseFloat e None)"
  shows
    "merge_pdf_layers_railway e (req\<lparr>body := (body req)(''x'' \<mapsto> s)\<rparr>) =
       merge_pdf_layers_railway e (req\<lparr>body := (body req)(''x'' := None)\<rparr>)"
    "merge_pdf_layers_railway e (req\<lparr>body := (body req)(''y'' \<mapsto> s)\<rparr>) =
       merge_pdf_layers_railway e (req\<lparr>body := (body req)(''y'' := None)\<rparr>)"
    "merge_pdf_layers_railway e (req\<lparr>body := (body req)(''width'' \<mapsto> s)\<rparr>) =
       merge_pdf_layers_railway e (req\<lparr>body := (body req)(''width'' := None)\<rparr>)"
    "merge_pdf_layers_railway e (req\<lparr>body := (body req)(''height'' \<mapsto> s)\<rparr>) =
       merge_pdf_layers_railway e (req\<lparr>body := (body req)(''height'' := None)\<rparr>)"
    "merge_pdf_layers_railway e (req\<lparr>body := (body req)(''pageWidth'' \<mapsto> s)\<rparr>) =
       merge_pdf_layers_railway e (req\<lparr>body := (body req)(''pageWidth'' := None)\<rparr>)"
    "merge_pdf_layers_railway e (req\<lparr>body := (body req)(''pageHeight'' \<mapsto> s)\<rparr>) =
       merge_pdf_layers_railway e (req\<lparr>body := (body req)(''pageHeight'' := None)\<rparr>)"
  unfolding merge_pdf_layers_railway_def Let_def
  by (simp_all add: js_or_falsy assms cong: option.case_cong)

lemma part000_malformed:
  assumes "\<not> truthy (parseFloat e (Some s))" "\<not> truthy (parseFloat e None)"
  shows
    "merge_pdf_layers_part000 e (req\<lparr>body := (body req)(''x'' \<mapsto> s)\<rparr>) =
       merge_pdf_layers_part000 e (req\<lparr>body := (body req)(''x'' := None)\<rparr>)"
    "merge_pdf_layers_part000 e (req\<lparr>body := (body req)(''y'' \<mapsto> s)\<rparr>) =
       merge_pdf_layers_part000 e (req\<lparr>body := (body req)(''y'' := None)\<rparr>)"
    "merge_pdf_layers_part000 e (req\<lparr>body := (body req)(''width'' \<mapsto> s)\<rparr>) =
       merge_pdf_layers_part000 e (req\<lparr>body := (body req)(''width'' := None)\<rparr>)"
    "merge_pdf_layers_part000 e (req\<lparr>body := (body req)(''height'' \<mapsto> s)\<rparr>) =
       merge_pdf_layers_part000 e (req\<lparr>body := (body req)(''height'' := None)\<rparr>)"
    "merge_pdf_layers_part000 e (req\<lparr>body := (body req)(''pageWidth'' \<mapsto> s)\<rparr>) =
       merge_pdf_layers_part000 e (req\<lparr>body := (body req)(''pageWidth'' := None)\<rparr>)"
    "merge_pdf_layers_part000 e (req\<lparr>body := (body req)(''pageHeight'' \<mapsto> s)\<rparr>) =
       merge_pdf_layers_part000 e (req\<lparr>body := (body req)(''pageHeight'' := None)\<rparr>)"
  unfolding merge_pdf_layers_part000_def Let_def
  by (simp_all add: js_or_falsy assms cong: option.case_cong)

text \<open>The other two endpoints: their one command line holds no numeric parameter.\<close>

lemma overlay_server_runs_only:
  assumes "files_template req = Some t" "files_artwork req = Some a"
  shows "runs_only
     [overlay_gsCmd (path_join (jobDir_of e) ''output.pdf'') (path_join (jobDir_of e) ''template.pdf'')]
     (trace (snd (overlay_artwork_server e req (start w))))"
  apply (rule wpI [where P = "\<lambda>r. runs_only
     [overlay_gsCmd (path_join (jobDir_of e) ''output.pdf'') (path_join (jobDir_of e) ''template.pdf'')] (trace (snd r))"])
  apply (simp only: overlay_artwork_server_def Let_def start_def assms option.case)
  apply (simp only: wp_rules)
  apply (simp only: jobDir_of_def runs_only_post)
  done

lemma overlay_server_not_400:
  assumes "files_template req = Some t" "files_artwork req = Some a"
  shows "status (fst (overlay_artwork_server e req (start w))) \<noteq> Some 400"
  apply (rule wpI [where P = "\<lambda>r. status (fst r) \<noteq> Some 400"])
  apply (simp only: overlay_artwork_server_def Let_def start_def assms option.case)
  apply (simp only: wp_rules)
  apply (simp only: not_400_post)
  done

lemma overlay_server_malformed:
  assumes "\<not> truthy (parseFloat e (Some s))" "\<not> truthy (parseFloat e None)"
  shows
    "overlay_artwork_server e (req\<lparr>body := (body req)(''x'' \<mapsto> s)\<rparr>) =
       overlay_artwork_server e (req\<lparr>body := (body req)(''x'' := None)\<rparr>)"
    "overlay_artwork_server e (req\<lparr>body := (body req)(''y'' \<mapsto> s)\<rparr>) =
       overlay_artwork_server e (req\<lparr>body := (body req)(''y'' := None)\<rparr>)"
    "overlay_artwork_server e (req\<lparr>body := (body req)(''width'' \<mapsto> s)\<rparr>) =
       overlay_artwork_server e (req\<lparr>body := (body req)(''width'' := None)\<rparr>)"
    "overlay_artwork_server e (req\<lparr>body := (body req)(''height'' \<mapsto> s)\<rparr>) =
       overlay_artwork_server e (req\<lparr>body := (body req)(''height'' := None)\<rparr>)"
    "overlay_artwork_server e (req\<lparr>body := (body req)(''pageWidth'' \<mapsto> s)\<rparr>) =
       overlay_artwork_server e (req\<lparr>body := (body req)(''pageWidth'' := None)\<rparr>)"
    "overlay_artwork_server e (req\<lparr>body := (body req)(''pageHeight'' \<mapsto> s)\<rparr>) =
       overlay_artwork_server e (req\<lparr>body := (body req)(''pageHeight'' := None)\<rparr>)"
  unfolding overlay_artwork_server_def Let_def
  by (simp_all add: js_or_falsy assms cong: option.case_cong)

lemma overlay_railway_runs_only:
  assumes "files_template req = Some t" "files_artwork req = Some a"
  shows "runs_only
     [overlay_gsCmd (path_join (jobDir_of e) ''output.pdf'') (path_join (jobDir_of e) ''template.pdf'')]
     (trace (snd (overlay_artwork_railway e req (start w))))"
  apply (rule wpI [where P = "\<lambda>r. runs_only
     [overlay_gsCmd (path_join (jobDir_of e) ''output.pdf'') (path_join (jobDir_of e) ''template.pdf'')] (trace (snd r))"])
  apply (simp only: overlay_artwork_railway_def Let_def start_def assms option.case)
  apply (simp only: wp_rules)
  apply (simp only: jobDir_of_def runs_only_post)
  done

lemma overlay_railway_not_400:
  assumes "files_template req = Some t" "files_artwork req = Some a"
  shows "status (fst (overlay_artwork_railway e req (start w))) \<noteq> Some 400"
  apply (rule wpI [where P = "\<lambda>r. status (fst r) \<noteq> Some 400"])
  apply (simp only: overlay_artwork_railway_def Let_def start_def assms option.case)
  apply (simp only: wp_rules)
  apply (simp only: not_400_post)
  done

lemma overlay_railway_malformed:
  assumes "\<not> truthy (parseFloat e (Some s))" "\<not> truthy (parseFloat e None)"
  shows
    "overlay_artwork_railway e (req\<lparr>body := (body req)(''x'' \<mapsto> s)\<rparr>) =
       overlay_artwork_railway e (req\<lparr>body := (body req)(''x'' := None)\<rparr>)"
    "overlay_artwork_railway e (req\<lparr>body := (body req)(''y'' \<mapsto> s)\<rparr>) =
       overlay_artwork_railway e (req\<lparr>body := (body req)(''y'' := None)\<rparr>)"
    "overlay_artwork_railway e (req\<lparr>body := (body req)(''width'' \<mapsto> s)\<rparr>) =
       overlay_artwork_railway e (req\<lparr>body := (body req)(''width'' := None)\<rparr>)"
    "overlay_artwork_railway e (req\<lparr>body := (body req)(''height'' \<mapsto> s)\<rparr>) =
       overlay_artwork_railway e (req\<lparr>body := (body req)(''height'' := None)\<rparr>)"
    "overlay_artwork_railway e (req\<lparr>body := (body req)(''pageWidth'' \<mapsto> s)\<rparr>) =
       overlay_artwork_railway e (req\<lparr>body := (body req)(''pageWidth'' := None)\<rparr>)"
    "overlay_artwork_railway e (req\<lparr>body := (body req)(''pageHeight'' \<mapsto> s)\<rparr>) =
       overlay_artwork_railway e (req\<lparr>body := (body req)(''pageHeight'' := None)\<rparr>)"
  unfolding overlay_artwork_railway_def Let_def
  by (simp_all add: js_or_falsy assms cong: option.case_cong)

lemma overlay_part000_runs_only:
  assumes "files_template req = Some t" "files_artwork req = Some a"
  shows "runs_only
     [overlay_gsCmd (path_join (jobDir_of e) ''output.pdf'') (path_join (jobDir_of e) ''template.pdf'')]
     (trace (snd (overlay_artwork_part000 e req (start w))))"
  apply (rule wpI [where P = "\<lambda>r. runs_only
     [overlay_gsCmd (path_join (jobDir_of e) ''output.pdf'') (path_join (jobDir_of e) ''template.pdf'')] (trace (snd r))"])
  apply (simp only: overlay_artwork_part000_def Let_def start_def assms option.case)
  apply (simp only: wp_rules)
  apply (simp only: jobDir_of_def runs_only_post)
  done

lemma overlay_part000_not_400:
  assumes "files_template req = Some t" "files_artwork req = Some a"
  shows "status (fst (overlay_artwork_part000 e req (start w))) \<noteq> Some 400"
  apply (rule wpI [where P = "\<lambda>r. status (fst r) \<noteq> Some 400"])
  apply (simp only: overlay_artwork_part000_def Let_def start_def assms option.case)
  apply (simp only: wp_rules)
  apply (simp only: not_400_post)
  done

lemma overlay_part000_malformed:
  assumes "\<not> truthy (parseFloat e (Some s))" "\<not> truthy (parseFloat e None)"
  shows
    "overlay_artwork_part000 e (req\<lparr>body := (body req)(''x'' \<mapsto> s)\<rparr>) =
       overlay_artwork_part000 e (req\<lparr>body := (body req)(''x'' := None)\<rparr>)"
    "overlay_artwork_part000 e (req\<lparr>body := (body req)(''y'' \<mapsto> s)\<rparr>) =
       overlay_artwork_part000 e (req\<lparr>body := (body req)(''y'' := None)\<rparr>)"
    "overlay_artwork_part000 e (req\<lparr>body := (body req)(''width'' \<mapsto> s)\<rparr>) =
       overlay_artwork_part000 e (req\<lparr>body := (body req)(''width'' := None)\<rparr>)"
    "overlay_artwork_part000 e (req\<lparr>body := (body req)(''height'' \<mapsto> s)\<rparr>) =
       overlay_artwork_part000 e (req\<lparr>body := (body req)(''height'' := None)\<rparr>)"
    "overlay_artwork_part000 e (req\<lparr>body := (body req)(''pageWidth'' \<mapsto> s)\<rparr>) =
       overlay_artwork_part000 e (req\<lparr>body := (body req)(''pageWidth'' := None)\<rparr>)"
    "overlay_artwork_part000 e (req\<lparr>body := (body req)(''pageHeight'' \<mapsto> s)\<rparr>) =
       overlay_artwork_part000 e (req\<lparr>body := (body req)(''pageHeight'' := None)\<rparr>)"
  unfolding overlay_artwork_part000_def Let_def
  by (simp_all add: js_or_falsy assms cong: option.case_cong)

lemma create_server_runs_only:
  assumes "files_template req = Some t" "files_artwork req = Some a"
  shows "runs_only
     [layered_gsCmd (path_join (jobDir_of e) ''output.pdf'') (path_join (jobDir_of e) ''layered.ps'')]
     (trace (snd (create_layered_pdf_server e req (start w))))"
  apply (rule wpI [where P = "\<lambda>r. runs_only
     [layered_gsCmd (path_join (jobDir_of e) ''output.pdf'') (path_join (jobDir_of e) ''layered.ps'')] (trace (snd r))"])
  apply (simp only: create_layered_pdf_server_def Let_def start_def assms option.case)
  apply (simp only: wp_rules)
  apply (simp only: jobDir_of_def runs_only_post)
  done

lemma create_server_not_400:
  assumes "files_template req = Some t" "files_artwork req = Some a"
  shows "status (fst (create_layered_pdf_server e req (start w))) \<noteq> Some 400"
  apply (rule wpI [where P = "\<lambda>r. status (fst r) \<noteq> Some 400"])
  apply (simp only: create_layered_pdf_server_def Let_def start_def assms option.case)
  apply (simp only: wp_rules)
  apply (simp only: not_400_post)
  done

lemma create_server_malformed:
  assumes "\<not> truthy (parseFloat e (Some s))" "\<not> truthy (parseFloat e None)"
  shows
    "create_layered_pdf_server e (req\<lparr>body := (body req)(''x'' \<mapsto> s)\<rparr>) =
       create_layered_pdf_server e (req\<lparr>body := (body req)(''x'' := None)\<rparr>)"
    "create_layered_pdf_server e (req\<lparr>body := (body req)(''y'' \<mapsto> s)\<rparr>) =
       create_layered_pdf_server e (req\<lparr>body := (body req)(''y'' := None)\<rparr>)"
    "create_layered_pdf_server e (req\<lparr>body := (body req)(''width'' \<mapsto> s)\<rparr>) =
       create_layered_pdf_server e (req\<lparr>body := (body req)(''width'' := None)\<rparr>)"
    "create_layered_pdf_server e (req\<lparr>body := (body req)(''height'' \<mapsto> s)\<rparr>) =
       create_layered_pdf_server e (req\<lparr>body := (body req)(''height'' := None)\<rparr>)"
    "create_layered_pdf_server e (req\<lparr>body := (body req)(''pageWidth'' \<mapsto> s)\<rparr>) =
       create_layered_pdf_server e (req\<lparr>body := (body req)(''pageWidth'' := None)\<rparr>)"
    "create_layered_pdf_server e (req\<lparr>body := (body req)(''pageHeight'' \<mapsto> s)\<rparr>) =
       create_layered_pdf_server e (req\<lparr>body := (body req)(''pageHeight'' := None)\<rparr>)"
  unfolding create_layered_pdf_server_def Let_def
  by (simp_all add: js_or_falsy assms cong: option.case_cong)

lemma create_railway_runs_only:
  assumes "files_template req = Some t" "files_artwork req = Some a"
  shows "runs_only
     [layered_gsCmd (path_join (jobDir_of e) ''output.pdf'') (path_join (jobDir_of e) ''layered.ps'')]
     (trace (snd (create_layered_pdf_railway e req (start w))))"
  apply (rule wpI [where P = "\<lambda>r. runs_only
     [layered_gsCmd (path_join (jobDir_of e) ''output.pdf'') (path_join (jobDir_of e) ''layered.ps'')] (trace (snd r))"])
  apply (simp only: create_layered_pdf_railway_def Let_def start_def assms option.case)
  apply (simp only: wp_rules)
  apply (simp only: jobDir_of_def runs_only_post)
  done

lemma create_railway_not_400:
  assumes "files_template req = Some t" "files_artwork req = Some a"
  shows "status (fst (create_layered_pdf_railway e req (start w))) \<noteq> Some 400"
  apply (rule wpI [where P = "\<lambda>r. status (fst r) \<noteq> Some 400"])
  apply (simp only: create_layered_pdf_railway_def Let_def start_def assms option.case)
  apply (simp only: wp_rules)
  apply (simp only: not_400_post)
  done

lemma create_railway_malformed:
  assumes "\<not> truthy (parseFloat e (Some s))" "\<not> truthy (parseFloat e None)"
  shows
    "create_layered_pdf_railway e (req\<lparr>body := (body req)(''x'' \<mapsto> s)\<rparr>) =
       create_layered_pdf_railway e (req\<lparr>body := (body req)(''x'' := None)\<rparr>)"
    "create_layered_pdf_railway e (req\<lparr>body := (body req)(''y'' \<mapsto> s)\<rparr>) =
       create_layered_pdf_railway e (req\<lparr>body := (body req)(''y'' := None)\<rparr>)"
    "create_layered_pdf_railway e (req\<lparr>body := (body req)(''width'' \<mapsto> s)\<rparr>) =
       create_layered_pdf_railway e (req\<lparr>body := (body req)(''width'' := None)\<rparr>)"
    "create_layered_pdf_railway e (req\<lparr>body := (body req)(''height'' \<mapsto> s)\<rparr>) =
       create_layered_pdf_railway e (req\<lparr>body := (body req)(''height'' := None)\<rparr>)"
    "create_layered_pdf_railway e (req\<lparr>body := (body req)(''pageWidth'' \<mapsto> s)\<rparr>) =
       create_layered_pdf_railway e (req\<lparr>body := (body req)(''pageWidth'' := None)\<rparr>)"
    "create_layered_pdf_railway e (req\<lparr>body := (body req)(''pageHeight'' \<mapsto> s)\<rparr>) =
       create_layered_pdf_railway e (req\<lparr>body := (body req)(''pageHeight'' := None)\<rparr>)"
  unfolding create_layered_pdf_railway_def Let_def
  by (simp_all add: js_or_falsy assms cong: option.case_cong)

lemma create_part000_runs_only:
  assumes "files_template req = Some t" "files_artwork req = Some a"
  shows "runs_only
     [layered_gsCmd (path_join (jobDir_of e) ''output.pdf'') (path_join (jobDir_of e) ''layered.ps'')]
     (trace (snd (create_layered_pdf_part000 e req (start w))))"
  apply (rule wpI [where P = "\<lambda>r. runs_only
     [layered_gsCmd (path_join (jobDir_of e) ''output.pdf'') (path_join (jobDir_of e) ''layered.ps'')] (trace (snd r))"])
  apply (simp only: create_layered_pdf_part000_def Let_def start_def assms option.case)
  apply (simp only: wp_rules)
  apply (simp only: jobDir_of_def runs_only_post)
  done

lemma create_part000_not_400:
  assumes "files_template req = Some t" "files_artwork req = Some a"
  shows "status (fst (create_layered_pdf_part000 e req (start w))) \<noteq> Some 400"
  apply (rule wpI [where P = "\<lambda>r. status (fst r) \<noteq> Some 400"])
  apply (simp only: create_layered_pdf_part000_def Let_def start_def assms option.case)
  apply (simp only: wp_rules)
  apply (simp only: not_400_post)
  done

lemma create_part000_malformed:
  assumes "\<not> truthy (parseFloat e (Some s))" "\<not> truthy (parseFloat e None)"
  shows
    "create_layered_pdf_part000 e (req\<lparr>body := (body req)(''x'' \<mapsto> s)\<rparr>) =
       create_layered_pdf_part000 e (req\<lparr>body := (body req)(''x'' := None)\<rparr>)"
    "create_layered_pdf_part000 e (req\<lparr>body := (body req)(''y'' \<mapsto> s)\<rparr>) =
       create_layered_pdf_part000 e (req\<lparr>body := (body req)(''y'' := None)\<rparr>)"
    "create_layered_pdf_part000 e (req\<lparr>body := (body req)(''width'' \<mapsto> s)\<rparr>) =
       create_layered_pdf_part000 e (req\<lparr>body := (body req)(''width'' := None)\<rparr>)"
    "create_layered_pdf_part000 e (req\<lparr>body := (body req)(''height'' \<mapsto> s)\<rparr>) =
       create_layered_pdf_part000 e (req\<lparr>body := (body req)(''height'' := None)\<rparr>)"
    "create_layered_pdf_part000 e (req\<lparr>body := (body req)(''pageWidth'' \<mapsto> s)\<rparr>) =
       create_layered_pdf_part000 e (req\<lparr>body := (body req)(''pageWidth'' := None)\<rparr>)"
    "create_layered_pdf_part000 e (req\<lparr>body := (body req)(''pageHeight'' \<mapsto> s)\<rparr>) =
       create_layered_pdf_part000 e (req\<lparr>body := (body req)(''pageHeight'' := None)\<rparr>)"
  unfolding create_layered_pdf_part000_def Let_def
  by (simp_all add: js_or_falsy assms cong: option.case_cong)

text \<open>The request with the single field \<^verbatim>\<open>width=500\<close>, run by railway-api/server.js.\<close>

lemma sample_parseFloat_500: "sample_parseFloat (Some ''500'') = Num 500"
  by (simp add: sample_parseFloat_def is_digit_def)

lemma sample_toString_500: "sample_toString (Num 500) = ''500''"
  by (simp add: sample_toString_def digits_of.simps)

lemma resize_to_500:
  "railway_resizeCmd (sample_env f) (Num 500) (Num 792)
     (path_join (path_join TEMP_DIR ''job-1'') ''artwork.pdf'') (path_join TEMP_DIR ''job-1'') =
   resize_to_500"
  by (simp add: railway_resizeCmd_def resize_to_500_def sample_env_def sample_toString_500
      sample_toString_792 path_join_def TEMP_DIR_def)

lemma command_at_Nil: "command_at l [] = None"
  by simp

lemma command_at_append:
  "command_at l (tr @ tr') = (case command_at l tr of Some c \<Rightarrow> Some c | None \<Rightarrow> command_at l tr')"
  by (induction l tr rule: command_at.induct) simp_all

lemma command_at_Exec:
  "command_at l (tr @ [Exec l' c ok]) =
     (case command_at l tr of Some c' \<Rightarrow> Some c' | None \<Rightarrow> if l' = l then Some c else None)"
  by (simp add: command_at_append split: option.splits)

lemma command_at_Write: "command_at l (tr @ [Write p b ok]) = command_at l tr"
  by (simp add: command_at_append split: option.splits)

lemma command_at_Read: "command_at l (tr @ [Read p b]) = command_at l tr"
  by (simp add: command_at_append split: option.splits)

lemma command_at_Copy: "command_at l (tr @ [Copy p q ok]) = command_at l tr"
  by (simp add: command_at_append split: option.splits)

lemma command_at_Log: "command_at l (tr @ [Log x]) = command_at l tr"
  by (simp add: command_at_append split: option.splits)

lemma width_500_run:
  "command_at 133 (trace (snd
     (merge_pdf_layers_railway (sample_env inert_tools) width_500 (start empty_world)))) =
   Some resize_to_500"
  apply (rule wpI [where P = "\<lambda>r. command_at 133 (trace (snd r)) = Some resize_to_500"])
  apply (simp only: merge_pdf_layers_railway_def Let_def start_def)
  apply (simp add: width_500_def both_uploads_def sample_env_def sample_parseFloat_500
      sample_parseFloat_undefined js_or_def cong: option.case_cong)
  apply (simp only: wp_eval)
  apply (simp only: inert_tool [unfolded sample_env_def] env.simps inert_tools_def eval_post
      command_at_Nil command_at_Exec command_at_Write command_at_Read command_at_Copy
      command_at_Log resize_to_500 [unfolded sample_env_def])
  done

text \<open>
  \<^bold>\<open>C5.\<close> The claim: each numeric parameter interpolated into a command line is the
  \<^verbatim>\<open>parseFloat\<close> value of its form field or the fixed default of the endpoint. It fails for
  \<^verbatim>\<open>pageWidth\<close> and \<^verbatim>\<open>pageHeight\<close> of POST /api/merge-pdf-layers in
  railway-api/server.js (and part_000), whose default is the \<^verbatim>\<open>width\<close> and \<^verbatim>\<open>height\<close>
  parameter (lines 99-100). With \<^verbatim>\<open>width=500\<close> and no \<^verbatim>\<open>pageWidth\<close> field, the command of
  line 133 is run with a page width of 500: that is not the \<^verbatim>\<open>parseFloat\<close> value of the
  \<^verbatim>\<open>pageWidth\<close> field, which is NaN, and not 612.
\<close>

theorem C5_counterexample:
  "parseFloat (sample_env inert_tools) (body width_500 ''pageWidth'') = NaN \<and>
   parseFloat (sample_env inert_tools) (body width_500 ''width'') = Num 500 \<and>
   \<not> from_field (sample_env inert_tools) width_500 ''pageWidth'' (Num 612) (Num 500) \<and>
   command_at 133 (trace (snd
     (merge_pdf_layers_railway (sample_env inert_tools) width_500 (start empty_world)))) =
   Some (railway_resizeCmd (sample_env inert_tools) (Num 500) (Num 792)
     (path_join (jobDir_of (sample_env inert_tools)) ''artwork.pdf'')
     (jobDir_of (sample_env inert_tools))) \<and>
   railway_resizeCmd (sample_env inert_tools) (Num 500) (Num 792)
     (path_join (jobDir_of (sample_env inert_tools)) ''artwork.pdf'')
     (jobDir_of (sample_env inert_tools)) = resize_to_500"
  using width_500_run resize_to_500 [of inert_tools]
  by (simp add: width_500_def both_uploads_def sample_env_def sample_parseFloat_500
      sample_parseFloat_undefined from_field_def jobDir_of_def)

text \<open>
  \<^bold>\<open>C5, amended.\<close> In POST /api/merge-pdf-layers each numeric parameter interpolated into a
  command line is the \<^verbatim>\<open>parseFloat\<close> value of its form field or its default. The default of
  \<^verbatim>\<open>width\<close> is 612 and that of \<^verbatim>\<open>height\<close> is 792; the default of \<^verbatim>\<open>pageWidth\<close> is the
  \<^verbatim>\<open>width\<close> parameter and that of \<^verbatim>\<open>pageHeight\<close> the \<^verbatim>\<open>height\<close> parameter. Every command
  run is one of the handler's command lines with these numbers (server.js interpolates
  \<^verbatim>\<open>width\<close> and \<^verbatim>\<open>height\<close>, the other two files \<^verbatim>\<open>pageWidth\<close> and \<^verbatim>\<open>pageHeight\<close>). The one
  command line of POST /api/overlay-artwork and that of POST /api/create-layered-pdf hold no
  numeric parameter. In the nine handlers, no request with both uploads is answered 400, and
  a numeric field whose text does not parse to a truthy number is handled as a missing field
  (given that \<^verbatim>\<open>parseFloat(undefined)\<close> is falsy, as in JavaScript).
\<close>

theorem C5_numeric_parameters:
  assumes template: "files_template req = Some t" and artwork: "files_artwork req = Some a"
  shows
   "(\<exists>width height pageWidth pageHeight.
       from_field e req ''width'' (Num 612) width \<and>
       from_field e req ''height'' (Num 792) height \<and>
       from_field e req ''pageWidth'' width pageWidth \<and>
       from_field e req ''pageHeight'' height pageHeight \<and>
       runs_only (server_commands e (jobDir_of e) (getExtension (mimetype a)) width height)
         (trace (snd (merge_pdf_layers_server e req (start w)))) \<and>
       runs_only
         (railway_commands e (jobDir_of e) (getExtension (mimetype a)) pageWidth pageHeight)
         (trace (snd (merge_pdf_layers_railway e req (start w)))) \<and>
       runs_only
         (part000_commands e (jobDir_of e) (getExtension (mimetype a)) pageWidth pageHeight)
         (trace (snd (merge_pdf_layers_part000 e req (start w))))) \<and>
    runs_only
      [overlay_gsCmd (path_join (jobDir_of e) ''output.pdf'') (path_join (jobDir_of e) ''template.pdf'')]
      (trace (snd (overlay_artwork_server e req (start w)))) \<and>
    runs_only
      [overlay_gsCmd (path_join (jobDir_of e) ''output.pdf'') (path_join (jobDir_of e) ''template.pdf'')]
      (trace (snd (overlay_artwork_railway e req (start w)))) \<and>
    runs_only
      [overlay_gsCmd (path_join (jobDir_of e) ''output.pdf'') (path_join (jobDir_of e) ''template.pdf'')]
      (trace (snd (overlay_artwork_part000 e req (start w)))) \<and>
    runs_only
      [layered_gsCmd (path_join (jobDir_of e) ''output.pdf'') (path_join (jobDir_of e) ''layered.ps'')]
      (trace (snd (create_layered_pdf_server e req (start w)))) \<and>
    runs_only
      [layered_gsCmd (path_join (jobDir_of e) ''output.pdf'') (path_join (jobDir_of e) ''layered.ps'')]
      (trace (snd (create_layered_pdf_railway e req (start w)))) \<and>
    runs_only
      [layered_gsCmd (path_join (jobDir_of e) ''output.pdf'') (path_join (jobDir_of e) ''layered.ps'')]
      (trace (snd (create_layered_pdf_part000 e req (start w)))) \<and>
    status (fst (merge_pdf_layers_server e req (start w))) \<noteq> Some 400 \<and>
    status (fst (merge_pdf_layers_railway e req (start w))) \<noteq> Some 400 \<and>
    status (fst (merge_pdf_layers_part000 e req (start w))) \<noteq> Some 400 \<and>
    status (fst (overlay_artwork_server e req (start w))) \<noteq> Some 400 \<and>
    status (fst (overlay_artwork_railway e req (start w))) \<noteq> Some 400 \<and>
    status (fst (overlay_artwork_part000 e req (start w))) \<noteq> Some 400 \<and>
    status (fst (create_layered_pdf_server e req (start w))) \<noteq> Some 400 \<and>
    status (fst (create_layered_pdf_railway e req (start w))) \<noteq> Some 400 \<and>
    status (fst (create_layered_pdf_part000 e req (start w))) \<noteq> Some 400 \<and>
    (\<not> truthy (parseFloat e (Some s)) \<and> \<not> truthy (parseFloat e None) \<longrightarrow>
       list_all (as_missing (merge_pdf_layers_server e) req s) numeric_fields \<and>
       list_all (as_missing (merge_pdf_layers_railway e) req s) numeric_fields \<and>
       list_all (as_missing (merge_pdf_layers_part000 e) req s) numeric_fields \<and>
       list_all (as_missing (overlay_artwork_server e) req s) numeric_fields \<and>
       list_all (as_missing (overlay_artwork_railway e) req s) numeric_fields \<and>
       list_all (as_missing (overlay_artwork_part000 e) req s) numeric_fields \<and>
       list_all (as_missing (create_layered_pdf_server e) req s) numeric_fields \<and>
       list_all (as_missing (create_layered_pdf_railway e) req s) numeric_fields \<and>
       list_all (as_missing (create_layered_pdf_part000 e) req s) numeric_fields)"
proof (intro conjI impI)
  show "\<exists>width height pageWidth pageHeight.
       from_field e req ''width'' (Num 612) width \<and>
       from_field e req ''height'' (Num 792) height \<and>
       from_field e req ''pageWidth'' width pageWidth \<and>
       from_field e req ''pageHeight'' height pageHeight \<and>
       runs_only (server_commands e (jobDir_of e) (getExtension (mimetype a)) width height)
         (trace (snd (merge_pdf_layers_server e req (start w)))) \<and>
       runs_only
         (railway_commands e (jobDir_of e) (getExtension (mimetype a)) pageWidth pageHeight)
         (trace (snd (merge_pdf_layers_railway e req (start w)))) \<and>
       runs_only
         (part000_commands e (jobDir_of e) (getExtension (mimetype a)) pageWidth pageHeight)
         (trace (snd (merge_pdf_layers_part000 e req (start w))))"
    using server_runs_only [OF template artwork, of e w]
      railway_runs_only [OF template artwork, of e w]
      part000_runs_only [OF template artwork, of e w]
      js_or_from_field [of e req "''width''" "Num 612"]
      js_or_from_field [of e req "''height''" "Num 792"]
      js_or_from_field [of e req "''pageWidth''" "js_or (parseFloat e (body req ''width'')) (Num 612)"]
      js_or_from_field [of e req "''pageHeight''" "js_or (parseFloat e (body req ''height'')) (Num 792)"]
    by blast
  show "runs_only
      [overlay_gsCmd (path_join (jobDir_of e) ''output.pdf'') (path_join (jobDir_of e) ''template.pdf'')]
      (trace (snd (overlay_artwork_server e req (start w))))"
    by (rule overlay_server_runs_only [OF template artwork])
  show "runs_only
      [overlay_gsCmd (path_join (jobDir_of e) ''output.pdf'') (path_join (jobDir_of e) ''template.pdf'')]
      (trace (snd (overlay_artwork_railway e req (start w))))"
    by (rule overlay_railway_runs_only [OF template artwork])
  show "runs_only
      [overlay_gsCmd (path_join (jobDir_of e) ''output.pdf'') (path_join (jobDir_of e) ''template.pdf'')]
      (trace (snd (overlay_artwork_part000 e req (start w))))"
    by (rule overlay_part000_runs_only [OF template artwork])
  show "runs_only
      [layered_gsCmd (path_join (jobDir_of e) ''output.pdf'') (path_join (jobDir_of e) ''layered.ps'')]
      (trace (snd (create_layered_pdf_server e req (start w))))"
    by (rule create_server_runs_only [OF template artwork])
  show "runs_only
      [layered_gsCmd (path_join (jobDir_of e) ''output.pdf'') (path_join (jobDir_of e) ''layered.ps'')]
      (trace (snd (create_layered_pdf_railway e req (start w))))"
    by (rule create_railway_runs_only [OF template artwork])
  show "runs_only
      [layered_gsCmd (path_join (jobDir_of e) ''output.pdf'') (path_join (jobDir_of e) ''layered.ps'')]
      (trace (snd (create_layered_pdf_part000 e req (start w))))"
    by (rule create_part000_runs_only [OF template artwork])
  show "status (fst (merge_pdf_layers_server e req (start w))) \<noteq> Some 400"
    by (rule server_not_400 [OF template artwork])
  show "status (fst (merge_pdf_layers_railway e req (start w))) \<noteq> Some 400"
    by (rule railway_not_400 [OF template artwork])
  show "status (fst (merge_pdf_layers_part000 e req (start w))) \<noteq> Some 400"
    by (rule part000_not_400 [OF template artwork])
  show "status (fst (overlay_artwork_server e req (start w))) \<noteq> Some 400"
    by (rule overlay_server_not_400 [OF template artwork])
  show "status (fst (overlay_artwork_railway e req (start w))) \<noteq> Some 400"
    by (rule overlay_railway_not_400 [OF template artwork])
  show "status (fst (overlay_artwork_part000 e req (start w))) \<noteq> Some 400"
    by (rule overlay_part000_not_400 [OF template artwork])
  show "status (fst (create_layered_pdf_server e req (start w))) \<noteq> Some 400"
    by (rule create_server_not_400 [OF template artwork])
  show "status (fst (create_layered_pdf_railway e req (start w))) \<noteq> Some 400"
    by (rule create_railway_not_400 [OF template artwork])
  show "status (fst (create_layered_pdf_part000 e req (start w))) \<noteq> Some 400"
    by (rule create_part000_not_400 [OF template artwork])
next
  assume falsy: "\<not> truthy (parseFloat e (Some s)) \<and> \<not> truthy (parseFloat e None)"
  then have s: "\<not> truthy (parseFloat e (Some s))" and u: "\<not> truthy (parseFloat e None)"
    by simp_all
  show "list_all (as_missing (merge_pdf_layers_server e) req s) numeric_fields"
    by (simp add: numeric_fields_def as_missing_def server_malformed [OF s u])
  show "list_all (as_missing (merge_pdf_layers_railway e) req s) numeric_fields"
    by (simp add: numeric_fields_def as_missing_def railway_malformed [OF s u])
  show "list_all (as_missing (merge_pdf_layers_part000 e) req s) numeric_fields"
    by (simp add: numeric_fields_def as_missing_def part000_malformed [OF s u])
  show "list_all (as_missing (overlay_artwork_server e) req s) numeric_fields"
    by (simp add: numeric_fields_def as_missing_def overlay_server_malformed [OF s u])
  show "list_all (as_missing (overlay_artwork_railway e) req s) numeric_fields"
    by (simp add: numeric_fields_def as_missing_def overlay_railway_malformed [OF s u])
  show "list_all (as_missing (overlay_artwork_part000 e) req s) numeric_fields"
    by (simp add: numeric_fields_def as_missing_def overlay_part000_malformed [OF s u])
  show "list_all (as_missing (create_layered_pdf_server e) req s) numeric_fields"
    by (simp add: numeric_fields_def as_missing_def create_server_malformed [OF s u])
  show "list_all (as_missing (create_layered_pdf_railway e) req s) numeric_fields"
    by (simp add: numeric_fields_def as_missing_def create_railway_malformed [OF s u])
  show "list_all (as_missing (create_layered_pdf_part000 e) req s) numeric_fields"
    by (simp add: numeric_fields_def as_missing_def create_part000_malformed [OF s u])
qed

text \<open>The request with \<^verbatim>\<open>width=500\<close>; \<^verbatim>\<open>abc\<close> does not parse.\<close>

theorem C5_numeric_parameters_witness:
  "files_template width_500 = Some (pdf ''%PDF-template'') \<and>
   files_artwork width_500 = Some (png ''PNG-artwork'') \<and>
   \<not> truthy (parseFloat (sample_env inert_tools) (Some ''abc'')) \<and>
   \<not> truthy (parseFloat (sample_env inert_tools) None) \<and>
   status (fst (merge_pdf_layers_railway (sample_env inert_tools) width_500 (start empty_world)))
     \<noteq> Some 400 \<and>
   list_all (as_missing (merge_pdf_layers_railway (sample_env inert_tools)) width_500 ''abc'')
     numeric_fields"
proof -
  have template: "files_template width_500 = Some (pdf ''%PDF-template'')"
    and artwork: "files_artwork width_500 = Some (png ''PNG-artwork'')"
    by (simp_all add: width_500_def both_uploads_def)
  have falsy: "\<not> truthy (parseFloat (sample_env inert_tools) (Some ''abc'')) \<and>
      \<not> truthy (parseFloat (sample_env inert_tools) None)"
    by (simp add: sample_env_def sample_parseFloat_def is_digit_def)
  from C5_numeric_parameters [OF template artwork, of "sample_env inert_tools" empty_world "''abc''"]
    template artwork falsy
  show ?thesis by blast
qed

subsection \<open>The overlay handler and the artwork\<close>

lemma overlay_server_closed:
  "fst (overlay_artwork_server e (with_uploads req t a) (start w)) =
     overlay_response e
       (tool e (overlay_gsCmd (path_join (jobDir_of e) ''output.pdf'')
                  (path_join (jobDir_of e) ''template.pdf''))
          (overlay_world e req t a w)) \<and>
   map fst (execs (trace (snd (overlay_artwork_server e (with_uploads req t a) (start w))))) =
     [overlay_gsCmd (path_join (jobDir_of e) ''output.pdf'')
        (path_join (jobDir_of e) ''template.pdf'')]"
  apply (rule wpI [where P = "\<lambda>r. fst r =
     overlay_response e
       (tool e (overlay_gsCmd (path_join (jobDir_of e) ''output.pdf'')
                  (path_join (jobDir_of e) ''template.pdf''))
          (overlay_world e req t a w)) \<and>
     map fst (execs (trace (snd r))) =
     [overlay_gsCmd (path_join (jobDir_of e) ''output.pdf'')
        (path_join (jobDir_of e) ''template.pdf'')]"])
  apply (simp only: overlay_artwork_server_def Let_def start_def)
  apply (simp add: with_uploads_def cong: option.case_cong)
  apply (simp only: wp_rules)
  apply (simp add: overlay_response_def overlay_world_def jobDir_of_def execs_append Let_def)
  done

lemma execs_unlabel: "execs (view unlabel tr) = execs tr"
  by (induction tr rule: execs.induct) (simp_all add: view_def)

lemma agree_unlabel_execs:
  "agree unlabel r r' \<Longrightarrow> execs (trace (snd r)) = execs (trace (snd r'))"
  by (metis agree_def execs_unlabel)

lemma agree_fst: "agree f r r' \<Longrightarrow> fst r = fst r'"
  by (simp add: agree_def)

lemma overlay_railway_closed:
  "fst (overlay_artwork_railway e (with_uploads req t a) (start w)) =
     overlay_response e
       (tool e (overlay_gsCmd (path_join (jobDir_of e) ''output.pdf'')
                  (path_join (jobDir_of e) ''template.pdf''))
          (overlay_world e req t a w)) \<and>
   map fst (execs (trace (snd (overlay_artwork_railway e (with_uploads req t a) (start w))))) =
     [overlay_gsCmd (path_join (jobDir_of e) ''output.pdf'')
        (path_join (jobDir_of e) ''template.pdf'')]"
  using overlay_server_closed [of e req t a w]
    sim_agree [OF overlay_server_railway, of e "with_uploads req t a" w]
  by (simp add: agree_unlabel_execs agree_fst)

lemma overlay_part000_closed:
  "fst (overlay_artwork_part000 e (with_uploads req t a) (start w)) =
     overlay_response e
       (tool e (overlay_gsCmd (path_join (jobDir_of e) ''output.pdf'')
                  (path_join (jobDir_of e) ''template.pdf''))
          (overlay_world e req t a w)) \<and>
   map fst (execs (trace (snd (overlay_artwork_part000 e (with_uploads req t a) (start w))))) =
     [overlay_gsCmd (path_join (jobDir_of e) ''output.pdf'')
        (path_join (jobDir_of e) ''template.pdf'')]"
  using overlay_server_closed [of e req t a w]
    sim_agree [OF overlay_server_part000, of e "with_uploads req t a" w]
  by (simp add: agree_unlabel_execs agree_fst)

text \<open>The two file systems of two artworks differ in the artwork file only.\<close>

lemma overlay_world_artwork:
  "overlay_world e req t a w =
     (overlay_world e req t a' w)
       \<lparr>files := (files (overlay_world e req t a' w))
          (path_join (jobDir_of e) ''artwork.png'' \<mapsto> buffer a)\<rparr>"
  by (auto simp add: overlay_world_def Let_def path_join_def fun_eq_iff)

lemma overlay_response_artwork:
  "overlay_response e
     (r, w'\<lparr>files := (files w')(path_join (jobDir_of e) ''artwork.png'' \<mapsto> b)\<rparr>) =
   overlay_response e (r, w')"
  by (simp add: overlay_response_def Let_def path_join_def split: outcome.splits)

lemma overlay_response_same:
  assumes "ignores_file e (overlay_gsCmd (path_join (jobDir_of e) ''output.pdf'')
      (path_join (jobDir_of e) ''template.pdf'')) (path_join (jobDir_of e) ''artwork.png'')"
  shows "overlay_response e
       (tool e (overlay_gsCmd (path_join (jobDir_of e) ''output.pdf'')
                  (path_join (jobDir_of e) ''template.pdf''))
          (overlay_world e req t a w)) =
     overlay_response e
       (tool e (overlay_gsCmd (path_join (jobDir_of e) ''output.pdf'')
                  (path_join (jobDir_of e) ''template.pdf''))
          (overlay_world e req t a' w))"
proof -
  let ?cmd = "overlay_gsCmd (path_join (jobDir_of e) ''output.pdf'')
      (path_join (jobDir_of e) ''template.pdf'')"
  let ?p = "path_join (jobDir_of e) ''artwork.png''"
  let ?W = "overlay_world e req t a' w"
  have "tool e ?cmd (overlay_world e req t a w) =
      tool e ?cmd (?W\<lparr>files := (files ?W)(?p \<mapsto> buffer a)\<rparr>)"
    by (subst overlay_world_artwork [of e req t a w a']) (rule refl)
  also have "\<dots> = (fst (tool e ?cmd ?W),
      (snd (tool e ?cmd ?W))\<lparr>files := (files (snd (tool e ?cmd ?W)))(?p \<mapsto> buffer a)\<rparr>)"
    using assms unfolding ignores_file_def by blast
  finally show ?thesis
    by (simp add: overlay_response_artwork)
qed

text \<open>
  \<^bold>\<open>C1.\<close> The claim: the PDF returned by POST /api/overlay-artwork is a composite of the
  template and the artwork. The code does not do that. Whatever the request with both
  uploads, the handler of each file runs one command, Ghostscript on \<^verbatim>\<open>template.pdf\<close> with
  \<^verbatim>\<open>output.pdf\<close> as its output; the PostScript it wrote to \<^verbatim>\<open>overlay.ps\<close> and the artwork
  it wrote to \<^verbatim>\<open>artwork.png\<close> are not on the command line. So, unless that Ghostscript run
  reads a file it was not given, the response is the same for every artwork.
\<close>

theorem C1_overlay_ignores_artwork:
  "map fst (execs (trace (snd (overlay_artwork_server e (with_uploads req t a) (start w))))) =
     [overlay_gsCmd (path_join (jobDir_of e) ''output.pdf'')
        (path_join (jobDir_of e) ''template.pdf'')] \<and>
   map fst (execs (trace (snd (overlay_artwork_railway e (with_uploads req t a) (start w))))) =
     [overlay_gsCmd (path_join (jobDir_of e) ''output.pdf'')
        (path_join (jobDir_of e) ''template.pdf'')] \<and>
   map fst (execs (trace (snd (overlay_artwork_part000 e (with_uploads req t a) (start w))))) =
     [overlay_gsCmd (path_join (jobDir_of e) ''output.pdf'')
        (path_join (jobDir_of e) ''template.pdf'')] \<and>
   (ignores_file e
      (overlay_gsCmd (path_join (jobDir_of e) ''output.pdf'')
         (path_join (jobDir_of e) ''template.pdf''))
      (path_join (jobDir_of e) ''artwork.png'') \<longrightarrow>
    fst (overlay_artwork_server e (with_uploads req t a) (start w)) =
      fst (overlay_artwork_server e (with_uploads req t a') (start w)) \<and>
    fst (overlay_artwork_railway e (with_uploads req t a) (start w)) =
      fst (overlay_artwork_railway e (with_uploads req t a') (start w)) \<and>
    fst (overlay_artwork_part000 e (with_uploads req t a) (start w)) =
      fst (overlay_artwork_part000 e (with_uploads req t a') (start w)))"
proof (intro conjI impI)
  assume ign: "ignores_file e
      (overlay_gsCmd (path_join (jobDir_of e) ''output.pdf'')
         (path_join (jobDir_of e) ''template.pdf''))
      (path_join (jobDir_of e) ''artwork.png'')"
  show "fst (overlay_artwork_server e (with_uploads req t a) (start w)) =
      fst (overlay_artwork_server e (with_uploads req t a') (start w))"
    using overlay_server_closed [of e req t a w] overlay_server_closed [of e req t a' w]
      overlay_response_same [OF ign, of req t a w a']
    by simp
  show "fst (overlay_artwork_railway e (with_uploads req t a) (start w)) =
      fst (overlay_artwork_railway e (with_uploads req t a') (start w))"
    using overlay_railway_closed [of e req t a w] overlay_railway_closed [of e req t a' w]
      overlay_response_same [OF ign, of req t a w a']
    by simp
  show "fst (overlay_artwork_part000 e (with_uploads req t a) (start w)) =
      fst (overlay_artwork_part000 e (with_uploads req t a') (start w))"
    using overlay_part000_closed [of e req t a w] overlay_part000_closed [of e req t a' w]
      overlay_response_same [OF ign, of req t a w a']
    by simp
qed (simp_all add: overlay_server_closed overlay_railway_closed overlay_part000_closed)

text \<open>On a machine whose Ghostscript rewrites the template to the output, the response to two
  requests with different artworks is the same PDF: the template, byte for byte.\<close>

lemma gs_copies_tool:
  "tool (sample_env (gs_copies src dst)) c w =
     (if binary_of c = ''gs'' then
        (case files w src of
           Some b \<Rightarrow> (Ok [], w\<lparr>files := (files w)(dst \<mapsto> b)\<rparr>)
         | None \<Rightarrow> (Failed ''gs: no such file'', w))
      else (Failed (binary_of c @ '': not found''), w))"
  by (simp add: sample_env_def gs_copies_def)

lemma sample_jobDir: "jobDir_of (sample_env f) = ''/tmp/pdf-processing/job-1''"
  by (simp add: jobDir_of_def path_join_def TEMP_DIR_def sample_env_def)

lemma sample_uuid: "uuidv4 (sample_env f) = ''job-1''"
  by (simp add: sample_env_def)

lemma gs_copies_ignores_artwork:
  "ignores_file (sample_env (gs_copies sample_template sample_output))
     (overlay_gsCmd (path_join (jobDir_of (sample_env (gs_copies sample_template sample_output)))
        ''output.pdf'')
        (path_join (jobDir_of (sample_env (gs_copies sample_template sample_output)))
        ''template.pdf''))
     (path_join (jobDir_of (sample_env (gs_copies sample_template sample_output)))
        ''artwork.png'')"
  unfolding ignores_file_def
  by (auto simp add: gs_copies_tool binary_overlay_gsCmd sample_jobDir path_join_def
      sample_template_def sample_output_def fun_upd_twist split: option.splits)

lemma gs_copies_response:
  "fst (overlay_artwork_server (sample_env (gs_copies sample_template sample_output))
        (with_uploads no_uploads (pdf ''%PDF-template'') a) (start empty_world)) =
   Inr (Pdf (attachment ''printpilot-job-1.pdf'') ''%PDF-template'')"
  by (simp add: overlay_server_closed overlay_response_def overlay_world_def Let_def
      gs_copies_tool binary_overlay_gsCmd sample_jobDir sample_uuid path_join_def
      sample_template_def sample_output_def pdf_def new_dir_def rmSync_def)

theorem C1_overlay_ignores_artwork_witness:
  "ignores_file (sample_env (gs_copies sample_template sample_output))
     (overlay_gsCmd (path_join (jobDir_of (sample_env (gs_copies sample_template sample_output)))
        ''output.pdf'')
        (path_join (jobDir_of (sample_env (gs_copies sample_template sample_output)))
        ''template.pdf''))
     (path_join (jobDir_of (sample_env (gs_copies sample_template sample_output)))
        ''artwork.png'') \<and>
   fst (overlay_artwork_server (sample_env (gs_copies sample_template sample_output))
        (with_uploads no_uploads (pdf ''%PDF-template'') (png ''PNG-artwork''))
        (start empty_world)) =
   fst (overlay_artwork_server (sample_env (gs_copies sample_template sample_output))
        (with_uploads no_uploads (pdf ''%PDF-template'') (png ''PNG-other-artwork''))
        (start empty_world)) \<and>
   fst (overlay_artwork_server (sample_env (gs_copies sample_template sample_output))
        (with_uploads no_uploads (pdf ''%PDF-template'') (png ''PNG-artwork''))
        (start empty_world)) =
   Inr (Pdf (attachment ''printpilot-job-1.pdf'') ''%PDF-template'')"
  using C1_overlay_ignores_artwork
    [of "sample_env (gs_copies sample_template sample_output)" no_uploads
      "pdf ''%PDF-template''" "png ''PNG-artwork''" empty_world "png ''PNG-other-artwork''"]
    gs_copies_ignores_artwork gs_copies_response [of "png ''PNG-artwork''"]
  by blast

subsection \<open>Document bytes\<close>

text \<open>Replaying a trace: what the origins say of the file system.\<close>

lemma replay_append: "replay e (tr @ tr') x = replay e tr' (replay e tr x)"
  by (induction tr arbitrary: x) simp_all

lemma world_after_Nil: "world_after e w [] = w"
  by (simp add: world_after_def)

lemma world_after_snoc: "world_after e w (tr @ [ev]) = after e ev (world_after e w tr)"
  by (simp add: world_after_def replay_append)

lemma replay_Server:
  assumes "\<forall>p b. snd x p = Server b \<longrightarrow> files (fst x) p = Some b"
  shows "\<forall>p b. snd (replay e tr x) p = Server b \<longrightarrow> files (fst (replay e tr x)) p = Some b"
  using assms
proof (induction tr arbitrary: x)
  case Nil
  then show ?case by simp
next
  case (Cons ev tr)
  have "\<forall>p b. origin_after e ev (fst x) (snd x) p = Server b \<longrightarrow>
      files (after e ev (fst x)) p = Some b"
    using Cons.prems by (cases ev) (auto split: if_splits)
  from Cons.IH [of "(after e ev (fst x), origin_after e ev (fst x) (snd x))"] this
  show ?case by simp
qed

lemma replay_Initial:
  assumes "\<forall>p\<in>S. snd x p = Initial \<longrightarrow> files (fst x) p = None"
    and "\<forall>c\<in>set (copies tr). snd c \<in> S \<longrightarrow> fst c \<in> S"
  shows "\<forall>p\<in>S. snd (replay e tr x) p = Initial \<longrightarrow> files (fst (replay e tr x)) p = None"
  using assms
proof (induction tr arbitrary: x)
  case Nil
  then show ?case by simp
next
  case (Cons ev tr)
  have step: "\<forall>p\<in>S. origin_after e ev (fst x) (snd x) p = Initial \<longrightarrow>
      files (after e ev (fst x)) p = None"
    using Cons.prems by (cases ev) (auto split: if_splits)
  have rest: "\<forall>c\<in>set (copies tr). snd c \<in> S \<longrightarrow> fst c \<in> S"
    using Cons.prems(2) by (cases ev) (auto split: if_splits)
  from Cons.IH [of "(after e ev (fst x), origin_after e ev (fst x) (snd x))"] step rest
  show ?case by simp
qed

lemma replay_written:
  assumes "\<forall>p b. snd x p = Server b \<longrightarrow> (\<exists>q. (q, b) \<in> W \<and> (q = p \<or> q \<in> C))"
  shows "\<forall>p b. snd (replay e tr x) p = Server b \<longrightarrow>
     (\<exists>q. (q, b) \<in> W \<union> set (writes tr) \<and> (q = p \<or> q \<in> C \<union> fst ` set (copies tr)))"
  using assms
proof (induction tr arbitrary: x W C)
  case Nil
  then show ?case by simp
next
  case (Cons ev tr)
  have step: "\<forall>p b. origin_after e ev (fst x) (snd x) p = Server b \<longrightarrow>
      (\<exists>q. (q, b) \<in> W \<union> set (writes [ev]) \<and> (q = p \<or> q \<in> C \<union> fst ` set (copies [ev])))"
    using Cons.prems by (cases ev) (auto split: if_splits)
  have w: "W \<union> set (writes [ev]) \<union> set (writes tr) = W \<union> set (writes (ev # tr))"
    by (cases ev) auto
  have c: "C \<union> fst ` set (copies [ev]) \<union> fst ` set (copies tr) =
      C \<union> fst ` set (copies (ev # tr))"
    by (cases ev) auto
  from Cons.IH [of "(after e ev (fst x), origin_after e ev (fst x) (snd x))"
      "W \<union> set (writes [ev])" "C \<union> fst ` set (copies [ev])"] step
  show ?case by (simp only: replay.simps w c fst_conv snd_conv)
qed

lemma replay_Tool:
  assumes "\<forall>p l. snd x p = Tool l \<longrightarrow> L l"
  shows "\<forall>p l. snd (replay e tr x) p = Tool l \<longrightarrow> L l \<or> ran l tr"
  using assms
proof (induction tr arbitrary: x L)
  case Nil
  then show ?case by simp
next
  case (Cons ev tr)
  have step: "\<forall>p l. origin_after e ev (fst x) (snd x) p = Tool l \<longrightarrow> L l \<or> ran l [ev]"
    using Cons.prems by (cases ev) (auto simp: ran_def failed_def succeeded_def split: if_splits)
  have r: "\<And>l. (L l \<or> ran l [ev]) \<or> ran l tr \<longleftrightarrow> L l \<or> ran l (ev # tr)"
    by (auto simp: ran_def failed_def succeeded_def)
  from Cons.IH [of "(after e ev (fst x), origin_after e ev (fst x) (snd x))"
      "\<lambda>l. L l \<or> ran l [ev]"] step
  show ?case by (simp only: replay.simps r fst_conv snd_conv)
qed

text \<open>From the facts of a run to the origin of the body.\<close>

lemma produced_from_facts:
  assumes body: "body_read e w out r"
    and writes: "writes_among allowed (trace (snd r))"
    and copies: "copies_among cs (trace (snd r))"
    and fresh: "\<forall>p\<in>insert out (fst ` set cs). files w p = None"
    and allowed: "\<forall>pb\<in>set allowed. fst pb \<noteq> out \<and> (fst pb \<in> fst ` set cs \<longrightarrow> snd pb \<in> set verbatim)"
  shows "produced e w out verbatim r"
proof (cases "pdf_body (fst r)")
  case None
  then show ?thesis by (simp add: produced_def)
next
  case (Some b)
  let ?tr = "trace (snd r)"
  let ?x = "replay e ?tr (w, \<lambda>p. Initial)"
  have content: "files (fst ?x) out = Some b"
    using body Some by (simp add: body_read_def world_after_def)
  have sub: "set (copies ?tr) \<subseteq> set cs"
    using copies by (auto simp: copies_among_def list_all_iff)
  have wr: "set (writes ?tr) \<subseteq> set allowed"
    using writes by (auto simp: writes_among_def list_all_iff)
  have origin: "case snd ?x out of
      Tool l \<Rightarrow> ran l ?tr | Server b' \<Rightarrow> b' = b \<and> b \<in> set verbatim | Initial \<Rightarrow> False"
  proof (cases "snd ?x out")
    case Initial
    have "\<forall>p\<in>insert out (fst ` set cs). snd ?x p = Initial \<longrightarrow> files (fst ?x) p = None"
      by (rule replay_Initial) (use fresh sub in \<open>auto\<close>)
    with Initial content show ?thesis by simp
  next
    case (Server b')
    have "\<forall>p b. snd ?x p = Server b \<longrightarrow> files (fst ?x) p = Some b"
      by (rule replay_Server) simp
    with Server content have same: "b' = b" by simp
    have "\<forall>p b. snd ?x p = Server b \<longrightarrow>
        (\<exists>q. (q, b) \<in> {} \<union> set (writes ?tr) \<and> (q = p \<or> q \<in> {} \<union> fst ` set (copies ?tr)))"
      by (rule replay_written) simp
    from this [rule_format, OF Server]
    obtain q where q: "(q, b') \<in> set (writes ?tr)"
      and where_from: "q = out \<or> q \<in> fst ` set (copies ?tr)"
      by (elim exE conjE) simp
    from q wr have "(q, b') \<in> set allowed" by auto
    with allowed have "fst (q, b') \<noteq> out \<and>
        (fst (q, b') \<in> fst ` set cs \<longrightarrow> snd (q, b') \<in> set verbatim)"
      by (rule bspec)
    then have "q \<noteq> out" and "q \<in> fst ` set cs \<longrightarrow> b' \<in> set verbatim"
      by simp_all
    with where_from sub have "b' \<in> set verbatim" by auto
    with Server same show ?thesis by simp
  next
    case (Tool l)
    have "\<forall>p l. snd ?x p = Tool l \<longrightarrow> False \<or> ran l ?tr"
      by (rule replay_Tool) simp
    with Tool show ?thesis by simp
  qed
  with content Some show ?thesis
    by (simp add: produced_def world_after_def origin_of_def)
qed

lemma untouched_from_facts:
  assumes facts: "saved_first uploads (trace (snd r)) \<and>
      writes_among (uploads @ scripts) (trace (snd r)) \<and> copies_among cs (trace (snd r))"
    and body: "body_read e (new_dir (jobDir_of e) w) (path_join (jobDir_of e) ''output.pdf'') r"
    and inside: "\<forall>c\<in>set cs. fst c = path_join (jobDir_of e) ''artwork.pdf''"
    and allowed: "\<forall>pb\<in>set (uploads @ scripts).
      fst pb \<noteq> path_join (jobDir_of e) ''output.pdf'' \<and>
      (fst pb \<in> fst ` set cs \<longrightarrow> snd pb \<in> set verbatim)"
  shows "bytes_untouched e w uploads scripts verbatim r"
proof -
  have fresh: "\<forall>p\<in>insert (path_join (jobDir_of e) ''output.pdf'') (fst ` set cs).
      files (new_dir (jobDir_of e) w) p = None"
    using inside by (auto simp: files_new_dir)
  from facts have writes: "writes_among (uploads @ scripts) (trace (snd r))"
    and copies: "copies_among cs (trace (snd r))"
    by simp_all
  from produced_from_facts [OF body writes copies fresh allowed] facts
  show ?thesis by (simp add: bytes_untouched_def)
qed

text \<open>The facts of each handler, on the trace of a run.\<close>

lemma unlog_Cons:
  "view unlog (Log line # tr) = view unlog tr"
  "view unlog (Exec l c ok # tr) = Exec l c ok # view unlog tr"
  "view unlog (Write p b ok # tr) = Write p b ok # view unlog tr"
  "view unlog (Read p b # tr) = Read p b # view unlog tr"
  "view unlog (Copy src dst ok # tr) = Copy src dst ok # view unlog tr"
  by (simp_all add: view_def map_filter_simps)

lemmas facts_post =
  saved_first_def writes_among_def copies_among_def
  merge_uploads_def overlay_uploads_def create_uploads_def part000_scripts_def
  overlay_script_def create_script_def Let_def jobDir_of_def
  fst_conv snd_conv state.simps
  view_Nil unlog_Cons option.case Nil_prefix Cons_prefix_Cons list.map
  writes.simps copies.simps list_all_Nil_iff list_all_Cons_iff list.set insert_iff prod.inject
  append.simps list.distinct event.inject event.distinct simp_thms if_True if_False if_cancel

lemmas body_post =
  body_read_def fst_conv snd_conv state.simps sum.case response.case pdf_body.simps option.case
  world_after_Nil world_after_snoc after.simps if_True if_False if_cancel simp_thms

lemmas allowed_post =
  merge_uploads_def overlay_uploads_def create_uploads_def part000_scripts_def
  overlay_script_def create_script_def pdf_artwork_def Let_def path_join_eq

lemma facts_merge_server:
  assumes "files_template req = Some t" "files_artwork req = Some a"
  shows "saved_first (merge_uploads e t a) (trace (snd (merge_pdf_layers_server e req (start w)))) \<and>
      writes_among ((merge_uploads e t a) @ []) (trace (snd (merge_pdf_layers_server e req (start w)))) \<and>
      copies_among [] (trace (snd (merge_pdf_layers_server e req (start w))))"
  apply (rule wpI [where P = "\<lambda>r. saved_first (merge_uploads e t a) (trace (snd r)) \<and>
          writes_among ((merge_uploads e t a) @ []) (trace (snd r)) \<and>
          copies_among [] (trace (snd r))"])
  apply (simp only: merge_pdf_layers_server_def Let_def start_def assms option.case)
  apply (simp only: wp_rules)
  apply (simp only: append.simps)
  apply (simp only: facts_post)
  done

lemma body_merge_server:
  assumes "files_template req = Some t" "files_artwork req = Some a"
  shows "body_read e (new_dir (jobDir_of e) w) (path_join (jobDir_of e) ''output.pdf'')
     (merge_pdf_layers_server e req (start w))"
  apply (rule wpI [where P = "body_read e (new_dir (jobDir_of e) w)
       (path_join (jobDir_of e) ''output.pdf'')"])
  apply (simp only: merge_pdf_layers_server_def Let_def start_def assms option.case)
  apply (simp only: wp_rules)
  apply (simp only: body_post jobDir_of_def cong: imp_cong)
  done

lemma untouched_merge_server:
  assumes "files_template req = Some t" "files_artwork req = Some a"
  shows "bytes_untouched e w (merge_uploads e t a) [] []
     (merge_pdf_layers_server e req (start w))"
  by (rule untouched_from_facts [OF facts_merge_server [OF assms] body_merge_server [OF assms]])
    (simp_all add: allowed_post)

lemma facts_merge_railway:
  assumes "files_template req = Some t" "files_artwork req = Some a"
  shows "saved_first (merge_uploads e t a) (trace (snd (merge_pdf_layers_railway e req (start w)))) \<and>
      writes_among ((merge_uploads e t a) @ []) (trace (snd (merge_pdf_layers_railway e req (start w)))) \<and>
      copies_among ([(path_join (jobDir_of e) ''artwork.pdf'', path_join (jobDir_of e) ''output.pdf'')]) (trace (snd (merge_pdf_layers_railway e req (start w))))"
  apply (rule wpI [where P = "\<lambda>r. saved_first (merge_uploads e t a) (trace (snd r)) \<and>
          writes_among ((merge_uploads e t a) @ []) (trace (snd r)) \<and>
          copies_among ([(path_join (jobDir_of e) ''artwork.pdf'', path_join (jobDir_of e) ''output.pdf'')]) (trace (snd r))"])
  apply (simp only: merge_pdf_layers_railway_def Let_def start_def assms option.case)
  apply (simp only: wp_rules)
  apply (simp only: append.simps)
  apply (simp only: facts_post)
  done

lemma body_merge_railway:
  assumes "files_template req = Some t" "files_artwork req = Some a"
  shows "body_read e (new_dir (jobDir_of e) w) (path_join (jobDir_of e) ''output.pdf'')
     (merge_pdf_layers_railway e req (start w))"
  apply (rule wpI [where P = "body_read e (new_dir (jobDir_of e) w)
       (path_join (jobDir_of e) ''output.pdf'')"])
  apply (simp only: merge_pdf_layers_railway_def Let_def start_def assms option.case)
  apply (simp only: wp_rules)
  apply (simp only: body_post jobDir_of_def cong: imp_cong)
  done

lemma untouched_merge_railway:
  assumes "files_template req = Some t" "files_artwork req = Some a"
  shows "bytes_untouched e w (merge_uploads e t a) [] (pdf_artwork a)
     (merge_pdf_layers_railway e req (start w))"
  by (rule untouched_from_facts [OF facts_merge_railway [OF assms] body_merge_railway [OF assms]])
    (simp_all add: allowed_post)

lemma facts_merge_part000:
  assumes "files_template req = Some t" "files_artwork req = Some a"
  shows "saved_first (merge_uploads e t a) (trace (snd (merge_pdf_layers_part000 e req (start w)))) \<and>
      writes_among ((merge_uploads e t a) @ (part000_scripts e req a)) (trace (snd (merge_pdf_layers_part000 e req (start w)))) \<and>
      copies_among ([(path_join (jobDir_of e) ''artwork.pdf'', path_join (jobDir_of e) ''output.pdf'')]) (trace (snd (merge_pdf_layers_part000 e req (start w))))"
  apply (rule wpI [where P = "\<lambda>r. saved_first (merge_uploads e t a) (trace (snd r)) \<and>
          writes_among ((merge_uploads e t a) @ (part000_scripts e req a)) (trace (snd r)) \<and>
          copies_among ([(path_join (jobDir_of e) ''artwork.pdf'', path_join (jobDir_of e) ''output.pdf'')]) (trace (snd r))"])
  apply (simp only: merge_pdf_layers_part000_def Let_def start_def assms option.case)
  apply (simp only: wp_rules)
  apply (simp only: append.simps)
  apply (simp only: facts_post)
  done

lemma body_merge_part000:
  assumes "files_template req = Some t" "files_artwork req = Some a"
  shows "body_read e (new_dir (jobDir_of e) w) (path_join (jobDir_of e) ''output.pdf'')
     (merge_pdf_layers_part000 e req (start w))"
  apply (rule wpI [where P = "body_read e (new_dir (jobDir_of e) w)
       (path_join (jobDir_of e) ''output.pdf'')"])
  apply (simp only: merge_pdf_layers_part000_def Let_def start_def assms option.case)
  apply (simp only: wp_rules)
  apply (simp only: body_post jobDir_of_def cong: imp_cong)
  done

lemma untouched_merge_part000:
  assumes "files_template req = Some t" "files_artwork req = Some a"
  shows "bytes_untouched e w (merge_uploads e t a) (part000_scripts e req a) (pdf_artwork a)
     (merge_pdf_layers_part000 e req (start w))"
  by (rule untouched_from_facts [OF facts_merge_part000 [OF assms] body_merge_part000 [OF assms]])
    (simp_all add: allowed_post)

lemma facts_overlay_server:
  assumes "files_template req = Some t" "files_artwork req = Some a"
  shows "saved_first (overlay_uploads e t a) (trace (snd (overlay_artwork_server e req (start w)))) \<and>
      writes_among ((overlay_uploads e t a) @ (overlay_script e req)) (trace (snd (overlay_artwork_server e req (start w)))) \<and>
      copies_among [] (trace (snd (overlay_artwork_server e req (start w))))"
  apply (rule wpI [where P = "\<lambda>r. saved_first (overlay_uploads e t a) (trace (snd r)) \<and>
          writes_among ((overlay_uploads e t a) @ (overlay_script e req)) (trace (snd r)) \<and>
          copies_among [] (trace (snd r))"])
  apply (simp only: overlay_artwork_server_def Let_def start_def assms option.case)
  apply (simp only: wp_rules)
  apply (simp only: append.simps)
  apply (simp only: facts_post)
  done

lemma body_overlay_server:
  assumes "files_template req = Some t" "files_artwork req = Some a"
  shows "body_read e (new_dir (jobDir_of e) w) (path_join (jobDir_of e) ''output.pdf'')
     (overlay_artwork_server e req (start w))"
  apply (rule wpI [where P = "body_read e (new_dir (jobDir_of e) w)
       (path_join (jobDir_of e) ''output.pdf'')"])
  apply (simp only: overlay_artwork_server_def Let_def start_def assms option.case)
  apply (simp only: wp_rules)
  apply (simp only: body_post jobDir_of_def cong: imp_cong)
  done

lemma untouched_overlay_server:
  assumes "files_template req = Some t" "files_artwork req = Some a"
  shows "bytes_untouched e w (overlay_uploads e t a) (overlay_script e req) []
     (overlay_artwork_server e req (start w))"
  by (rule untouched_from_facts [OF facts_overlay_server [OF assms] body_overlay_server [OF assms]])
    (simp_all add: allowed_post)

lemma facts_overlay_railway:
  assumes "files_template req = Some t" "files_artwork req = Some a"
  shows "saved_first (overlay_uploads e t a) (trace (snd (overlay_artwork_railway e req (start w)))) \<and>
      writes_among ((overlay_uploads e t a) @ (overlay_script e req)) (trace (snd (overlay_artwork_railway e req (start w)))) \<and>
      copies_among [] (trace (snd (overlay_artwork_railway e req (start w))))"
  apply (rule wpI [where P = "\<lambda>r. saved_first (overlay_uploads e t a) (trace (snd r)) \<and>
          writes_among ((overlay_uploads e t a) @ (overlay_script e req)) (trace (snd r)) \<and>
          copies_among [] (trace (snd r))"])
  apply (simp only: overlay_artwork_railway_def Let_def start_def assms option.case)
  apply (simp only: wp_rules)
  apply (simp only: append.simps)
  apply (simp only: facts_post)
  done

lemma body_overlay_railway:
  assumes "files_template req = Some t" "files_artwork req = Some a"
  shows "body_read e (new_dir (jobDir_of e) w) (path_join (jobDir_of e) ''output.pdf'')
     (overlay_artwork_railway e req (start w))"
  apply (rule wpI [where P = "body_read e (new_dir (jobDir_of e) w)
       (path_join (jobDir_of e) ''output.pdf'')"])
  apply (simp only: overlay_artwork_railway_def Let_def start_def assms option.case)
  apply (simp only: wp_rules)
  apply (simp only: body_post jobDir_of_def cong: imp_cong)
  done

lemma untouched_overlay_railway:
  assumes "files_template req = Some t" "files_artwork req = Some a"
  shows "bytes_untouched e w (overlay_uploads e t a) (overlay_script e req) []
     (overlay_artwork_railway e req (start w))"
  by (rule untouched_from_facts [OF facts_overlay_railway [OF assms] body_overlay_railway [OF assms]])
    (simp_all add: allowed_post)

lemma facts_overlay_part000:
  assumes "files_template req = Some t" "files_artwork req = Some a"
  shows "saved_first (overlay_uploads e t a) (trace (snd (overlay_artwork_part000 e req (start w)))) \<and>
      writes_among ((overlay_uploads e t a) @ (overlay_script e req)) (trace (snd (overlay_artwork_part000 e req (start w)))) \<and>
      copies_among [] (trace (snd (overlay_artwork_part000 e req (start w))))"
  apply (rule wpI [where P = "\<lambda>r. saved_first (overlay_uploads e t a) (trace (snd r)) \<and>
          writes_among ((overlay_uploads e t a) @ (overlay_script e req)) (trace (snd r)) \<and>
          copies_among [] (trace (snd r))"])
  apply (simp only: overlay_artwork_part000_def Let_def start_def assms option.case)
  apply (simp only: wp_rules)
  apply (simp only: append.simps)
  apply (simp only: facts_post)
  done

lemma body_overlay_part000:
  assumes "files_template req = Some t" "files_artwork req = Some a"
  shows "body_read e (new_dir (jobDir_of e) w) (path_join (jobDir_of e) ''output.pdf'')
     (overlay_artwork_part000 e req (start w))"
  apply (rule wpI [where P = "body_read e (new_dir (jobDir_of e) w)
       (path_join (jobDir_of e) ''output.pdf'')"])
  apply (simp only: overlay_artwork_part000_def Let_def start_def assms option.case)
  apply (simp only: wp_rules)
  apply (simp only: body_post jobDir_of_def cong: imp_cong)
  done

lemma untouched_overlay_part000:
  assumes "files_template req = Some t" "files_artwork req = Some a"
  shows "bytes_untouched e w (overlay_uploads e t a) (overlay_script e req) []
     (overlay_artwork_part000 e req (start w))"
  by (rule untouched_from_facts [OF facts_overlay_part000 [OF assms] body_overlay_part000 [OF assms]])
    (simp_all add: allowed_post)

lemma facts_create_server:
  assumes artwork: "files_artwork req = Some a"
  shows "saved_first (create_uploads e (files_template req) a) (trace (snd (create_layered_pdf_server e req (start w)))) \<and>
      writes_among ((create_uploads e (files_template req) a) @ (create_script e req)) (trace (snd (create_layered_pdf_server e req (start w)))) \<and>
      copies_among [] (trace (snd (create_layered_pdf_server e req (start w))))"
proof (cases "files_template req")
  case None
  show ?thesis
    apply (rule wpI [where P = "\<lambda>r. saved_first (create_uploads e (files_template req) a) (trace (snd r)) \<and>
            writes_among ((create_uploads e (files_template req) a) @ (create_script e req)) (trace (snd r)) \<and>
            copies_among [] (trace (snd r))"])
    apply (simp only: create_layered_pdf_server_def Let_def start_def artwork None option.case)
    apply (simp only: wp_rules)
    apply (simp only: append.simps)
    apply (simp only: facts_post)
    done
next
  case (Some tf)
  show ?thesis
    apply (rule wpI [where P = "\<lambda>r. saved_first (create_uploads e (files_template req) a) (trace (snd r)) \<and>
            writes_among ((create_uploads e (files_template req) a) @ (create_script e req)) (trace (snd r)) \<and>
            copies_among [] (trace (snd r))"])
    apply (simp only: create_layered_pdf_server_def Let_def start_def artwork Some option.case)
    apply (simp only: wp_rules)
    apply (simp only: append.simps)
    apply (simp only: facts_post)
    done
qed

lemma body_create_server:
  assumes artwork: "files_artwork req = Some a"
  shows "body_read e (new_dir (jobDir_of e) w) (path_join (jobDir_of e) ''output.pdf'')
     (create_layered_pdf_server e req (start w))"
proof (cases "files_template req")
  case None
  show ?thesis
    apply (rule wpI [where P = "body_read e (new_dir (jobDir_of e) w)
         (path_join (jobDir_of e) ''output.pdf'')"])
    apply (simp only: create_layered_pdf_server_def Let_def start_def artwork None option.case)
    apply (simp only: wp_rules)
    apply (simp only: body_post jobDir_of_def cong: imp_cong)
    done
next
  case (Some tf)
  show ?thesis
    apply (rule wpI [where P = "body_read e (new_dir (jobDir_of e) w)
         (path_join (jobDir_of e) ''output.pdf'')"])
    apply (simp only: create_layered_pdf_server_def Let_def start_def artwork Some option.case)
    apply (simp only: wp_rules)
    apply (simp only: body_post jobDir_of_def cong: imp_cong)
    done
qed

lemma untouched_create_server:
  assumes "files_artwork req = Some a"
  shows "bytes_untouched e w (create_uploads e (files_template req) a) (create_script e req) []
     (create_layered_pdf_server e req (start w))"
  by (rule untouched_from_facts [OF facts_create_server [OF assms] body_create_server [OF assms]])
    (simp_all add: allowed_post split: option.splits)

lemma facts_create_railway:
  assumes artwork: "files_artwork req = Some a"
  shows "saved_first (create_uploads e (files_template req) a) (trace (snd (create_layered_pdf_railway e req (start w)))) \<and>
      writes_among ((create_uploads e (files_template req) a) @ (create_script e req)) (trace (snd (create_layered_pdf_railway e req (start w)))) \<and>
      copies_among [] (trace (snd (create_layered_pdf_railway e req (start w))))"
proof (cases "files_template req")
  case None
  show ?thesis
    apply (rule wpI [where P = "\<lambda>r. saved_first (create_uploads e (files_template req) a) (trace (snd r)) \<and>
            writes_among ((create_uploads e (files_template req) a) @ (create_script e req)) (trace (snd r)) \<and>
            copies_among [] (trace (snd r))"])
    apply (simp only: create_layered_pdf_railway_def Let_def start_def artwork None option.case)
    apply (simp only: wp_rules)
    apply (simp only: append.simps)
    apply (simp only: facts_post)
    done
next
  case (Some tf)
  show ?thesis
    apply (rule wpI [where P = "\<lambda>r. saved_first (create_uploads e (files_template req) a) (trace (snd r)) \<and>
            writes_among ((create_uploads e (files_template req) a) @ (create_script e req)) (trace (snd r)) \<and>
            copies_among [] (trace (snd r))"])
    apply (simp only: create_layered_pdf_railway_def Let_def start_def artwork Some option.case)
    apply (simp only: wp_rules)
    apply (simp only: append.simps)
    apply (simp only: facts_post)
    done
qed

lemma body_create_railway:
  assumes artwork: "files_artwork req = Some a"
  shows "body_read e (new_dir (jobDir_of e) w) (path_join (jobDir_of e) ''output.pdf'')
     (create_layered_pdf_railway e req (start w))"
proof (cases "files_template req")
  case None
  show ?thesis
    apply (rule wpI [where P = "body_read e (new_dir (jobDir_of e) w)
         (path_join (jobDir_of e) ''output.pdf'')"])
    apply (simp only: create_layered_pdf_railway_def Let_def start_def artwork None option.case)
    apply (simp only: wp_rules)
    apply (simp only: body_post jobDir_of_def cong: imp_cong)
    done
next
  case (Some tf)
  show ?thesis
    apply (rule wpI [where P = "body_read e (new_dir (jobDir_of e) w)
         (path_join (jobDir_of e) ''output.pdf'')"])
    apply (simp only: create_layered_pdf_railway_def Let_def start_def artwork Some option.case)
    apply (simp only: wp_rules)
    apply (simp only: body_post jobDir_of_def cong: imp_cong)
    done
qed

lemma untouched_create_railway:
  assumes "files_artwork req = Some a"
  shows "bytes_untouched e w (create_uploads e (files_template req) a) (create_script e req) []
     (create_layered_pdf_railway e req (start w))"
  by (rule untouched_from_facts [OF facts_create_railway [OF assms] body_create_railway [OF assms]])
    (simp_all add: allowed_post split: option.splits)

lemma facts_create_part000:
  assumes artwork: "files_artwork req = Some a"
  shows "saved_first (create_uploads e (files_template req) a) (trace (snd (create_layered_pdf_part000 e req (start w)))) \<and>
      writes_among ((create_uploads e (files_template req) a) @ (create_script e req)) (trace (snd (create_layered_pdf_part000 e req (start w)))) \<and>
      copies_among [] (trace (snd (create_layered_pdf_part000 e req (start w))))"
proof (cases "files_template req")
  case None
  show ?thesis
    apply (rule wpI [where P = "\<lambda>r. saved_first (create_uploads e (files_template req) a) (trace (snd r)) \<and>
            writes_among ((create_uploads e (files_template req) a) @ (create_script e req)) (trace (snd r)) \<and>
            copies_among [] (trace (snd r))"])
    apply (simp only: create_layered_pdf_part000_def Let_def start_def artwork None option.case)
    apply (simp only: wp_rules)
    apply (simp only: append.simps)
    apply (simp only: facts_post)
    done
next
  case (Some tf)
  show ?thesis
    apply (rule wpI [where P = "\<lambda>r. saved_first (create_uploads e (files_template req) a) (trace (snd r)) \<and>
            writes_among ((create_uploads e (files_template req) a) @ (create_script e req)) (trace (snd r)) \<and>
            copies_among [] (trace (snd r))"])
    apply (simp only: create_layered_pdf_part000_def Let_def start_def artwork Some option.case)
    apply (simp only: wp_rules)
    apply (simp only: append.simps)
    apply (simp only: facts_post)
    done
qed

lemma body_create_part000:
  assumes artwork: "files_artwork req = Some a"
  shows "body_read e (new_dir (jobDir_of e) w) (path_join (jobDir_of e) ''output.pdf'')
     (create_layered_pdf_part000 e req (start w))"
proof (cases "files_template req")
  case None
  show ?thesis
    apply (rule wpI [where P = "body_read e (new_dir (jobDir_of e) w)
         (path_join (jobDir_of e) ''output.pdf'')"])
    apply (simp only: create_layered_pdf_part000_def Let_def start_def artwork None option.case)
    apply (simp only: wp_rules)
    apply (simp only: body_post jobDir_of_def cong: imp_cong)
    done
next
  case (Some tf)
  show ?thesis
    apply (rule wpI [where P = "body_read e (new_dir (jobDir_of e) w)
         (path_join (jobDir_of e) ''output.pdf'')"])
    apply (simp only: create_layered_pdf_part000_def Let_def start_def artwork Some option.case)
    apply (simp only: wp_rules)
    apply (simp only: body_post jobDir_of_def cong: imp_cong)
    done
qed

lemma untouched_create_part000:
  assumes "files_artwork req = Some a"
  shows "bytes_untouched e w (create_uploads e (files_template req) a) (create_script e req) []
     (create_layered_pdf_part000 e req (start w))"
  by (rule untouched_from_facts [OF facts_create_part000 [OF assms] body_create_part000 [OF assms]])
    (simp_all add: allowed_post split: option.splits)

text \<open>The origin of the body, in two runs of railway-api/server.js.\<close>

lemma origin_of_Nil: "origin_of e w [] p = Initial"
  by (simp add: origin_of_def)

lemma origin_of_snoc:
  "origin_of e w (tr @ [ev]) p = origin_after e ev (world_after e w tr) (origin_of e w tr) p"
proof -
  have "origin_of e w tr = snd (replay e tr (w, \<lambda>p. Initial))"
    by (rule ext) (simp add: origin_of_def)
  then show ?thesis
    by (simp add: origin_of_def world_after_def replay_append)
qed

lemma idle_tools_tool:
  "tool (sample_env idle_tools) c w =
     (if binary_of c = ''gs'' \<or> binary_of c = ''convert'' \<and> \<not> prefix ''convert -density'' c
      then (Ok [], w)
      else (Failed (binary_of c @ '': failed''), w))"
  by (simp add: sample_env_def idle_tools_def)

lemma idle_tools_frame: "snd (tool (sample_env idle_tools) c w) = w"
  by (simp add: idle_tools_tool)

lemma qpdf_machine_frame:
  "snd (tool (sample_env (qpdf_machine out)) c w) =
     (if binary_of c = ''qpdf'' then w\<lparr>files := (files w)(out \<mapsto> ''%PDF-merged'')\<rparr> else w)"
  by (simp add: qpdf_machine_tool)

lemma plain_convert: "\<not> prefix ''convert -density'' (railway_rawCmd p d)"
  by (simp add: railway_rawCmd_def)

lemma density_convert: "prefix ''convert -density'' (railway_flatTemplateCmd e n p d)"
  by (simp add: railway_flatTemplateCmd_def)

lemma sample_job: "uuidv4 (sample_env f) = ''job-1''"
  by (simp add: sample_env_def)

lemmas origin_post =
  origin_of_Nil origin_of_snoc origin_after.simps world_after_Nil world_after_snoc after.simps
  pdf_body.simps sum.case response.case programs_Nil programs_Exec programs_Write
  programs_Read programs_Copy programs_Log binaries

lemmas paths_post =
  pdf_def png_def getExtension_def exists_in_def sample_job path_join_eq files_new_dir
  write_error_files write_error_new_dir

lemma railway_on_idle_tools:
  "(\<lambda>r. pdf_body (fst r) = Some ''%PDF-artwork'' \<and>
        origin_of (sample_env idle_tools) (new_dir (path_join TEMP_DIR ''job-1'') empty_world)
          (trace (snd r)) (path_join (path_join TEMP_DIR ''job-1'') ''output.pdf'') =
        Server ''%PDF-artwork'' \<and>
        programs (trace (snd r)) = [''convert'', ''gs'', ''qpdf'', ''pdftk'', ''convert''])
     (merge_pdf_layers_railway (sample_env idle_tools) pdf_uploads (start empty_world))"
  apply (rule wpI [where P = "\<lambda>r. pdf_body (fst r) = Some ''%PDF-artwork'' \<and>
        origin_of (sample_env idle_tools) (new_dir (path_join TEMP_DIR ''job-1'') empty_world)
          (trace (snd r)) (path_join (path_join TEMP_DIR ''job-1'') ''output.pdf'') =
        Server ''%PDF-artwork'' \<and>
        programs (trace (snd r)) = [''convert'', ''gs'', ''qpdf'', ''pdftk'', ''convert'']"])
  apply (simp only: merge_pdf_layers_railway_def Let_def start_def)
  apply (simp add: pdf_uploads_def cong: option.case_cong)
  apply (simp only: wp_eval)
  apply (simp only: idle_tools_tool idle_tools_frame plain_convert density_convert sample_job
      binaries eval_post)
  apply (simp only: origin_post)
  apply (simp add: paths_post idle_tools_frame)
  done

lemma railway_body_on_qpdf_machine:
  "(\<lambda>r. pdf_body (fst r) = Some ''%PDF-merged'' \<and>
        origin_of (sample_env (qpdf_machine sample_output))
          (new_dir (path_join TEMP_DIR (uuidv4 (sample_env (qpdf_machine sample_output))))
             empty_world)
          (trace (snd r)) sample_output =
        Tool 157)
     (merge_pdf_layers_railway (sample_env (qpdf_machine sample_output)) both_uploads
        (start empty_world))"
  apply (rule wpI [where P = "\<lambda>r. pdf_body (fst r) = Some ''%PDF-merged'' \<and>
        origin_of (sample_env (qpdf_machine sample_output))
          (new_dir (path_join TEMP_DIR (uuidv4 (sample_env (qpdf_machine sample_output))))
             empty_world)
          (trace (snd r)) sample_output =
        Tool 157"])
  apply (simp only: merge_pdf_layers_railway_def Let_def start_def)
  apply (simp add: both_uploads_def cong: option.case_cong)
  apply (simp only: wp_eval)
  apply (simp only: machine_post)
  apply (simp only: origin_post qpdf_machine_frame eval_post)
  apply (simp add: sample_output_def path_join_def TEMP_DIR_def sample_job png_def
      getExtension_def new_dir_def rmSync_def empty_world_def)
  done

text \<open>
  \<^bold>\<open>C6.\<close> The claim: every handler writes the uploaded buffers unchanged to temporary files,
  and every byte of a successful response body is produced by an external tool, or copied
  from a file that an external tool produced. The second half fails for
  POST /api/merge-pdf-layers of railway-api/server.js (part_000 has the same last strategy):
  the last strategy copies \<^verbatim>\<open>artwork.pdf\<close> to \<^verbatim>\<open>output.pdf\<close>, and when the artwork is uploaded as
  a PDF, \<^verbatim>\<open>artwork.pdf\<close> is the file the server has written the upload to. On a machine on
  which \<^verbatim>\<open>gs\<close> and \<^verbatim>\<open>convert\<close> return without writing a file, and qpdf, pdftk and
  \<^verbatim>\<open>convert -density\<close> fail, the request with a template and a PDF artwork is answered with
  the PDF, after \<^verbatim>\<open>convert\<close>, \<^verbatim>\<open>gs\<close>, \<^verbatim>\<open>qpdf\<close>, \<^verbatim>\<open>pdftk\<close>, \<^verbatim>\<open>convert\<close>, and the body is the
  uploaded artwork: the content of \<^verbatim>\<open>output.pdf\<close> was written by \<^verbatim>\<open>writeFileSync\<close> and copied by
  \<^verbatim>\<open>copyFileSync\<close>, and no command has changed it. So \<open>bytes_untouched\<close> with no bytes allowed
  to come from the server does not hold of this run.
\<close>

theorem C6_counterexample:
  "files_template pdf_uploads = Some (pdf ''%PDF-template'') \<and>
   files_artwork pdf_uploads = Some (pdf ''%PDF-artwork'') \<and>
   pdf_body (fst (merge_pdf_layers_railway (sample_env idle_tools) pdf_uploads
     (start empty_world))) = Some ''%PDF-artwork'' \<and>
   programs (trace (snd (merge_pdf_layers_railway (sample_env idle_tools) pdf_uploads
     (start empty_world)))) = [''convert'', ''gs'', ''qpdf'', ''pdftk'', ''convert''] \<and>
   origin_of (sample_env idle_tools) (new_dir (jobDir_of (sample_env idle_tools)) empty_world)
     (trace (snd (merge_pdf_layers_railway (sample_env idle_tools) pdf_uploads
        (start empty_world))))
     (path_join (jobDir_of (sample_env idle_tools)) ''output.pdf'') = Server ''%PDF-artwork'' \<and>
   \<not> bytes_untouched (sample_env idle_tools) empty_world
     (merge_uploads (sample_env idle_tools) (pdf ''%PDF-template'') (pdf ''%PDF-artwork'')) [] []
     (merge_pdf_layers_railway (sample_env idle_tools) pdf_uploads (start empty_world))"
  using railway_on_idle_tools
  by (simp add: pdf_uploads_def bytes_untouched_def produced_def jobDir_of_def sample_job)

text \<open>
  \<^bold>\<open>C6, amended.\<close> The JavaScript code does not transform document bytes. In every handler
  of every file, for every request that passes the validation of the uploads, every
  environment, every file system the handler starts on and every behaviour of the external
  tools:

  \<^item> the first actions of the handler, console lines aside, are the writes of the uploaded
    buffers, each as it came, to its temporary file, and these writes return;
  \<^item> the only other files the handler writes are its PostScript scripts, which are text
    computed from the paths and the numeric fields of the request, not from the buffers;
  \<^item> when the response is the PDF, its body is the content of \<^verbatim>\<open>output.pdf\<close> after the
    writes, the copies and the commands of the run, and this content was last changed by a
    command of the run (and at most copied by the server since);
  \<^item> except that in the merge handlers of railway-api/server.js and of part_000, when the
    artwork was uploaded as a PDF, the body may also be the uploaded artwork, unchanged.

  What a command has put in a file is the tool's business and is not constrained here.
\<close>

theorem C6_document_bytes_untouched:
  assumes "files_artwork req = Some a"
  shows "(\<forall>t. files_template req = Some t \<longrightarrow>
     bytes_untouched e w (merge_uploads e t a) [] []
       (merge_pdf_layers_server e req (start w)) \<and>
     bytes_untouched e w (merge_uploads e t a) [] (pdf_artwork a)
       (merge_pdf_layers_railway e req (start w)) \<and>
     bytes_untouched e w (merge_uploads e t a) (part000_scripts e req a) (pdf_artwork a)
       (merge_pdf_layers_part000 e req (start w)) \<and>
     bytes_untouched e w (overlay_uploads e t a) (overlay_script e req) []
       (overlay_artwork_server e req (start w)) \<and>
     bytes_untouched e w (overlay_uploads e t a) (overlay_script e req) []
       (overlay_artwork_railway e req (start w)) \<and>
     bytes_untouched e w (overlay_uploads e t a) (overlay_script e req) []
       (overlay_artwork_part000 e req (start w))) \<and>
     bytes_untouched e w (create_uploads e (files_template req) a) (create_script e req) []
       (create_layered_pdf_server e req (start w)) \<and>
     bytes_untouched e w (create_uploads e (files_template req) a) (create_script e req) []
       (create_layered_pdf_railway e req (start w)) \<and>
     bytes_untouched e w (create_uploads e (files_template req) a) (create_script e req) []
       (create_layered_pdf_part000 e req (start w))"
  using assms
  apply (intro conjI allI impI)
          apply (rule untouched_merge_server; assumption)
         apply (rule untouched_merge_railway; assumption)
        apply (rule untouched_merge_part000; assumption)
       apply (rule untouched_overlay_server; assumption)
      apply (rule untouched_overlay_railway; assumption)
     apply (rule untouched_overlay_part000; assumption)
    apply (rule untouched_create_server; assumption)
   apply (rule untouched_create_railway; assumption)
  apply (rule untouched_create_part000; assumption)
  done

text \<open>A run that answers with the PDF: on the machine with ImageMagick and qpdf only, the
  body of the response of railway-api/server.js is the file that \<^verbatim>\<open>qpdf\<close>, the command of
  line 157, wrote.\<close>

theorem C6_document_bytes_untouched_witness:
  "files_artwork both_uploads = Some (png ''PNG-artwork'') \<and>
   files_template both_uploads = Some (pdf ''%PDF-template'') \<and>
   bytes_untouched (sample_env (qpdf_machine sample_output)) empty_world
     (merge_uploads (sample_env (qpdf_machine sample_output)) (pdf ''%PDF-template'')
        (png ''PNG-artwork'')) [] (pdf_artwork (png ''PNG-artwork''))
     (merge_pdf_layers_railway (sample_env (qpdf_machine sample_output)) both_uploads
        (start empty_world)) \<and>
   pdf_artwork (png ''PNG-artwork'') = [] \<and>
   pdf_body (fst (merge_pdf_layers_railway (sample_env (qpdf_machine sample_output))
     both_uploads (start empty_world))) = Some ''%PDF-merged'' \<and>
   origin_of (sample_env (qpdf_machine sample_output))
     (new_dir (jobDir_of (sample_env (qpdf_machine sample_output))) empty_world)
     (trace (snd (merge_pdf_layers_railway (sample_env (qpdf_machine sample_output))
        both_uploads (start empty_world))))
     (path_join (jobDir_of (sample_env (qpdf_machine sample_output))) ''output.pdf'') =
   Tool 157"
proof -
  have artwork: "files_artwork both_uploads = Some (png ''PNG-artwork'')"
    by (simp add: both_uploads_def)
  have template: "files_template both_uploads = Some (pdf ''%PDF-template'')"
    by (simp add: both_uploads_def)
  from C6_document_bytes_untouched
         [OF artwork, of "sample_env (qpdf_machine sample_output)" empty_world] template
  have "bytes_untouched (sample_env (qpdf_machine sample_output)) empty_world
     (merge_uploads (sample_env (qpdf_machine sample_output)) (pdf ''%PDF-template'')
        (png ''PNG-artwork'')) [] (pdf_artwork (png ''PNG-artwork''))
     (merge_pdf_layers_railway (sample_env (qpdf_machine sample_output)) both_uploads
        (start empty_world))"
    by blast
  moreover have "pdf_artwork (png ''PNG-artwork'') = []"
    by (simp add: pdf_artwork_def png_def getExtension_def)
  ultimately show ?thesis
    using railway_body_on_qpdf_machine artwork template
    by (simp add: jobDir_of_def sample_output_path)
qed
end
